theory Spec2Isabelle
  imports Complex_Main
begin

section \<open>JavaScript numbers\<close>

text \<open>
  The component computes with JavaScript numbers.  A number is modelled as a finite
  real, one of the two infinities, or NaN.  Rounding and overflow of doubles are left
  out (a finite result is the exact real), and zero carries no sign: a zero divisor is
  read as \<open>+0\<close>, which is what the divisors of this component are when they vanish
  (quotients of element sizes, a distance, a literal).  What is kept is everything the
  handlers can observe of a non-finite value: division by zero gives an infinity or NaN,
  NaN makes every comparison false, and \<open>Math.max\<close> and \<open>Math.min\<close> return NaN
  as soon as one argument is NaN.
\<close>

datatype jsnum = Fin real | PInf | NInf | NaN

instantiation jsnum :: "{plus, minus, uminus, times, inverse, ord}"
begin

fun plus_jsnum :: "jsnum \<Rightarrow> jsnum \<Rightarrow> jsnum" where
  "Fin a + Fin b = Fin (a + b)"
| "NaN + _ = NaN"
| "_ + NaN = NaN"
| "PInf + NInf = NaN"
| "NInf + PInf = NaN"
| "PInf + _ = PInf"
| "_ + PInf = PInf"
| "NInf + _ = NInf"
| "_ + NInf = NInf"

fun uminus_jsnum :: "jsnum \<Rightarrow> jsnum" where
  "- Fin a = Fin (- a)"
| "- PInf = NInf"
| "- NInf = PInf"
| "- NaN = NaN"

fun minus_jsnum :: "jsnum \<Rightarrow> jsnum \<Rightarrow> jsnum" where
  "Fin a - Fin b = Fin (a - b)"
| "NaN - _ = NaN"
| "_ - NaN = NaN"
| "PInf - PInf = NaN"
| "NInf - NInf = NaN"
| "PInf - _ = PInf"
| "_ - NInf = PInf"
| "NInf - _ = NInf"
| "_ - PInf = NInf"

fun times_jsnum :: "jsnum \<Rightarrow> jsnum \<Rightarrow> jsnum" where
  "Fin a * Fin b = Fin (a * b)"
| "NaN * _ = NaN"
| "_ * NaN = NaN"
| "PInf * Fin b = (if b = 0 then NaN else if 0 < b then PInf else NInf)"
| "NInf * Fin b = (if b = 0 then NaN else if 0 < b then NInf else PInf)"
| "Fin a * PInf = (if a = 0 then NaN else if 0 < a then PInf else NInf)"
| "Fin a * NInf = (if a = 0 then NaN else if 0 < a then NInf else PInf)"
| "PInf * PInf = PInf"
| "PInf * NInf = NInf"
| "NInf * PInf = NInf"
| "NInf * NInf = PInf"

fun divide_jsnum :: "jsnum \<Rightarrow> jsnum \<Rightarrow> jsnum" where
  "divide (Fin a) (Fin b) =
     (if b = 0 then (if a = 0 then NaN else if 0 < a then PInf else NInf)
      else Fin (a / b))"
| "divide NaN _ = NaN"
| "divide _ NaN = NaN"
| "divide (Fin a) PInf = Fin 0"
| "divide (Fin a) NInf = Fin 0"
| "divide PInf (Fin b) = (if 0 \<le> b then PInf else NInf)"
| "divide NInf (Fin b) = (if 0 \<le> b then NInf else PInf)"
| "divide PInf _ = NaN"
| "divide NInf _ = NaN"

definition inverse_jsnum :: "jsnum \<Rightarrow> jsnum" where
  "inverse_jsnum a = divide (Fin 1) a"

fun less_jsnum :: "jsnum \<Rightarrow> jsnum \<Rightarrow> bool" where
  "Fin a < Fin b = (a < b)"
| "NaN < _ = False"
| "_ < NaN = False"
| "PInf < _ = False"
| "_ < NInf = False"
| "_ < PInf = True"
| "NInf < _ = True"

fun less_eq_jsnum :: "jsnum \<Rightarrow> jsnum \<Rightarrow> bool" where
  "Fin a \<le> Fin b = (a \<le> b)"
| "NaN \<le> _ = False"
| "_ \<le> NaN = False"
| "_ \<le> PInf = True"
| "NInf \<le> _ = True"
| "PInf \<le> _ = False"
| "_ \<le> NInf = False"

instance ..

end

text \<open>\<open>Math.max\<close>, \<open>Math.min\<close>, \<open>Math.abs\<close>, \<open>Math.sqrt\<close> and \<open>isNaN\<close>.\<close>

fun Math_max :: "jsnum \<Rightarrow> jsnum \<Rightarrow> jsnum" where
  "Math_max NaN _ = NaN"
| "Math_max _ NaN = NaN"
| "Math_max a b = (if a < b then b else a)"

fun Math_min :: "jsnum \<Rightarrow> jsnum \<Rightarrow> jsnum" where
  "Math_min NaN _ = NaN"
| "Math_min _ NaN = NaN"
| "Math_min a b = (if b < a then b else a)"

fun Math_abs :: "jsnum \<Rightarrow> jsnum" where
  "Math_abs (Fin a) = Fin \<bar>a\<bar>"
| "Math_abs PInf = PInf"
| "Math_abs NInf = PInf"
| "Math_abs NaN = NaN"

fun Math_sqrt :: "jsnum \<Rightarrow> jsnum" where
  "Math_sqrt (Fin a) = (if a < 0 then NaN else Fin (sqrt a))"
| "Math_sqrt PInf = PInf"
| "Math_sqrt NInf = NaN"
| "Math_sqrt NaN = NaN"

fun isNaN :: "jsnum \<Rightarrow> bool" where
  "isNaN NaN = True"
| "isNaN _ = False"

fun isFinite :: "jsnum \<Rightarrow> bool" where
  "isFinite (Fin _) = True"
| "isFinite _ = False"

text \<open>A number in a condition (\<open>if (props.aspectRatio)\<close>) is false when it is
  zero or NaN.\<close>

fun truthy :: "jsnum \<Rightarrow> bool" where
  "truthy (Fin a) = (a \<noteq> 0)"
| "truthy NaN = False"
| "truthy _ = True"

section \<open>Geometry values\<close>

record XY =
  x :: jsnum
  y :: jsnum

record Crop =
  position :: XY
  size_xy :: XY

text \<open>\<open>function clamp(n, min = 0, max = 1)\<close>\<close>

definition clamp :: "jsnum \<Rightarrow> jsnum \<Rightarrow> jsnum \<Rightarrow> jsnum" where
  "clamp n lo hi = Math_max lo (Math_min hi n)"

definition ORIGIN_CENTER :: XY where
  "ORIGIN_CENTER = \<lparr>x = Fin 0.5, y = Fin 0.5\<rparr>"

text \<open>\<open>type Ratio = [number, number]\<close> and the catalog \<open>COMMON_RATIOS\<close>.\<close>

type_synonym Ratio = "jsnum \<times> jsnum"

definition COMMON_RATIOS :: "Ratio list" where
  "COMMON_RATIOS =
     [(Fin 1, Fin 1), (Fin 4, Fin 3), (Fin 3, Fin 2), (Fin 16, Fin 9), (Fin 2, Fin 1),
      (Fin 21, Fin 9)]"

text \<open>\<open>type Direction = "n" | "e" | "s" | "w" | "nw" | "ne" | "se" | "sw"\<close>: a
  direction is one of eight strings, and the handlers look at it with
  \<open>dir.includes(c)\<close> and \<open>dir.length\<close>.\<close>

datatype Direction = N | E | S | W | NW | NE | SE | SW

fun dir_string :: "Direction \<Rightarrow> string" where
  "dir_string N = ''n''"
| "dir_string E = ''e''"
| "dir_string S = ''s''"
| "dir_string W = ''w''"
| "dir_string NW = ''nw''"
| "dir_string NE = ''ne''"
| "dir_string SE = ''se''"
| "dir_string SW = ''sw''"

definition dir_includes :: "Direction \<Rightarrow> char \<Rightarrow> bool" where
  "dir_includes d c = (c \<in> set (dir_string d))"

definition dir_length :: "Direction \<Rightarrow> nat" where
  "dir_length d = length (dir_string d)"

definition KEY_MAPPINGS :: "string \<Rightarrow> Direction option" where
  "KEY_MAPPINGS =
     map_of [(''ArrowRight'', E), (''ArrowDown'', S), (''ArrowLeft'', W), (''ArrowUp'', N)]"

section \<open>The Box of \<open>~/utils/box\<close>\<close>

text \<open>
  The handlers build a \<open>Box\<close> from the crop, call its methods and commit
  \<open>box.toBounds()\<close>.  The class is imported from \<open>~/utils/box\<close>, a file that is
  not among the sources; its fields \<open>x\<close>, \<open>y\<close>, \<open>width\<close>, \<open>height\<close> are
  read by the handlers (here \<open>box_x\<close>, \<open>box_y\<close>, since \<open>x\<close> and \<open>y\<close> are
  the fields of \<open>XY\<close>), and its methods are modelled from section 4.1 of the
  specification.
\<close>

record Box =
  box_x :: jsnum
  box_y :: jsnum
  width :: jsnum
  height :: jsnum

text \<open>Modelled from the spec: \<open>Box.from(position, size)\<close> of the missing
  \<open>utils/box\<close>; "a Box is constructed transiently inside each mutation handler from
  the current externally-owned crop value".\<close>

definition Box_from :: "XY \<Rightarrow> XY \<Rightarrow> Box" where
  "Box_from pos sz = \<lparr>box_x = x pos, box_y = y pos, width = x sz, height = y sz\<rparr>"

text \<open>Modelled from the spec: \<open>move(x, y)\<close> of the missing \<open>utils/box\<close>; "sets
  top-left corner directly; caller is responsible for pre-clamping; does not itself
  enforce boundary".\<close>

definition move :: "jsnum \<Rightarrow> jsnum \<Rightarrow> Box \<Rightarrow> Box" where
  "move nx ny b = b\<lparr>box_x := nx, box_y := ny\<rparr>"

text \<open>Modelled from the spec: \<open>resize(width, height, origin)\<close> of the missing
  \<open>utils/box\<close>; "changes size while keeping the point identified by origin (a
  normalized 0..1 anchor) fixed in mapped space".  The anchor is the point
  \<open>position + size * origin\<close>.\<close>

definition resize :: "jsnum \<Rightarrow> jsnum \<Rightarrow> XY \<Rightarrow> Box \<Rightarrow> Box" where
  "resize newWidth newHeight origin b =
     (let fromX = box_x b + width b * x origin;
          fromY = box_y b + height b * y origin
      in \<lparr>box_x = fromX - newWidth * x origin, box_y = fromY - newHeight * y origin,
          width = newWidth, height = newHeight\<rparr>)"

text \<open>Modelled from the spec: \<open>constrainToBoundary(maxX, maxY, origin)\<close> of the
  missing \<open>utils/box\<close>; "clamps size down if it exceeds the container, then clamps
  position so the box stays fully inside [0, maxX] x [0, maxY], preserving the anchor
  where possible".  The size is cut to the boundary by a resize about the anchor; the
  position is then clamped with the component's \<open>clamp\<close>.\<close>

definition constrainToBoundary :: "jsnum \<Rightarrow> jsnum \<Rightarrow> XY \<Rightarrow> Box \<Rightarrow> Box" where
  "constrainToBoundary maxX maxY origin b =
     (let w = (if maxX < width b then maxX else width b);
          h = (if maxY < height b then maxY else height b);
          b1 = resize w h origin b
      in b1\<lparr>box_x := clamp (box_x b1) (Fin 0) (maxX - width b1),
             box_y := clamp (box_y b1) (Fin 0) (maxY - height b1)\<rparr>)"

text \<open>Modelled from the spec: \<open>toBounds()\<close> of the missing \<open>utils/box\<close>; "returns
  the immutable {position, size} snapshot for commit".\<close>

definition toBounds :: "Box \<Rightarrow> Crop" where
  "toBounds b =
     \<lparr>position = \<lparr>x = box_x b, y = box_y b\<rparr>, size_xy = \<lparr>x = width b, y = height b\<rparr>\<rparr>"

section \<open>The component's state\<close>

text \<open>
  \<open>Cropper\<close> keeps no crop of its own: \<open>crop\<close> is \<open>props.value\<close>, and
  \<open>setCrop\<close> hands the new value to \<open>props.onCropChange\<close>.  The host stores it, so
  the next read of \<open>crop\<close> sees it; that is the field \<open>crop\<close> below (its
  \<open>size\<close> is the field \<open>size_xy\<close>).  The other fields are the props the
  handlers read, the observed container size, the signals and the store of the
  component, and its two module-level variables.  A pending \<open>setTimeout\<close> of the
  overlay's position is kept as its target and delay; the haptic command is counted.
\<close>

record GestureState =
  isTrackpadGesture :: bool
  lastTouchCenter :: "XY option"
  initialPinchDistance :: jsnum
  initialSize :: "jsnum \<times> jsnum"

datatype Placement = Bottom | Top

record KeyboardEvent =
  key :: string
  shiftKey :: bool
  altKey :: bool
  metaKey :: bool
  ctrlKey :: bool

record Cropper =
  crop :: Crop
  props_mappedSize :: "XY option"
  props_aspectRatio :: "jsnum option"
  containerSize :: XY
  snapToRatioEnabled :: bool
  snappedRatio :: "Ratio option"
  dragging :: bool
  gestureState :: GestureState
  hapticsEnabled :: bool
  hapticFeedbacks :: nat
  lastKeyHandleFrame :: "KeyboardEvent option"
  recordingBoxPosition :: Placement
  positionChangeTimeout :: "(Placement \<times> nat) option"

definition setCrop :: "Crop \<Rightarrow> Cropper \<Rightarrow> Cropper" where
  "setCrop v cs = cs\<lparr>crop := v\<rparr>"

text \<open>\<open>createMemo(() => props.mappedSize || containerSize())\<close>: an object is always
  true in a condition.\<close>

definition mappedSize :: "Cropper \<Rightarrow> XY" where
  "mappedSize cs = (case props_mappedSize cs of Some m \<Rightarrow> m | None \<Rightarrow> containerSize cs)"

definition minSize :: "Cropper \<Rightarrow> XY" where
  "minSize cs =
     (let mapped = mappedSize cs
      in \<lparr>x = Math_min (Fin 100) (x mapped * Fin 0.1),
          y = Math_min (Fin 100) (y mapped * Fin 0.1)\<rparr>)"

definition containerToMappedSizeScale :: "Cropper \<Rightarrow> XY" where
  "containerToMappedSizeScale cs =
     (let container = containerSize cs; mapped = mappedSize cs
      in \<lparr>x = x container / x mapped, y = y container / y mapped\<rparr>)"

section \<open>The overlay's position\<close>

text \<open>
  \<open>updateRecordingBoxPosition\<close> measures the page: the crop area's rectangle, the
  overlay's height and the window's height.  These are finite numbers read from the
  layout, modelled as reals; the function returns at once when one of the two elements
  is not mounted, which is \<open>None\<close> here.
\<close>

record Layout =
  cropRect_top :: real
  cropRect_bottom :: real
  boxHeight :: real
  innerHeight :: real

definition setPositionTimeout :: "Placement \<Rightarrow> nat \<Rightarrow> Cropper \<Rightarrow> Cropper" where
  "setPositionTimeout p delay cs = cs\<lparr>positionChangeTimeout := Some (p, delay)\<rparr>"

definition updateRecordingBoxPosition :: "Layout option \<Rightarrow> Cropper \<Rightarrow> Cropper" where
  "updateRecordingBoxPosition refs cs =
     (case refs of
        None \<Rightarrow> cs
      | Some l \<Rightarrow>
          (let boxH = boxHeight l;
               windowHeight = innerHeight l;
               currentPosition = recordingBoxPosition cs;
               bottomSpace = windowHeight - cropRect_bottom l;
               topSpace = cropRect_top l;
               cs1 = cs\<lparr>positionChangeTimeout := None\<rparr>;
               delay = (if dragging cs then 0 else 50)
           in if currentPosition = Bottom then
                (if bottomSpace < boxH + 40 then
                   (if topSpace > boxH + 40 then setPositionTimeout Top delay cs1
                    else if topSpace > bottomSpace then setPositionTimeout Top delay cs1
                    else cs1)
                 else cs1)
              else
                (if topSpace < boxH + 40 then
                   (if bottomSpace > boxH + 40 then setPositionTimeout Bottom delay cs1
                    else if bottomSpace > topSpace then setPositionTimeout Bottom delay cs1
                    else cs1)
                 else if bottomSpace > boxH + 50 then setPositionTimeout Bottom delay cs1
                 else cs1)))"

text \<open>The pending timer runs: \<open>setRecordingBoxPosition(target)\<close>.\<close>

definition positionTimeoutFires :: "Cropper \<Rightarrow> Cropper" where
  "positionTimeoutFires cs =
     (case positionChangeTimeout cs of
        None \<Rightarrow> cs
      | Some (p, delay) \<Rightarrow> cs\<lparr>recordingBoxPosition := p, positionChangeTimeout := None\<rparr>)"

section \<open>Drag\<close>

record MouseEvent =
  clientX :: jsnum
  clientY :: jsnum
  targetTagName :: string

text \<open>What the closure of one drag holds: the last pointer position and the scale
  factors read when the drag started.\<close>

record DragGesture =
  lastX :: jsnum
  lastY :: jsnum
  drag_scaleFactors :: XY

definition handleDragStart :: "MouseEvent \<Rightarrow> Cropper \<Rightarrow> Cropper \<times> DragGesture option" where
  "handleDragStart event cs =
     (if isTrackpadGesture (gestureState cs) \<or> targetTagName event = ''INPUT'' then (cs, None)
      else (cs\<lparr>dragging := True\<rparr>,
            Some \<lparr>lastX = clientX event, lastY = clientY event,
                  drag_scaleFactors = containerToMappedSizeScale cs\<rparr>))"

definition handleDrag ::
  "MouseEvent \<Rightarrow> Layout option \<Rightarrow> DragGesture \<Rightarrow> Cropper \<Rightarrow> DragGesture \<times> Cropper" where
  "handleDrag event refs g cs =
     (let dx = (clientX event - lastX g) / x (drag_scaleFactors g);
          dy = (clientY event - lastY g) / y (drag_scaleFactors g);
          g1 = g\<lparr>lastX := clientX event, lastY := clientY event\<rparr>;
          mapped = mappedSize cs;
          box0 = Box_from (position (crop cs)) (size_xy (crop cs));
          box1 = move (clamp (box_x box0 + dx) (Fin 0) (x mapped - width box0))
                      (clamp (box_y box0 + dy) (Fin 0) (y mapped - height box0)) box0
      in (g1, updateRecordingBoxPosition refs (setCrop (toBounds box1) cs)))"

definition handleDragEnd :: "Layout option \<Rightarrow> Cropper \<Rightarrow> Cropper" where
  "handleDragEnd refs cs = updateRecordingBoxPosition refs (cs\<lparr>dragging := False\<rparr>)"

text \<open>A whole drag: the mouse goes down, then moves through the given events.  The
  layout is measured anew at each event.\<close>

fun handleDrags :: "(MouseEvent \<times> Layout option) list \<Rightarrow> DragGesture \<Rightarrow> Cropper \<Rightarrow> DragGesture \<times> Cropper" where
  "handleDrags [] g cs = (g, cs)"
| "handleDrags (e # es) g cs =
     (case handleDrag (fst e) (snd e) g cs of (g1, cs1) \<Rightarrow> handleDrags es g1 cs1)"

section \<open>Wheel\<close>

record WheelEvent =
  wheel_ctrlKey :: bool
  deltaX :: jsnum
  deltaY :: jsnum

text \<open>The two constants of the scaling branch: \<open>velocity\<close> and \<open>scale\<close>.\<close>

definition scaleVelocity :: "jsnum \<Rightarrow> jsnum" where
  "scaleVelocity dY = Math_max (Fin 0.001) (Math_abs dY * Fin 0.001)"

definition wheelScale :: "jsnum \<Rightarrow> jsnum" where
  "wheelScale dY = Fin 1 - dY * scaleVelocity dY"

text \<open>The timer that clears \<open>isTrackpadGesture\<close> 100 ms later is the separate step
  \<open>trackpadGestureTimeout\<close>.\<close>

definition handleWheel :: "WheelEvent \<Rightarrow> Cropper \<Rightarrow> Cropper" where
  "handleWheel event cs =
     (let box0 = Box_from (position (crop cs)) (size_xy (crop cs));
          mapped = mappedSize cs
      in if wheel_ctrlKey event then
           (let cs1 = cs\<lparr>gestureState := (gestureState cs)\<lparr>isTrackpadGesture := True\<rparr>\<rparr>;
                scale = wheelScale (deltaY event);
                box1 = resize (clamp (width box0 * scale) (x (minSize cs)) (x mapped))
                              (clamp (height box0 * scale) (y (minSize cs)) (y mapped))
                              ORIGIN_CENTER box0;
                box2 = constrainToBoundary (x mapped) (y mapped) ORIGIN_CENTER box1
            in setCrop (toBounds box2) (cs1\<lparr>snappedRatio := None\<rparr>))
         else
           (let velocity = Math_max (Fin 1) (Math_abs (deltaY event) * Fin 0.01);
                scaleFactors = containerToMappedSizeScale cs;
                dx = (- deltaX event * velocity) / x scaleFactors;
                dy = (- deltaY event * velocity) / y scaleFactors;
                box1 = move (clamp (box_x box0 + dx) (Fin 0) (x mapped - width box0))
                            (clamp (box_y box0 + dy) (Fin 0) (y mapped - height box0)) box0
            in setCrop (toBounds box1) cs))"

definition trackpadGestureTimeout :: "Cropper \<Rightarrow> Cropper" where
  "trackpadGestureTimeout cs = cs\<lparr>gestureState := (gestureState cs)\<lparr>isTrackpadGesture := False\<rparr>\<rparr>"

section \<open>Touch\<close>

record Touch =
  touch_clientX :: jsnum
  touch_clientY :: jsnum

definition distanceOf :: "Touch \<Rightarrow> Touch \<Rightarrow> jsnum" where
  "distanceOf firstPoint secondPoint =
     (let dx = touch_clientX firstPoint - touch_clientX secondPoint;
          dy = touch_clientY firstPoint - touch_clientY secondPoint
      in Math_sqrt (dx * dx + dy * dy))"

text \<open>A touch event is its list \<open>event.touches\<close>.\<close>

definition handleTouchStart :: "Touch list \<Rightarrow> Cropper \<Rightarrow> Cropper" where
  "handleTouchStart touches cs =
     (if length touches = 2 then
        (let distance = distanceOf (touches ! 0) (touches ! 1);
             centerX = (touch_clientX (touches ! 0) + touch_clientX (touches ! 1)) / Fin 2;
             centerY = (touch_clientY (touches ! 0) + touch_clientY (touches ! 1)) / Fin 2
         in cs\<lparr>gestureState := (gestureState cs)
                 \<lparr>initialPinchDistance := distance,
                  initialSize := (x (size_xy (crop cs)), y (size_xy (crop cs))),
                  lastTouchCenter := Some \<lparr>x = centerX, y = centerY\<rparr>\<rparr>\<rparr>)
      else if length touches = 1 then
        cs\<lparr>dragging := True,
           gestureState := (gestureState cs)
             \<lparr>lastTouchCenter :=
                Some \<lparr>x = touch_clientX (touches ! 0), y = touch_clientY (touches ! 0)\<rparr>\<rparr>\<rparr>
      else cs)"

text \<open>The block of \<open>handleTouchMove\<close> that computes the pinched size,
  \<open>(newWidth, newHeight)\<close>, from the scale of the pinch.\<close>

definition pinchSize :: "jsnum \<Rightarrow> Cropper \<Rightarrow> jsnum \<times> jsnum" where
  "pinchSize scale cs =
     (let mapped = mappedSize cs;
          currentRatio = x (size_xy (crop cs)) / y (size_xy (crop cs));
          newWidth0 = clamp (fst (initialSize (gestureState cs)) * scale)
                            (x (minSize cs)) (x mapped);
          newHeight0 = newWidth0 / currentRatio;
          adjust = (newHeight0 < y (minSize cs) \<or> newHeight0 > y mapped);
          newHeight = (if adjust then clamp newHeight0 (y (minSize cs)) (y mapped)
                       else newHeight0);
          newWidth = (if adjust then newHeight * currentRatio else newWidth0)
      in (newWidth, newHeight))"

definition handleTouchMove :: "Touch list \<Rightarrow> Cropper \<Rightarrow> Cropper" where
  "handleTouchMove touches cs =
     (if length touches = 2 then
        (let currentDistance = distanceOf (touches ! 0) (touches ! 1);
             scale = currentDistance / initialPinchDistance (gestureState cs);
             box0 = Box_from (position (crop cs)) (size_xy (crop cs));
             mapped = mappedSize cs;
             box1 = resize (fst (pinchSize scale cs)) (snd (pinchSize scale cs))
                      ORIGIN_CENTER box0;
             centerX = (touch_clientX (touches ! 0) + touch_clientX (touches ! 1)) / Fin 2;
             centerY = (touch_clientY (touches ! 0) + touch_clientY (touches ! 1)) / Fin 2;
             box2 = (case lastTouchCenter (gestureState cs) of
                       None \<Rightarrow> box1
                     | Some c \<Rightarrow>
                         (let scaleFactors = containerToMappedSizeScale cs;
                              dx = (centerX - x c) / x scaleFactors;
                              dy = (centerY - y c) / y scaleFactors
                          in move (clamp (box_x box1 + dx) (Fin 0) (x mapped - width box1))
                                  (clamp (box_y box1 + dy) (Fin 0) (y mapped - height box1))
                                  box1))
         in setCrop (toBounds box2)
              (cs\<lparr>gestureState := (gestureState cs)
                    \<lparr>lastTouchCenter := Some \<lparr>x = centerX, y = centerY\<rparr>\<rparr>\<rparr>))
      else if length touches = 1 \<and> dragging cs then
        (let box0 = Box_from (position (crop cs)) (size_xy (crop cs));
             scaleFactors = containerToMappedSizeScale cs;
             mapped = mappedSize cs;
             box1 = (case lastTouchCenter (gestureState cs) of
                       None \<Rightarrow> box0
                     | Some c \<Rightarrow>
                         (let dx = (touch_clientX (touches ! 0) - x c) / x scaleFactors;
                              dy = (touch_clientY (touches ! 0) - y c) / y scaleFactors
                          in move (clamp (box_x box0 + dx) (Fin 0) (x mapped - width box0))
                                  (clamp (box_y box0 + dy) (Fin 0) (y mapped - height box0))
                                  box0))
         in setCrop (toBounds box1)
              (cs\<lparr>gestureState := (gestureState cs)
                    \<lparr>lastTouchCenter :=
                       Some \<lparr>x = touch_clientX (touches ! 0),
                             y = touch_clientY (touches ! 0)\<rparr>\<rparr>\<rparr>))
      else cs)"

definition handleTouchEnd :: "Touch list \<Rightarrow> Cropper \<Rightarrow> Cropper" where
  "handleTouchEnd touches cs =
     (if length touches = 0 then
        cs\<lparr>dragging := False, gestureState := (gestureState cs)\<lparr>lastTouchCenter := None\<rparr>\<rparr>
      else if length touches = 1 then
        cs\<lparr>gestureState := (gestureState cs)
             \<lparr>lastTouchCenter :=
                Some \<lparr>x = touch_clientX (touches ! 0), y = touch_clientY (touches ! 0)\<rparr>\<rparr>\<rparr>
      else cs)"

section \<open>Resizing by a handle\<close>

text \<open>\<open>if (props.aspectRatio)\<close>: a fixed aspect ratio is configured when the prop
  is a number other than zero and NaN.\<close>

definition aspectRatioSet :: "Cropper \<Rightarrow> bool" where
  "aspectRatioSet cs = (case props_aspectRatio cs of None \<Rightarrow> False | Some r \<Rightarrow> truthy r)"

text \<open>The loop of \<open>findClosestRatio\<close> over the catalog, with its two early
  returns.  The comparison with the threshold is that of exact reals: a size whose ratio
  is within a rounding error of the threshold away from a catalog ratio (402 x 200
  against 2:1, exactly 0.01 away) can compare the other way in doubles.\<close>

fun closestIn :: "jsnum \<Rightarrow> jsnum \<Rightarrow> Ratio list \<Rightarrow> Ratio option" where
  "closestIn currentRatio threshold [] = None"
| "closestIn currentRatio threshold (ratio # rest) =
     (if Math_abs (currentRatio - fst ratio / snd ratio) < threshold
        then Some (fst ratio, snd ratio)
      else if Math_abs (currentRatio - snd ratio / fst ratio) < threshold
        then Some (snd ratio, fst ratio)
      else closestIn currentRatio threshold rest)"

definition findClosestRatio :: "Cropper \<Rightarrow> jsnum \<Rightarrow> jsnum \<Rightarrow> jsnum \<Rightarrow> Ratio option" where
  "findClosestRatio cs w h threshold =
     (if aspectRatioSet cs then None
      else closestIn (w / h) threshold COMMON_RATIOS)"

text \<open>The closure of one resize gesture, made by \<open>handleResizeStart\<close>: the handle's
  direction and anchor, the last pointer position, and the box, the scale factors and
  the mapped size read when the gesture started.\<close>

record ResizeGesture =
  dir :: Direction
  origin :: XY
  lastValidPos :: XY
  box :: Box
  scaleFactors :: XY
  mapped :: XY

definition handleResizeStart :: "jsnum \<Rightarrow> jsnum \<Rightarrow> Direction \<Rightarrow> Cropper \<Rightarrow> ResizeGesture" where
  "handleResizeStart cX cY d cs =
     \<lparr>dir = d,
      origin = \<lparr>x = (if dir_includes d CHR ''w'' then Fin 1 else Fin 0),
                y = (if dir_includes d CHR ''n'' then Fin 1 else Fin 0)\<rparr>,
      lastValidPos = \<lparr>x = cX, y = cY\<rparr>,
      box = Box_from (position (crop cs)) (size_xy (crop cs)),
      scaleFactors = containerToMappedSizeScale cs,
      mapped = mappedSize cs\<rparr>"

text \<open>\<open>newWidth\<close> and \<open>newHeight\<close>: the candidate size of a resize.  The pointer
  handler and the keyboard handler compute it with the same two expressions, from the
  pointer's delta and from the key's step.\<close>

definition newWidth :: "Direction \<Rightarrow> Crop \<Rightarrow> jsnum \<Rightarrow> jsnum \<Rightarrow> XY \<Rightarrow> XY \<Rightarrow> jsnum" where
  "newWidth d currentBox delta scaleMultiplier minSz mappedSz =
     (if dir_includes d CHR ''e'' \<or> dir_includes d CHR ''w'' then
        clamp (if dir_includes d CHR ''w''
                 then x (size_xy currentBox) - delta * scaleMultiplier
                 else x (size_xy currentBox) + delta * scaleMultiplier)
              (x minSz) (x mappedSz)
      else x (size_xy currentBox))"

definition newHeight :: "Direction \<Rightarrow> Crop \<Rightarrow> jsnum \<Rightarrow> jsnum \<Rightarrow> XY \<Rightarrow> XY \<Rightarrow> jsnum" where
  "newHeight d currentBox delta scaleMultiplier minSz mappedSz =
     (if dir_includes d CHR ''n'' \<or> dir_includes d CHR ''s'' then
        clamp (if dir_includes d CHR ''n''
                 then y (size_xy currentBox) - delta * scaleMultiplier
                 else y (size_xy currentBox) + delta * scaleMultiplier)
              (y minSz) (y mappedSz)
      else y (size_xy currentBox))"

text \<open>The condition of the snap, \<open>dir.length === 2 && snapToRatioEnabled() && closest\<close>,
  as the match it lets through.\<close>

definition snapMatch :: "Direction \<Rightarrow> Cropper \<Rightarrow> Ratio option \<Rightarrow> Ratio option" where
  "snapMatch d cs closest = (if dir_length d = 2 \<and> snapToRatioEnabled cs then closest else None)"

text \<open>The first half of \<open>handleResizeMove\<close>, up to the candidate size
  \<open>(newWidth, newHeight)\<close> that \<open>findClosestRatio\<close> is then asked about.\<close>

definition resizeCandidate ::
  "jsnum \<Rightarrow> jsnum \<Rightarrow> bool \<Rightarrow> ResizeGesture \<Rightarrow> Cropper \<Rightarrow> jsnum \<times> jsnum" where
  "resizeCandidate moveX moveY centerOrigin g cs =
     (let dx = (moveX - x (lastValidPos g)) / x (scaleFactors g);
          dy = (moveY - y (lastValidPos g)) / y (scaleFactors g);
          scaleMultiplier = (if centerOrigin then Fin 2 else Fin 1);
          currentBox = toBounds (box g)
      in (newWidth (dir g) currentBox dx scaleMultiplier (minSize cs) (mapped g),
          newHeight (dir g) currentBox dy scaleMultiplier (minSize cs) (mapped g)))"

definition handleResizeMove ::
  "jsnum \<Rightarrow> jsnum \<Rightarrow> bool \<Rightarrow> ResizeGesture \<Rightarrow> Cropper \<Rightarrow> ResizeGesture \<times> Cropper" where
  "handleResizeMove moveX moveY centerOrigin g cs =
     (let newWidth0 = fst (resizeCandidate moveX moveY centerOrigin g cs);
          newHeight0 = snd (resizeCandidate moveX moveY centerOrigin g cs);
          closest = findClosestRatio cs newWidth0 newHeight0 (Fin 0.01);
          snapped = snapMatch (dir g) cs closest;
          newWidth1 =
            (case snapped of
               None \<Rightarrow> newWidth0
             | Some c \<Rightarrow>
                 if dir_includes (dir g) CHR ''n'' \<or> dir_includes (dir g) CHR ''s''
                 then newHeight0 * (fst c / snd c) else newWidth0);
          newHeight1 =
            (case snapped of
               None \<Rightarrow> newHeight0
             | Some c \<Rightarrow>
                 if dir_includes (dir g) CHR ''n'' \<or> dir_includes (dir g) CHR ''s''
                 then newHeight0 else newWidth0 / (fst c / snd c));
          cs1 = (if snapped \<noteq> None \<and> snappedRatio cs = None \<and> hapticsEnabled cs
                 then cs\<lparr>hapticFeedbacks := Suc (hapticFeedbacks cs)\<rparr> else cs);
          cs2 = cs1\<lparr>snappedRatio := snapped\<rparr>;
          newOrigin = (if centerOrigin then ORIGIN_CENTER else origin g);
          box1 = resize newWidth1 newHeight1 newOrigin (box g);
          box2 = constrainToBoundary (x (mapped g)) (y (mapped g)) newOrigin box1
      in (g\<lparr>lastValidPos := \<lparr>x = moveX, y = moveY\<rparr>, box := box2\<rparr>,
          setCrop (toBounds box2) cs2))"

section \<open>Keyboard\<close>

text \<open>
  \<open>handleKeyDown\<close> handles at most one key per animation frame: the first arrow key
  requests the frame, and the frame's callback works with that event.  The pending
  frame is the field \<open>lastKeyHandleFrame\<close>; the callback is \<open>handleKeyFrame\<close>.
\<close>

definition handleKeyDown :: "KeyboardEvent \<Rightarrow> Cropper \<Rightarrow> Cropper" where
  "handleKeyDown event cs =
     (case KEY_MAPPINGS (key event) of
        None \<Rightarrow> cs
      | Some d \<Rightarrow>
          if lastKeyHandleFrame cs \<noteq> None then cs
          else cs\<lparr>lastKeyHandleFrame := Some event\<rparr>)"

definition keyFrame :: "KeyboardEvent \<Rightarrow> Direction \<Rightarrow> Cropper \<Rightarrow> Cropper" where
  "keyFrame event d cs =
     (let box0 = Box_from (position (crop cs)) (size_xy (crop cs));
          mapped = mappedSize cs;
          scaleFactors = containerToMappedSizeScale cs;
          moveDelta = (if shiftKey event then Fin 20 else Fin 5);
          origin = (if altKey event then ORIGIN_CENTER else \<lparr>x = Fin 0, y = Fin 0\<rparr>);
          isLeftKey = dir_includes d CHR ''w'';
          isRightKey = dir_includes d CHR ''e'';
          isUpKey = dir_includes d CHR ''n'';
          isDownKey = dir_includes d CHR ''s'';
          box1 =
            (if metaKey event \<or> ctrlKey event then
               (let scaleMultiplier = (if altKey event then Fin 2 else Fin 1);
                    currentBox = toBounds box0;
                    newWidth0 = newWidth d currentBox moveDelta scaleMultiplier (minSize cs) mapped;
                    newHeight0 = newHeight d currentBox moveDelta scaleMultiplier (minSize cs) mapped
                in resize newWidth0 newHeight0 origin box0)
             else
               (let dx = (if isRightKey then moveDelta else if isLeftKey then - moveDelta else Fin 0)
                           / x scaleFactors;
                    dy = (if isDownKey then moveDelta else if isUpKey then - moveDelta else Fin 0)
                           / y scaleFactors
                in move (clamp (box_x box0 + dx) (Fin 0) (x mapped - width box0))
                        (clamp (box_y box0 + dy) (Fin 0) (y mapped - height box0)) box0));
          box2 = constrainToBoundary (x mapped) (y mapped) origin box1
      in (setCrop (toBounds box2) cs)\<lparr>lastKeyHandleFrame := None\<rparr>)"

definition handleKeyFrame :: "Cropper \<Rightarrow> Cropper" where
  "handleKeyFrame cs =
     (case lastKeyHandleFrame cs of
        None \<Rightarrow> cs
      | Some event \<Rightarrow>
          (case KEY_MAPPINGS (key event) of
             None \<Rightarrow> cs
           | Some d \<Rightarrow> keyFrame event d cs))"

section \<open>Typing a size or a position\<close>

text \<open>
  \<open>parseInt(target.value)\<close> with no radix: white space is skipped, a sign is read, a
  prefix \<open>0x\<close> switches to radix 16, and the digits up to the first character that
  is not one are the value; with no digit the result is NaN.  The text is taken to be
  ASCII, so the white space is ASCII white space, and the value is the exact integer:
  the rounding of a value above \<open>2^53\<close> and the overflow of a very long digit string
  to \<open>Infinity\<close> are left out.
\<close>

definition isWhiteSpace :: "char \<Rightarrow> bool" where
  "isWhiteSpace c = (c \<in> set [CHR 0x09, CHR 0x0A, CHR 0x0B, CHR 0x0C, CHR 0x0D, CHR '' ''])"

fun indexOf :: "char \<Rightarrow> string \<Rightarrow> nat option" where
  "indexOf c [] = None"
| "indexOf c (d # ds) =
     (if c = d then Some 0 else (case indexOf c ds of None \<Rightarrow> None | Some i \<Rightarrow> Some (Suc i)))"

definition digitValue :: "nat \<Rightarrow> char \<Rightarrow> nat option" where
  "digitValue radix c =
     (let v = (case indexOf c ''0123456789abcdef'' of
                 Some i \<Rightarrow> Some i
               | None \<Rightarrow> (case indexOf c ''ABCDEF'' of Some i \<Rightarrow> Some (10 + i) | None \<Rightarrow> None))
      in case v of None \<Rightarrow> None | Some i \<Rightarrow> if i < radix then Some i else None)"

fun parseDigits :: "nat \<Rightarrow> string \<Rightarrow> nat option \<Rightarrow> nat option" where
  "parseDigits radix [] acc = acc"
| "parseDigits radix (c # cs) acc =
     (case digitValue radix c of
        None \<Rightarrow> acc
      | Some v \<Rightarrow>
          parseDigits radix cs (Some (case acc of None \<Rightarrow> v | Some a \<Rightarrow> a * radix + v)))"

definition parseInt :: "string \<Rightarrow> jsnum" where
  "parseInt s =
     (let s0 = dropWhile isWhiteSpace s;
          sign = (if take 1 s0 = ''-'' then - 1 else 1 :: real);
          s1 = (if take 1 s0 = ''+'' \<or> take 1 s0 = ''-'' then drop 1 s0 else s0);
          hex = (take 2 s1 = ''0x'' \<or> take 2 s1 = ''0X'');
          radix = (if hex then 16 else 10);
          s2 = (if hex then drop 2 s1 else s1)
      in case parseDigits radix s2 None of
           None \<Rightarrow> NaN
         | Some n \<Rightarrow> Fin (sign * real n))"

text \<open>The handlers of the four text fields.  Each also stores the typed text in the
  field's own signal, which no geometry reads; that signal is left out.\<close>

definition handleSizeXChange :: "string \<Rightarrow> Cropper \<Rightarrow> Cropper" where
  "handleSizeXChange target_value cs =
     (let v = parseInt target_value
      in if \<not> isNaN v \<and> Fin 50 \<le> v then
           setCrop \<lparr>position = position (crop cs),
                    size_xy = \<lparr>x = v, y = y (size_xy (crop cs))\<rparr>\<rparr> cs
         else cs)"

definition handleSizeYChange :: "string \<Rightarrow> Cropper \<Rightarrow> Cropper" where
  "handleSizeYChange target_value cs =
     (let v = parseInt target_value
      in if \<not> isNaN v \<and> Fin 50 \<le> v then
           setCrop \<lparr>position = position (crop cs),
                    size_xy = \<lparr>x = x (size_xy (crop cs)), y = v\<rparr>\<rparr> cs
         else cs)"

datatype Axis = AxisX | AxisY

definition handlePositionChange :: "string \<Rightarrow> Axis \<Rightarrow> Cropper \<Rightarrow> Cropper" where
  "handlePositionChange target_value axis cs =
     (let v = parseInt target_value
      in if \<not> isNaN v \<and> Fin 0 \<le> v then
           setCrop \<lparr>position = \<lparr>x = (if axis = AxisX then v else x (position (crop cs))),
                                 y = (if axis = AxisY then v else y (position (crop cs)))\<rparr>,
                    size_xy = size_xy (crop cs)\<rparr> cs
         else cs)"

section \<open>Scenarios\<close>

text \<open>A mouse event at a finite pointer position, on the crop area's own element.\<close>

definition mouseAt :: "real \<Rightarrow> real \<Rightarrow> MouseEvent" where
  "mouseAt px py = \<lparr>clientX = Fin px, clientY = Fin py, targetTagName = ''DIV''\<rparr>"

definition idleGesture :: GestureState where
  "idleGesture =
     \<lparr>isTrackpadGesture = False, lastTouchCenter = None, initialPinchDistance = Fin 0,
      initialSize = (Fin 0, Fin 0)\<rparr>"

text \<open>The component over a mapped size and a container size, with a crop, no fixed
  aspect ratio, snapping enabled, and its signals as they are initialised.\<close>

definition cropperOf :: "XY \<Rightarrow> XY \<Rightarrow> Crop \<Rightarrow> Cropper" where
  "cropperOf mappedSz containerSz c =
     \<lparr>crop = c, props_mappedSize = Some mappedSz, props_aspectRatio = None,
      containerSize = containerSz, snapToRatioEnabled = True, snappedRatio = None,
      dragging = False, gestureState = idleGesture, hapticsEnabled = False,
      hapticFeedbacks = 0, lastKeyHandleFrame = None, recordingBoxPosition = Bottom,
      positionChangeTimeout = None\<rparr>"

text \<open>The end-to-end scenario of the specification: mapped size 1000 x 1000, the
  container of the same size, the crop at (0, 0) with size 500 x 500.\<close>

definition scenarioCropper :: Cropper where
  "scenarioCropper =
     cropperOf \<lparr>x = Fin 1000, y = Fin 1000\<rparr> \<lparr>x = Fin 1000, y = Fin 1000\<rparr>
       \<lparr>position = \<lparr>x = Fin 0, y = Fin 0\<rparr>, size_xy = \<lparr>x = Fin 500, y = Fin 500\<rparr>\<rparr>"

text \<open>The space below and above the crop area that \<open>updateRecordingBoxPosition\<close>
  compares, \<open>bottomSpace\<close> and \<open>topSpace\<close>, and the placement the overlay has once
  the pending timer, if any, has run.\<close>

definition bottomSpaceOf :: "Layout \<Rightarrow> real" where
  "bottomSpaceOf l = innerHeight l - cropRect_bottom l"

definition topSpaceOf :: "Layout \<Rightarrow> real" where
  "topSpaceOf l = cropRect_top l"

definition settledPosition :: "Cropper \<Rightarrow> Placement" where
  "settledPosition cs = recordingBoxPosition (positionTimeoutFires cs)"

text \<open>A resize by the south-east handle: mapped size and container 1000 x 1000, the
  crop at (100, 100) with size 300 x 200, the handle grabbed at the pointer position
  (400, 300).\<close>

definition resizeScenario :: Cropper where
  "resizeScenario =
     cropperOf \<lparr>x = Fin 1000, y = Fin 1000\<rparr> \<lparr>x = Fin 1000, y = Fin 1000\<rparr>
       \<lparr>position = \<lparr>x = Fin 100, y = Fin 100\<rparr>, size_xy = \<lparr>x = Fin 300, y = Fin 200\<rparr>\<rparr>"

definition resizeScenarioGesture :: "Direction \<Rightarrow> ResizeGesture" where
  "resizeScenarioGesture d = handleResizeStart (Fin 400) (Fin 300) d resizeScenario"

text \<open>The scenario's component while its container has no extent (an element that is
  not laid out has \<open>clientWidth\<close> and \<open>clientHeight\<close> 0), and after its
  container has shrunk to 500 x 500.\<close>

definition collapsedCropper :: Cropper where
  "collapsedCropper = scenarioCropper\<lparr>containerSize := \<lparr>x = Fin 0, y = Fin 0\<rparr>\<rparr>"

definition shrunkCropper :: Cropper where
  "shrunkCropper = scenarioCropper\<lparr>containerSize := \<lparr>x = Fin 500, y = Fin 500\<rparr>\<rparr>"

section \<open>The invariant of a crop\<close>

text \<open>
  The invariant that the specification states of a committed crop, against a minimum
  size and a mapped size: the size is at least the minimum on both axes, the position is
  not negative, and position plus size does not exceed the mapped size.  The
  comparisons are those of JavaScript numbers, so a crop with a NaN in it does not
  satisfy the invariant.
\<close>

definition cropInvariant :: "XY \<Rightarrow> XY \<Rightarrow> Crop \<Rightarrow> bool" where
  "cropInvariant minSz mappedSz c =
     (x minSz \<le> x (size_xy c) \<and> y minSz \<le> y (size_xy c) \<and>
      Fin 0 \<le> x (position c) \<and> Fin 0 \<le> y (position c) \<and>
      x (position c) + x (size_xy c) \<le> x mappedSz \<and>
      y (position c) + y (size_xy c) \<le> y mappedSz)"

text \<open>The change of width and of height that a direction asks for, given the step:
  west and north shrink, east and south grow, and a direction that does not name the
  axis leaves it alone.\<close>

definition widthStep :: "Direction \<Rightarrow> real \<Rightarrow> real" where
  "widthStep d delta =
     (if dir_includes d CHR ''w'' then - delta else if dir_includes d CHR ''e'' then delta else 0)"

definition heightStep :: "Direction \<Rightarrow> real \<Rightarrow> real" where
  "heightStep d delta =
     (if dir_includes d CHR ''n'' then - delta else if dir_includes d CHR ''s'' then delta else 0)"

text \<open>Finite values: a pair of finite numbers, a touch at a finite point.\<close>

definition finiteXY :: "XY \<Rightarrow> bool" where
  "finiteXY v = (isFinite (x v) \<and> isFinite (y v))"

definition finiteTouch :: "Touch \<Rightarrow> bool" where
  "finiteTouch t = (isFinite (touch_clientX t) \<and> isFinite (touch_clientY t))"

text \<open>Scale factors one can divide by: finite and not zero.\<close>

definition usableScale :: "XY \<Rightarrow> bool" where
  "usableScale v = (finiteXY v \<and> x v \<noteq> Fin 0 \<and> y v \<noteq> Fin 0)"

text \<open>The store of a touch gesture after a two-finger \<open>touchstart\<close> with the fingers
  apart: a touch centre is recorded, the initial pinch distance is finite and not zero,
  and the initial size is finite.\<close>

definition pinchStarted :: "GestureState \<Rightarrow> bool" where
  "pinchStarted gs =
     (isFinite (initialPinchDistance gs) \<and> initialPinchDistance gs \<noteq> Fin 0 \<and>
      isFinite (fst (initialSize gs)) \<and> isFinite (snd (initialSize gs)) \<and>
      (case lastTouchCenter gs of None \<Rightarrow> False | Some c \<Rightarrow> finiteXY c))"


text \<open>The closure of a drag that started from a finite pointer position over usable
  scale factors.\<close>

definition dragReady :: "DragGesture \<Rightarrow> bool" where
  "dragReady g = (usableScale (drag_scaleFactors g) \<and> isFinite (lastX g) \<and> isFinite (lastY g))"

text \<open>The closure of a resize gesture in step with the component: its mapped size is
  the current one, its box satisfies the invariant, its scale factors are usable, and
  its last pointer position and its anchor are finite.\<close>

definition resizeReady :: "ResizeGesture \<Rightarrow> Cropper \<Rightarrow> bool" where
  "resizeReady g cs =
     (mapped g = mappedSize cs \<and>
      cropInvariant (minSize cs) (mapped g) (toBounds (box g)) \<and>
      usableScale (scaleFactors g) \<and> finiteXY (lastValidPos g) \<and> finiteXY (origin g))"

text \<open>The snap match that a pointer move of a resize gesture would record.\<close>

definition snapOf :: "jsnum \<Rightarrow> jsnum \<Rightarrow> bool \<Rightarrow> ResizeGesture \<Rightarrow> Cropper \<Rightarrow> Ratio option" where
  "snapOf moveX moveY centerOrigin g cs =
     snapMatch (dir g) cs
       (findClosestRatio cs (fst (resizeCandidate moveX moveY centerOrigin g cs))
          (snd (resizeCandidate moveX moveY centerOrigin g cs)) (Fin 0.01))"

text \<open>A component in a state the gestures are written for: its mapped size and its
  container size are finite and positive, and its crop satisfies the invariant against
  the minimum size \<open>minSize()\<close> and the mapped size.\<close>

definition validCropper :: "Cropper \<Rightarrow> bool" where
  "validCropper cs =
     (finiteXY (mappedSize cs) \<and> Fin 0 < x (mappedSize cs) \<and> Fin 0 < y (mappedSize cs) \<and>
      finiteXY (containerSize cs) \<and> Fin 0 < x (containerSize cs) \<and>
      Fin 0 < y (containerSize cs) \<and>
      cropInvariant (minSize cs) (mappedSize cs) (crop cs))"

text \<open>The step of a key, doubled with the alt key, and the anchor of a keyboard
  resize.\<close>

definition keyStep :: "KeyboardEvent \<Rightarrow> real" where
  "keyStep event = (if shiftKey event then 20 else 5) * (if altKey event then 2 else 1)"

definition keyOrigin :: "KeyboardEvent \<Rightarrow> XY" where
  "keyOrigin event = (if altKey event then ORIGIN_CENTER else \<lparr>x = Fin 0, y = Fin 0\<rparr>)"

text \<open>A key event with its modifiers, and the scenario with a fixed aspect ratio of 1
  configured.\<close>

definition keyEvent :: "string \<Rightarrow> bool \<Rightarrow> bool \<Rightarrow> bool \<Rightarrow> KeyboardEvent" where
  "keyEvent k shift alt ctrl =
     \<lparr>key = k, shiftKey = shift, altKey = alt, metaKey = False, ctrlKey = ctrl\<rparr>"

definition squareCropper :: Cropper where
  "squareCropper = scenarioCropper\<lparr>props_aspectRatio := Some (Fin 1)\<rparr>"

text \<open>The scenario in the middle of a two-finger touch: the fingers were 100 apart
  when they came down, over a crop of 500 x 500, and their centre was (100, 100).\<close>

definition pinchingCropper :: Cropper where
  "pinchingCropper =
     scenarioCropper\<lparr>gestureState :=
       \<lparr>isTrackpadGesture = False, lastTouchCenter = Some \<lparr>x = Fin 100, y = Fin 100\<rparr>,
        initialPinchDistance = Fin 100, initialSize = (Fin 500, Fin 500)\<rparr>\<rparr>"

definition touchAt :: "real \<Rightarrow> real \<Rightarrow> Touch" where
  "touchAt px py = \<lparr>touch_clientX = Fin px, touch_clientY = Fin py\<rparr>"

text \<open>The box that a resize asks for before anything is clamped: the width and the
  height of the box changed by the steps of the direction, about the anchor.\<close>

definition requestedBox :: "Direction \<Rightarrow> real \<Rightarrow> real \<Rightarrow> XY \<Rightarrow> Box \<Rightarrow> Box" where
  "requestedBox d stepX stepY anchor b0 =
     resize (width b0 + Fin (widthStep d stepX)) (height b0 + Fin (heightStep d stepY)) anchor b0"

section \<open>Basic facts\<close>

lemma clamp_Fin [simp]: "clamp (Fin n) (Fin lo) (Fin hi) = Fin (max lo (min hi n))"
  by (simp add: clamp_def max_def min_def)

lemma setCrop_crop [simp]: "crop (setCrop v cs) = v"
  by (simp add: setCrop_def)

lemma setCrop_mappedSize [simp]: "mappedSize (setCrop v cs) = mappedSize cs"
  by (simp add: setCrop_def mappedSize_def split: option.split)

lemma updateRecordingBoxPosition_crop [simp]:
  "crop (updateRecordingBoxPosition refs cs) = crop cs"
  by (simp add: updateRecordingBoxPosition_def setPositionTimeout_def Let_def split: option.split)

lemma updateRecordingBoxPosition_mappedSize [simp]:
  "mappedSize (updateRecordingBoxPosition refs cs) = mappedSize cs"
  by (simp add: updateRecordingBoxPosition_def setPositionTimeout_def mappedSize_def Let_def
      split: option.split)

lemma clamp_PInf [simp]: "clamp PInf (Fin lo) (Fin hi) = Fin (max lo hi)"
  by (simp add: clamp_def max_def)

lemma clamp_NInf [simp]: "clamp NInf (Fin lo) (Fin hi) = Fin lo"
  by (simp add: clamp_def)

lemma clamp_NaN [simp]: "clamp NaN (Fin lo) (Fin hi) = NaN"
  by (simp add: clamp_def)

lemma minSize_Fin:
  "mappedSize cs = \<lparr>x = Fin mx, y = Fin my\<rparr> \<Longrightarrow>
   minSize cs = \<lparr>x = Fin (min 100 (mx * 0.1)), y = Fin (min 100 (my * 0.1))\<rparr>"
  by (simp add: minSize_def Let_def min_def)

section \<open>What a move commits\<close>

text \<open>The position that each handler commits when it moves the box, and the candidate
  size of a handle resize, with the delta and the scale factors it is computed from left
  as the handler has them.\<close>

lemma drag_position:
  "position (crop (snd (handleDrag e r g cs))) =
     \<lparr>x = clamp (x (position (crop cs)) + (clientX e - lastX g) / x (drag_scaleFactors g))
            (Fin 0) (x (mappedSize cs) - x (size_xy (crop cs))),
      y = clamp (y (position (crop cs)) + (clientY e - lastY g) / y (drag_scaleFactors g))
            (Fin 0) (y (mappedSize cs) - y (size_xy (crop cs)))\<rparr>"
  by (simp add: handleDrag_def Let_def toBounds_def move_def Box_from_def)

lemma wheel_pan_position:
  "\<not> wheel_ctrlKey ev \<Longrightarrow>
   position (crop (handleWheel ev cs)) =
     \<lparr>x = clamp (x (position (crop cs)) +
            (- deltaX ev * Math_max (Fin 1) (Math_abs (deltaY ev) * Fin 0.01)) /
              x (containerToMappedSizeScale cs))
            (Fin 0) (x (mappedSize cs) - x (size_xy (crop cs))),
      y = clamp (y (position (crop cs)) +
            (- deltaY ev * Math_max (Fin 1) (Math_abs (deltaY ev) * Fin 0.01)) /
              y (containerToMappedSizeScale cs))
            (Fin 0) (y (mappedSize cs) - y (size_xy (crop cs)))\<rparr>"
  by (simp add: handleWheel_def Let_def setCrop_def toBounds_def move_def Box_from_def)

lemma touch_pan_position:
  "dragging cs \<Longrightarrow> lastTouchCenter (gestureState cs) = Some c \<Longrightarrow>
   position (crop (handleTouchMove [t] cs)) =
     \<lparr>x = clamp (x (position (crop cs)) +
            (touch_clientX t - x c) / x (containerToMappedSizeScale cs))
            (Fin 0) (x (mappedSize cs) - x (size_xy (crop cs))),
      y = clamp (y (position (crop cs)) +
            (touch_clientY t - y c) / y (containerToMappedSizeScale cs))
            (Fin 0) (y (mappedSize cs) - y (size_xy (crop cs)))\<rparr>"
  by (simp add: handleTouchMove_def Let_def setCrop_def toBounds_def move_def Box_from_def)

lemma pinch_pan_position:
  "lastTouchCenter (gestureState cs) = Some c \<Longrightarrow>
   position (crop (handleTouchMove [t1, t2] cs)) =
     \<lparr>x = clamp (box_x (resize
              (fst (pinchSize (distanceOf t1 t2 / initialPinchDistance (gestureState cs)) cs))
              (snd (pinchSize (distanceOf t1 t2 / initialPinchDistance (gestureState cs)) cs))
              ORIGIN_CENTER (Box_from (position (crop cs)) (size_xy (crop cs)))) +
            ((touch_clientX t1 + touch_clientX t2) / Fin 2 - x c) /
              x (containerToMappedSizeScale cs))
            (Fin 0)
            (x (mappedSize cs) -
             fst (pinchSize (distanceOf t1 t2 / initialPinchDistance (gestureState cs)) cs)),
      y = clamp (box_y (resize
              (fst (pinchSize (distanceOf t1 t2 / initialPinchDistance (gestureState cs)) cs))
              (snd (pinchSize (distanceOf t1 t2 / initialPinchDistance (gestureState cs)) cs))
              ORIGIN_CENTER (Box_from (position (crop cs)) (size_xy (crop cs)))) +
            ((touch_clientY t1 + touch_clientY t2) / Fin 2 - y c) /
              y (containerToMappedSizeScale cs))
            (Fin 0)
            (y (mappedSize cs) -
             snd (pinchSize (distanceOf t1 t2 / initialPinchDistance (gestureState cs)) cs))\<rparr>"
  by (simp add: handleTouchMove_def Let_def setCrop_def toBounds_def move_def resize_def)

lemma key_move_crop:
  "\<not> metaKey kev \<Longrightarrow> \<not> ctrlKey kev \<Longrightarrow>
   crop (keyFrame kev d cs) =
     toBounds (constrainToBoundary (x (mappedSize cs)) (y (mappedSize cs)) (keyOrigin kev)
       (move
         (clamp (x (position (crop cs)) +
              (if dir_includes d CHR ''e'' then (if shiftKey kev then Fin 20 else Fin 5)
               else if dir_includes d CHR ''w'' then - (if shiftKey kev then Fin 20 else Fin 5)
               else Fin 0) / x (containerToMappedSizeScale cs))
            (Fin 0) (x (mappedSize cs) - x (size_xy (crop cs))))
         (clamp (y (position (crop cs)) +
              (if dir_includes d CHR ''s'' then (if shiftKey kev then Fin 20 else Fin 5)
               else if dir_includes d CHR ''n'' then - (if shiftKey kev then Fin 20 else Fin 5)
               else Fin 0) / y (containerToMappedSizeScale cs))
            (Fin 0) (y (mappedSize cs) - y (size_xy (crop cs))))
         (Box_from (position (crop cs)) (size_xy (crop cs)))))"
  unfolding keyFrame_def Let_def keyOrigin_def
  by (simp add: setCrop_def Box_from_def)

lemma resizeCandidate_cached:
  "resizeCandidate mX mY co rg cs =
     (newWidth (dir rg) (toBounds (box rg))
        ((mX - x (lastValidPos rg)) / x (scaleFactors rg)) (if co then Fin 2 else Fin 1)
        (minSize cs) (mapped rg),
      newHeight (dir rg) (toBounds (box rg))
        ((mY - y (lastValidPos rg)) / y (scaleFactors rg)) (if co then Fin 2 else Fin 1)
        (minSize cs) (mapped rg))"
  by (simp add: resizeCandidate_def Let_def)

section \<open>Drag\<close>

text \<open>One pointer move of a drag whose scale factors are 1, on finite values: the
  position moves by the pointer's step and is clamped to \<open>[0, mapped - size]\<close>.\<close>

lemma handleDrag_step:
  assumes "mappedSize cs = \<lparr>x = Fin mx, y = Fin my\<rparr>"
    and "drag_scaleFactors g = \<lparr>x = Fin 1, y = Fin 1\<rparr>"
    and "lastX g = Fin p" "lastY g = Fin q"
    and "crop cs = \<lparr>position = \<lparr>x = Fin a, y = Fin b\<rparr>, size_xy = \<lparr>x = Fin w, y = Fin h\<rparr>\<rparr>"
    and "clientX e = Fin p'" "clientY e = Fin q'"
  shows "handleDrag e r g cs =
     (g\<lparr>lastX := Fin p', lastY := Fin q'\<rparr>,
      updateRecordingBoxPosition r
        (setCrop \<lparr>position = \<lparr>x = Fin (max 0 (min (mx - w) (a + (p' - p)))),
                               y = Fin (max 0 (min (my - h) (b + (q' - q))))\<rparr>,
                  size_xy = \<lparr>x = Fin w, y = Fin h\<rparr>\<rparr> cs))"
  using assms by (simp add: handleDrag_def Let_def Box_from_def move_def toBounds_def)

text \<open>A drag that only moves to the right, in the scenario's geometry: the position
  is the distance covered, capped at 500.\<close>

lemma handleDrags_right:
  assumes "mappedSize cs = \<lparr>x = Fin 1000, y = Fin 1000\<rparr>"
    and "drag_scaleFactors g = \<lparr>x = Fin 1, y = Fin 1\<rparr>"
    and "lastX g = Fin p" "lastY g = Fin q"
    and "crop cs = \<lparr>position = \<lparr>x = Fin a, y = Fin 0\<rparr>, size_xy = \<lparr>x = Fin 500, y = Fin 500\<rparr>\<rparr>"
    and "0 \<le> a" "a \<le> 500"
    and "map (\<lambda>e. clientX (fst e)) es = map Fin ps"
    and "\<forall>e \<in> set es. clientY (fst e) = Fin q"
    and "sorted (p # ps)"
  shows "crop (snd (handleDrags es g cs)) =
     \<lparr>position = \<lparr>x = Fin (min 500 (a + (last (p # ps) - p))), y = Fin 0\<rparr>,
      size_xy = \<lparr>x = Fin 500, y = Fin 500\<rparr>\<rparr>"
  using assms
proof (induction es arbitrary: ps g cs p a)
  case Nil
  then show ?case by simp
next
  case (Cons e es)
  from Cons.prems(8) obtain p' ps' where ps: "ps = p' # ps'" and e: "clientX (fst e) = Fin p'"
    and es: "map (\<lambda>e. clientX (fst e)) es = map Fin ps'"
    by (cases ps) auto
  from Cons.prems(9) have ey: "clientY (fst e) = Fin q"
    and esy: "\<forall>e \<in> set es. clientY (fst e) = Fin q"
    by auto
  from Cons.prems(10) ps have pp': "p \<le> p'" and srt: "sorted (p' # ps')" by auto
  define a' where "a' = max 0 (min 500 (a + (p' - p)))"
  have step: "handleDrag (fst e) (snd e) g cs = (g\<lparr>lastX := Fin p', lastY := Fin q\<rparr>,
      updateRecordingBoxPosition (snd e) (setCrop \<lparr>position = \<lparr>x = Fin a', y = Fin 0\<rparr>,
         size_xy = \<lparr>x = Fin 500, y = Fin 500\<rparr>\<rparr> cs))"
    using handleDrag_step [OF Cons.prems(1) Cons.prems(2) Cons.prems(3) Cons.prems(4)
        Cons.prems(5) e ey]
    by (simp add: a'_def)
  have a': "0 \<le> a'" "a' \<le> 500" by (simp_all add: a'_def)
  have a'_eq: "a' = min 500 (a + (p' - p))" using Cons.prems(6) pp' by (simp add: a'_def)
  have "crop (snd (handleDrags es (g\<lparr>lastX := Fin p', lastY := Fin q\<rparr>)
      (updateRecordingBoxPosition (snd e) (setCrop \<lparr>position = \<lparr>x = Fin a', y = Fin 0\<rparr>,
         size_xy = \<lparr>x = Fin 500, y = Fin 500\<rparr>\<rparr> cs)))) =
     \<lparr>position = \<lparr>x = Fin (min 500 (a' + (last (p' # ps') - p'))), y = Fin 0\<rparr>,
      size_xy = \<lparr>x = Fin 500, y = Fin 500\<rparr>\<rparr>"
    by (rule Cons.IH) (use Cons.prems a' es esy srt in simp_all)
  moreover have "p' \<le> last (p' # ps')" using srt
    by (metis last_in_set list.discI list.set_intros(1) order_refl set_ConsD sorted_simps(2)
        last_ConsL last_ConsR)
  ultimately show ?case using step a'_eq pp' ps by (auto simp: min_def)
qed

lemma scenario_start:
  "handleDragStart (mouseAt 10 20) scenarioCropper =
     (scenarioCropper\<lparr>dragging := True\<rparr>,
      Some \<lparr>lastX = Fin 10, lastY = Fin 20, drag_scaleFactors = \<lparr>x = Fin 1, y = Fin 1\<rparr>\<rparr>)"
  by (simp add: handleDragStart_def scenarioCropper_def cropperOf_def idleGesture_def
      mouseAt_def containerToMappedSizeScale_def mappedSize_def)

text \<open>
  C7.  The claim: with mapped size 1000 x 1000, the container of the same size and the
  crop at (0, 0) with size 500 x 500, a drag whose cumulative container-space delta is
  (+700, 0) commits the position (500, 0) with the size unchanged.

  Each pointer move is clamped on its own and the last pointer position is updated
  whether or not the move was clamped, so the cumulative delta does not decide the
  result.  In \<open>C7_counterexample\<close> the pointer goes from 10 to 810 and back to 710:
  the cumulative delta is +700 and the committed position is (400, 0).

  What holds, \<open>C7_drag_rightward_700\<close>: when the pointer never moves left and stays
  at its height (the positions \<open>p # ps\<close> are sorted and every move has the mouse-down's
  \<open>clientY\<close>), a drag that ends 700 to the right of where it started commits the
  position (500, 0) with the size 500 x 500.
\<close>

theorem C7_drag_rightward_700:
  assumes mapped: "mappedSize cs = \<lparr>x = Fin 1000, y = Fin 1000\<rparr>"
    and container: "containerSize cs = \<lparr>x = Fin 1000, y = Fin 1000\<rparr>"
    and crop0: "crop cs = \<lparr>position = \<lparr>x = Fin 0, y = Fin 0\<rparr>,
                          size_xy = \<lparr>x = Fin 500, y = Fin 500\<rparr>\<rparr>"
    and start: "handleDragStart down cs = (cs0, Some g)"
    and down: "clientX down = Fin p" "clientY down = Fin q"
    and moves: "map (\<lambda>e. clientX (fst e)) es = map Fin ps"
      "\<forall>e \<in> set es. clientY (fst e) = Fin q"
    and right: "sorted (p # ps)"
    and total: "last (p # ps) = p + 700"
  shows "crop (snd (handleDrags es g cs0)) =
     \<lparr>position = \<lparr>x = Fin 500, y = Fin 0\<rparr>, size_xy = \<lparr>x = Fin 500, y = Fin 500\<rparr>\<rparr>"
proof -
  from start have cs0: "cs0 = cs\<lparr>dragging := True\<rparr>"
    and g: "g = \<lparr>lastX = clientX down, lastY = clientY down,
                 drag_scaleFactors = containerToMappedSizeScale cs\<rparr>"
    by (auto simp: handleDragStart_def split: if_splits)
  have scale: "drag_scaleFactors g = \<lparr>x = Fin 1, y = Fin 1\<rparr>"
    using mapped container by (simp add: g containerToMappedSizeScale_def)
  have m0: "mappedSize cs0 = \<lparr>x = Fin 1000, y = Fin 1000\<rparr>"
    using mapped by (simp add: cs0 mappedSize_def split: option.splits)
  have c0: "crop cs0 = \<lparr>position = \<lparr>x = Fin 0, y = Fin 0\<rparr>,
                         size_xy = \<lparr>x = Fin 500, y = Fin 500\<rparr>\<rparr>"
    using crop0 by (simp add: cs0)
  have "crop (snd (handleDrags es g cs0)) =
     \<lparr>position = \<lparr>x = Fin (min 500 (0 + (last (p # ps) - p))), y = Fin 0\<rparr>,
      size_xy = \<lparr>x = Fin 500, y = Fin 500\<rparr>\<rparr>"
    by (rule handleDrags_right [OF m0 scale _ _ c0 _ _ moves right]) (simp_all add: g down)
  then show ?thesis using total by simp
qed

theorem C7_witness:
  "crop (snd (handleDrags [(mouseAt 310 20, None), (mouseAt 710 20, None)]
       \<lparr>lastX = Fin 10, lastY = Fin 20, drag_scaleFactors = \<lparr>x = Fin 1, y = Fin 1\<rparr>\<rparr>
       (scenarioCropper\<lparr>dragging := True\<rparr>))) =
     \<lparr>position = \<lparr>x = Fin 500, y = Fin 0\<rparr>, size_xy = \<lparr>x = Fin 500, y = Fin 500\<rparr>\<rparr>"
  by (rule C7_drag_rightward_700 [where cs = scenarioCropper and down = "mouseAt 10 20"
        and p = 10 and q = 20 and ps = "[310, 710]"])
     (simp_all add: scenario_start,
      simp_all add: scenarioCropper_def cropperOf_def mappedSize_def mouseAt_def)

theorem C7_counterexample:
  "crop (snd (handleDrags [(mouseAt 810 20, None), (mouseAt 710 20, None)]
       \<lparr>lastX = Fin 10, lastY = Fin 20, drag_scaleFactors = \<lparr>x = Fin 1, y = Fin 1\<rparr>\<rparr>
       (scenarioCropper\<lparr>dragging := True\<rparr>))) =
     \<lparr>position = \<lparr>x = Fin 400, y = Fin 0\<rparr>, size_xy = \<lparr>x = Fin 500, y = Fin 500\<rparr>\<rparr>"
  by (simp add: handleDrag_def Let_def Box_from_def move_def toBounds_def scenarioCropper_def
      cropperOf_def mappedSize_def mouseAt_def updateRecordingBoxPosition_def setCrop_def)

section \<open>Typing a size or a position\<close>

text \<open>\<open>parseInt\<close> returns NaN or an integer.\<close>

lemma parseInt_cases: "parseInt t = NaN \<or> (\<exists>n::int. parseInt t = Fin (of_int n))"
proof -
  define sg where "sg = (if take 1 (dropWhile isWhiteSpace t) = ''-'' then - 1 else 1 :: real)"
  obtain r where r: "parseInt t = (case r of None \<Rightarrow> NaN | Some n \<Rightarrow> Fin (sg * real n))"
    unfolding parseInt_def Let_def sg_def by blast
  show ?thesis
  proof (cases r)
    case None
    with r show ?thesis by simp
  next
    case (Some n)
    have "sg * real n = of_int (int n) \<or> sg * real n = of_int (- int n)"
      by (simp add: sg_def)
    with r Some show ?thesis by (metis option.simps(5))
  qed
qed

lemma parseInt_examples:
  "parseInt ''2000'' = Fin (of_int 2000)"
  "parseInt ''49'' = Fin (of_int 49)"
  "parseInt ''abc'' = NaN"
  "parseInt ''0'' = Fin (of_int 0)"
  "parseInt ''-5'' = Fin (of_int (- 5))"
  by (simp_all add: parseInt_def isWhiteSpace_def digitValue_def Let_def)

text \<open>
  C10.  For every text typed into a size field: when it parses to an integer
  \<open>n \<ge> 50\<close>, the committed crop has exactly \<open>n\<close> as that axis's size, the
  other axis and the position being those of the crop before; nothing of the mapped
  size, the minimum size or the aspect ratio enters (the statement holds for every state
  \<open>cs\<close>).  When the text does not parse, or \<open>n < 50\<close>, nothing is committed: the
  state is returned as it was.  The position fields behave the same with the threshold
  \<open>n \<ge> 0\<close>, the size being unchanged.  By \<open>parseInt_cases\<close> these are all the
  cases.
\<close>

theorem C10_typed_values:
  fixes n :: int
  shows "(parseInt t = Fin (of_int n) \<and> 50 \<le> n \<longrightarrow>
           crop (handleSizeXChange t cs) =
             \<lparr>position = position (crop cs),
              size_xy = \<lparr>x = Fin (of_int n), y = y (size_xy (crop cs))\<rparr>\<rparr> \<and>
           crop (handleSizeYChange t cs) =
             \<lparr>position = position (crop cs),
              size_xy = \<lparr>x = x (size_xy (crop cs)), y = Fin (of_int n)\<rparr>\<rparr>)
       \<and> (parseInt t = NaN \<or> parseInt t = Fin (of_int n) \<and> n < 50 \<longrightarrow>
            handleSizeXChange t cs = cs \<and> handleSizeYChange t cs = cs)
       \<and> (parseInt t = Fin (of_int n) \<and> 0 \<le> n \<longrightarrow>
           crop (handlePositionChange t AxisX cs) =
             \<lparr>position = \<lparr>x = Fin (of_int n), y = y (position (crop cs))\<rparr>,
              size_xy = size_xy (crop cs)\<rparr> \<and>
           crop (handlePositionChange t AxisY cs) =
             \<lparr>position = \<lparr>x = x (position (crop cs)), y = Fin (of_int n)\<rparr>,
              size_xy = size_xy (crop cs)\<rparr>)
       \<and> (parseInt t = NaN \<or> parseInt t = Fin (of_int n) \<and> n < 0 \<longrightarrow>
            handlePositionChange t AxisX cs = cs \<and> handlePositionChange t AxisY cs = cs)"
  by (auto simp: handleSizeXChange_def handleSizeYChange_def handlePositionChange_def Let_def
      setCrop_def)

text \<open>In the scenario (mapped size 1000 x 1000): typing 2000 as the width commits the
  width 2000; typing 49, or letters, commits nothing; typing 0 as a position commits
  it, typing -5 does not.\<close>

theorem C10_witness:
  "crop (handleSizeXChange ''2000'' scenarioCropper) =
     \<lparr>position = \<lparr>x = Fin 0, y = Fin 0\<rparr>, size_xy = \<lparr>x = Fin 2000, y = Fin 500\<rparr>\<rparr>
   \<and> mappedSize scenarioCropper = \<lparr>x = Fin 1000, y = Fin 1000\<rparr>
   \<and> handleSizeYChange ''49'' scenarioCropper = scenarioCropper
   \<and> handleSizeXChange ''abc'' scenarioCropper = scenarioCropper
   \<and> crop (handlePositionChange ''0'' AxisY scenarioCropper) =
     \<lparr>position = \<lparr>x = Fin 0, y = Fin 0\<rparr>, size_xy = \<lparr>x = Fin 500, y = Fin 500\<rparr>\<rparr>
   \<and> handlePositionChange ''-5'' AxisX scenarioCropper = scenarioCropper"
proof -
  have c: "crop scenarioCropper =
      \<lparr>position = \<lparr>x = Fin 0, y = Fin 0\<rparr>, size_xy = \<lparr>x = Fin 500, y = Fin 500\<rparr>\<rparr>"
    and m: "mappedSize scenarioCropper = \<lparr>x = Fin 1000, y = Fin 1000\<rparr>"
    by (simp_all add: scenarioCropper_def cropperOf_def mappedSize_def)
  show ?thesis
    using C10_typed_values [of "''2000''" 2000 scenarioCropper]
      C10_typed_values [of "''49''" 49 scenarioCropper]
      C10_typed_values [of "''abc''" 0 scenarioCropper]
      C10_typed_values [of "''0''" 0 scenarioCropper]
      C10_typed_values [of "''-5''" "- 5" scenarioCropper]
      parseInt_examples c m
    by simp
qed

section \<open>The overlay's position\<close>

text \<open>
  C9.  At every evaluation of \<open>updateRecordingBoxPosition\<close> that finds its two
  elements: when the overlay is on top and the space below the crop area exceeds the
  overlay's height by more than 50, a switch back to the bottom is scheduled (with delay
  0 while dragging, 50 otherwise); the margin that triggers a switch is 40, which is less
  than 50.  When neither side has the overlay's height plus 40, the overlay ends on the
  side that has strictly more space: on top when the space above is larger, at the bottom
  when the space below is larger.
\<close>

theorem C9_position_advisor:
  "(recordingBoxPosition cs = Top \<and> boxHeight l + 50 < bottomSpaceOf l \<longrightarrow>
      positionChangeTimeout (updateRecordingBoxPosition (Some l) cs) =
        Some (Bottom, if dragging cs then 0 else 50))
   \<and> (40 :: real) < 50
   \<and> (bottomSpaceOf l < boxHeight l + 40 \<and> topSpaceOf l < boxHeight l + 40 \<longrightarrow>
        (bottomSpaceOf l < topSpaceOf l \<longrightarrow>
           settledPosition (updateRecordingBoxPosition (Some l) cs) = Top) \<and>
        (topSpaceOf l < bottomSpaceOf l \<longrightarrow>
           settledPosition (updateRecordingBoxPosition (Some l) cs) = Bottom))"
  by (cases "recordingBoxPosition cs")
     (auto simp: updateRecordingBoxPosition_def setPositionTimeout_def Let_def bottomSpaceOf_def
        topSpaceOf_def settledPosition_def positionTimeoutFires_def)

theorem C9_witness:
  "positionChangeTimeout
     (updateRecordingBoxPosition
        (Some \<lparr>cropRect_top = 300, cropRect_bottom = 500, boxHeight = 200, innerHeight = 1000\<rparr>)
        (scenarioCropper\<lparr>recordingBoxPosition := Top\<rparr>)) = Some (Bottom, 50)
   \<and> settledPosition
     (updateRecordingBoxPosition
        (Some \<lparr>cropRect_top = 150, cropRect_bottom = 900, boxHeight = 200, innerHeight = 1000\<rparr>)
        scenarioCropper) = Top
   \<and> settledPosition
     (updateRecordingBoxPosition
        (Some \<lparr>cropRect_top = 50, cropRect_bottom = 800, boxHeight = 200, innerHeight = 1000\<rparr>)
        (scenarioCropper\<lparr>recordingBoxPosition := Top\<rparr>)) = Bottom"
  using
    C9_position_advisor [of "scenarioCropper\<lparr>recordingBoxPosition := Top\<rparr>"
      "\<lparr>cropRect_top = 300, cropRect_bottom = 500, boxHeight = 200, innerHeight = 1000\<rparr>"]
    C9_position_advisor [of scenarioCropper
      "\<lparr>cropRect_top = 150, cropRect_bottom = 900, boxHeight = 200, innerHeight = 1000\<rparr>"]
    C9_position_advisor [of "scenarioCropper\<lparr>recordingBoxPosition := Top\<rparr>"
      "\<lparr>cropRect_top = 50, cropRect_bottom = 800, boxHeight = 200, innerHeight = 1000\<rparr>"]
  by (simp add: bottomSpaceOf_def topSpaceOf_def scenarioCropper_def cropperOf_def)

section \<open>Resizing by a handle\<close>

lemma snappedRatio_handleResizeMove:
  "snappedRatio (snd (handleResizeMove mX mY c g cs)) =
     snapMatch (dir g) cs
       (findClosestRatio cs (fst (resizeCandidate mX mY c g cs))
          (snd (resizeCandidate mX mY c g cs)) (Fin 0.01))"
  by (simp add: handleResizeMove_def Let_def setCrop_def)

lemma findClosestRatio_400_300:
  "\<not> aspectRatioSet cs \<Longrightarrow> findClosestRatio cs (Fin 400) (Fin 300) (Fin 0.01) = Some (Fin 4, Fin 3)"
  by (simp add: findClosestRatio_def COMMON_RATIOS_def)

lemma findClosestRatio_401_300:
  "\<not> aspectRatioSet cs \<Longrightarrow> findClosestRatio cs (Fin 401) (Fin 300) (Fin 0.01) = Some (Fin 4, Fin 3)"
  by (simp add: findClosestRatio_def COMMON_RATIOS_def)

lemma findClosestRatio_420_300:
  "\<not> aspectRatioSet cs \<Longrightarrow> findClosestRatio cs (Fin 420) (Fin 300) (Fin 0.01) = None"
  by (simp add: findClosestRatio_def COMMON_RATIOS_def)

lemma resizeScenario_candidate:
  "props_mappedSize cs = Some \<lparr>x = Fin 1000, y = Fin 1000\<rparr> \<Longrightarrow>
   resizeCandidate (Fin (400 + a)) (Fin (300 + b)) False (resizeScenarioGesture d) cs
     = (if dir_includes d CHR ''e'' \<or> dir_includes d CHR ''w''
        then Fin (max 100 (min 1000 (if dir_includes d CHR ''w'' then 300 - a else 300 + a)))
        else Fin 300,
        if dir_includes d CHR ''n'' \<or> dir_includes d CHR ''s''
        then Fin (max 100 (min 1000 (if dir_includes d CHR ''n'' then 200 - b else 200 + b)))
        else Fin 200)"
  by (simp add: resizeCandidate_def resizeScenarioGesture_def handleResizeStart_def
      resizeScenario_def cropperOf_def containerToMappedSizeScale_def mappedSize_def minSize_def
      newWidth_def newHeight_def toBounds_def Box_from_def Let_def)

lemma resizeScenario_facts:
  "dir (resizeScenarioGesture d) = d" "snapToRatioEnabled resizeScenario"
  "\<not> aspectRatioSet resizeScenario"
  "props_mappedSize resizeScenario = Some \<lparr>x = Fin 1000, y = Fin 1000\<rparr>"
  by (simp_all add: resizeScenarioGesture_def handleResizeStart_def
      resizeScenario_def cropperOf_def aspectRatioSet_def)

text \<open>
  C3.  With no fixed aspect ratio configured and snapping enabled, a resize by a corner
  handle whose candidate size is width 400, height 300 yields the snap match (4, 3); so
  does the candidate width 401, height 300; the candidate width 420, height 300 yields
  no match.
\<close>

theorem C3_snap_determinism:
  assumes "dir_length (dir g) = 2" and "snapToRatioEnabled cs" and "\<not> aspectRatioSet cs"
  shows "(resizeCandidate mX mY c g cs = (Fin 400, Fin 300) \<longrightarrow>
            snappedRatio (snd (handleResizeMove mX mY c g cs)) = Some (Fin 4, Fin 3))
       \<and> (resizeCandidate mX mY c g cs = (Fin 401, Fin 300) \<longrightarrow>
            snappedRatio (snd (handleResizeMove mX mY c g cs)) = Some (Fin 4, Fin 3))
       \<and> (resizeCandidate mX mY c g cs = (Fin 420, Fin 300) \<longrightarrow>
            snappedRatio (snd (handleResizeMove mX mY c g cs)) = None)"
  using assms findClosestRatio_400_300 [of cs] findClosestRatio_401_300 [of cs]
    findClosestRatio_420_300 [of cs]
  by (simp add: snappedRatio_handleResizeMove snapMatch_def)

text \<open>In the resize scenario the south-east handle is dragged from (400, 300) to
  (500, 400), to (501, 400) and to (520, 400): the candidates are 400 x 300, 401 x 300
  and 420 x 300.\<close>

theorem C3_witness:
  "snappedRatio (snd (handleResizeMove (Fin 500) (Fin 400) False (resizeScenarioGesture SE)
       resizeScenario)) = Some (Fin 4, Fin 3)
   \<and> snappedRatio (snd (handleResizeMove (Fin 501) (Fin 400) False (resizeScenarioGesture SE)
       resizeScenario)) = Some (Fin 4, Fin 3)
   \<and> snappedRatio (snd (handleResizeMove (Fin 520) (Fin 400) False (resizeScenarioGesture SE)
       resizeScenario)) = None"
proof -
  have c: "resizeCandidate (Fin 500) (Fin 400) False (resizeScenarioGesture SE) resizeScenario
        = (Fin 400, Fin 300)"
    "resizeCandidate (Fin 501) (Fin 400) False (resizeScenarioGesture SE) resizeScenario
        = (Fin 401, Fin 300)"
    "resizeCandidate (Fin 520) (Fin 400) False (resizeScenarioGesture SE) resizeScenario
        = (Fin 420, Fin 300)"
    using resizeScenario_candidate [of resizeScenario 100 100 SE]
      resizeScenario_candidate [of resizeScenario 101 100 SE]
      resizeScenario_candidate [of resizeScenario 120 100 SE]
    by (simp_all add: resizeScenario_facts dir_includes_def)
  have d: "dir_length (dir (resizeScenarioGesture SE)) = 2"
    by (simp add: resizeScenario_facts dir_length_def)
  show ?thesis
    using C3_snap_determinism [OF d resizeScenario_facts(2) resizeScenario_facts(3),
        of "Fin 500" "Fin 400" False]
      C3_snap_determinism [OF d resizeScenario_facts(2) resizeScenario_facts(3),
        of "Fin 501" "Fin 400" False]
      C3_snap_determinism [OF d resizeScenario_facts(2) resizeScenario_facts(3),
        of "Fin 520" "Fin 400" False]
      c
    by simp
qed

text \<open>
  C4.  The snap is applied only by a resize from a corner handle.  When the handle is an
  edge (its direction has one letter), or snapping is disabled, or a fixed aspect ratio
  is configured, \<open>handleResizeMove\<close> records no snap match and commits the candidate
  size as it is, passed through \<open>resize\<close> and \<open>constrainToBoundary\<close> only; with a
  fixed aspect ratio \<open>findClosestRatio\<close> finds nothing, whatever the size.  A drag, a
  wheel pan and a one-finger touch move leave the size and the recorded snap match as
  they are; wheel scaling clears the recorded match; the touch handler and the keyboard
  handler never set it.
\<close>

theorem C4_snap_only_on_corners:
  "(dir_length (dir g) \<noteq> 2 \<or> \<not> snapToRatioEnabled cs \<or> aspectRatioSet cs \<longrightarrow>
      snappedRatio (snd (handleResizeMove mX mY c g cs)) = None \<and>
      crop (snd (handleResizeMove mX mY c g cs)) =
        toBounds
          (constrainToBoundary (x (mapped g)) (y (mapped g))
             (if c then ORIGIN_CENTER else origin g)
             (resize (fst (resizeCandidate mX mY c g cs)) (snd (resizeCandidate mX mY c g cs))
                (if c then ORIGIN_CENTER else origin g) (box g))))
   \<and> (aspectRatioSet cs \<longrightarrow> findClosestRatio cs w h t = None)
   \<and> snappedRatio (snd (handleDrag e r dg cs)) = snappedRatio cs
   \<and> size_xy (crop (snd (handleDrag e r dg cs))) = size_xy (crop cs)
   \<and> (\<not> wheel_ctrlKey ev \<longrightarrow>
        snappedRatio (handleWheel ev cs) = snappedRatio cs \<and>
        size_xy (crop (handleWheel ev cs)) = size_xy (crop cs))
   \<and> (wheel_ctrlKey ev \<longrightarrow> snappedRatio (handleWheel ev cs) = None)
   \<and> snappedRatio (handleTouchMove ts cs) = snappedRatio cs
   \<and> (length ts = 1 \<longrightarrow> size_xy (crop (handleTouchMove ts cs)) = size_xy (crop cs))
   \<and> snappedRatio (keyFrame kev kd cs) = snappedRatio cs"
proof -
  have edge: "dir_length (dir g) \<noteq> 2 \<or> \<not> snapToRatioEnabled cs \<or> aspectRatioSet cs \<Longrightarrow>
      snapMatch (dir g) cs (findClosestRatio cs w' h' t') = None" for w' h' t'
    by (auto simp: snapMatch_def findClosestRatio_def)
  have a: "dir_length (dir g) \<noteq> 2 \<or> \<not> snapToRatioEnabled cs \<or> aspectRatioSet cs \<Longrightarrow>
      snappedRatio (snd (handleResizeMove mX mY c g cs)) = None \<and>
      crop (snd (handleResizeMove mX mY c g cs)) =
        toBounds
          (constrainToBoundary (x (mapped g)) (y (mapped g))
             (if c then ORIGIN_CENTER else origin g)
             (resize (fst (resizeCandidate mX mY c g cs)) (snd (resizeCandidate mX mY c g cs))
                (if c then ORIGIN_CENTER else origin g) (box g)))"
    by (simp add: handleResizeMove_def Let_def edge setCrop_def)
  have b: "aspectRatioSet cs \<Longrightarrow> findClosestRatio cs w h t = None"
    by (simp add: findClosestRatio_def)
  have d: "snappedRatio (snd (handleDrag e r dg cs)) = snappedRatio cs"
    "size_xy (crop (snd (handleDrag e r dg cs))) = size_xy (crop cs)"
    by (simp_all add: handleDrag_def Let_def updateRecordingBoxPosition_def setPositionTimeout_def
        setCrop_def toBounds_def move_def Box_from_def split: option.split)
  have w: "\<not> wheel_ctrlKey ev \<Longrightarrow>
        snappedRatio (handleWheel ev cs) = snappedRatio cs \<and>
        size_xy (crop (handleWheel ev cs)) = size_xy (crop cs)"
    "wheel_ctrlKey ev \<Longrightarrow> snappedRatio (handleWheel ev cs) = None"
    by (simp_all add: handleWheel_def Let_def setCrop_def toBounds_def move_def Box_from_def)
  have t: "snappedRatio (handleTouchMove ts cs) = snappedRatio cs"
    "length ts = 1 \<Longrightarrow> size_xy (crop (handleTouchMove ts cs)) = size_xy (crop cs)"
    by (simp_all add: handleTouchMove_def Let_def setCrop_def toBounds_def move_def Box_from_def
        split: option.split)
  have k: "snappedRatio (keyFrame kev kd cs) = snappedRatio cs"
    by (simp add: keyFrame_def Let_def setCrop_def)
  from a b d w t k show ?thesis by blast
qed

text \<open>In the resize scenario the east handle reaches 400 x 200, a size that
  \<open>findClosestRatio\<close> matches with (2, 1): no snap is recorded and 400 x 200 is
  committed.  With the aspect ratio 1 configured the corner resize records none
  either.\<close>

lemma findClosestRatio_400_200:
  "\<not> aspectRatioSet cs \<Longrightarrow> findClosestRatio cs (Fin 400) (Fin 200) (Fin 0.01) = Some (Fin 2, Fin 1)"
  by (simp add: findClosestRatio_def COMMON_RATIOS_def)

theorem C4_witness:
  "resizeCandidate (Fin 500) (Fin 400) False (resizeScenarioGesture E) resizeScenario
     = (Fin 400, Fin 200)
   \<and> findClosestRatio resizeScenario (Fin 400) (Fin 200) (Fin 0.01) = Some (Fin 2, Fin 1)
   \<and> snappedRatio (snd (handleResizeMove (Fin 500) (Fin 400) False (resizeScenarioGesture E)
        resizeScenario)) = None
   \<and> size_xy (crop (snd (handleResizeMove (Fin 500) (Fin 400) False (resizeScenarioGesture E)
        resizeScenario))) = \<lparr>x = Fin 400, y = Fin 200\<rparr>
   \<and> snappedRatio (snd (handleResizeMove (Fin 500) (Fin 400) False (resizeScenarioGesture SE)
        (resizeScenario\<lparr>props_aspectRatio := Some (Fin 1)\<rparr>))) = None
   \<and> findClosestRatio (resizeScenario\<lparr>props_aspectRatio := Some (Fin 1)\<rparr>)
        (Fin 400) (Fin 300) (Fin 0.01) = None
   \<and> snappedRatio (handleWheel \<lparr>wheel_ctrlKey = False, deltaX = Fin 10, deltaY = Fin 0\<rparr>
        (resizeScenario\<lparr>snappedRatio := Some (Fin 4, Fin 3)\<rparr>)) = Some (Fin 4, Fin 3)
   \<and> snappedRatio (handleWheel \<lparr>wheel_ctrlKey = True, deltaX = Fin 0, deltaY = Fin 10\<rparr>
        (resizeScenario\<lparr>snappedRatio := Some (Fin 4, Fin 3)\<rparr>)) = None
   \<and> size_xy (crop (handleTouchMove [\<lparr>touch_clientX = Fin 5, touch_clientY = Fin 5\<rparr>]
        resizeScenario)) = \<lparr>x = Fin 300, y = Fin 200\<rparr>"
proof -
  have cand: "resizeCandidate (Fin 500) (Fin 400) False (resizeScenarioGesture E) resizeScenario
     = (Fin 400, Fin 200)"
    using resizeScenario_candidate [of resizeScenario 100 100 E]
    by (simp add: resizeScenario_facts dir_includes_def)
  have e: "dir_length (dir (resizeScenarioGesture E)) \<noteq> 2"
    by (simp add: resizeScenario_facts dir_length_def)
  have ar: "aspectRatioSet (resizeScenario\<lparr>props_aspectRatio := Some (Fin 1)\<rparr>)"
    by (simp add: aspectRatioSet_def)
  have sz: "size_xy (crop resizeScenario) = \<lparr>x = Fin 300, y = Fin 200\<rparr>"
    by (simp add: resizeScenario_def cropperOf_def)
  have bnd: "toBounds (constrainToBoundary (x (mapped (resizeScenarioGesture E)))
        (y (mapped (resizeScenarioGesture E))) (origin (resizeScenarioGesture E))
        (resize (Fin 400) (Fin 200) (origin (resizeScenarioGesture E))
           (box (resizeScenarioGesture E)))) =
      \<lparr>position = \<lparr>x = Fin 100, y = Fin 100\<rparr>, size_xy = \<lparr>x = Fin 400, y = Fin 200\<rparr>\<rparr>"
    by (simp add: resizeScenarioGesture_def handleResizeStart_def resizeScenario_def cropperOf_def
        mappedSize_def constrainToBoundary_def resize_def toBounds_def Box_from_def Let_def
        dir_includes_def)
  show ?thesis
    using C4_snap_only_on_corners [of "resizeScenarioGesture E" resizeScenario "Fin 500" "Fin 400"
        False]
      C4_snap_only_on_corners [of "resizeScenarioGesture SE"
        "resizeScenario\<lparr>props_aspectRatio := Some (Fin 1)\<rparr>" "Fin 500" "Fin 400" False
        "Fin 400" "Fin 300" "Fin 0.01"]
      C4_snap_only_on_corners [of _ "resizeScenario\<lparr>snappedRatio := Some (Fin 4, Fin 3)\<rparr>" _ _ _
        _ _ _ _ _ _ "\<lparr>wheel_ctrlKey = False, deltaX = Fin 10, deltaY = Fin 0\<rparr>"]
      C4_snap_only_on_corners [of _ "resizeScenario\<lparr>snappedRatio := Some (Fin 4, Fin 3)\<rparr>" _ _ _
        _ _ _ _ _ _ "\<lparr>wheel_ctrlKey = True, deltaX = Fin 0, deltaY = Fin 10\<rparr>"]
      C4_snap_only_on_corners [of _ resizeScenario _ _ _ _ _ _ _ _ _ _
        "[\<lparr>touch_clientX = Fin 5, touch_clientY = Fin 5\<rparr>]"]
      cand e ar sz bnd findClosestRatio_400_200 [OF resizeScenario_facts(3)]
    by simp
qed

section \<open>Wheel scaling\<close>

lemma wheelScale_Fin: "wheelScale (Fin d) = Fin (1 - d * max 0.001 (\<bar>d\<bar> * 0.001))"
  by (simp add: wheelScale_def scaleVelocity_def max_def)

lemma wheel_scaled_size:
  assumes m: "mappedSize cs = \<lparr>x = Fin mx, y = Fin my\<rparr>" and mpos: "0 \<le> mx" "0 \<le> my"
    and s: "size_xy (crop cs) = \<lparr>x = Fin w, y = Fin h\<rparr>"
    and ctrl: "wheel_ctrlKey ev" and d: "deltaY ev = Fin d"
  shows "size_xy (crop (handleWheel ev cs)) =
      \<lparr>x = clamp (Fin w * wheelScale (Fin d)) (x (minSize cs)) (Fin mx),
       y = clamp (Fin h * wheelScale (Fin d)) (y (minSize cs)) (Fin my)\<rparr>"
    and "x (minSize cs) \<le> x (size_xy (crop (handleWheel ev cs)))"
    and "y (minSize cs) \<le> y (size_xy (crop (handleWheel ev cs)))"
proof -
  define sc where "sc = 1 - d * max 0.001 (\<bar>d\<bar> * 0.001)"
  have ws: "wheelScale (Fin d) = Fin sc" by (simp add: wheelScale_Fin sc_def)
  define nw where "nw = max (min 100 (mx * 0.1)) (min mx (w * sc))"
  define nh where "nh = max (min 100 (my * 0.1)) (min my (h * sc))"
  have le: "nw \<le> mx" "nh \<le> my" using mpos by (auto simp: nw_def nh_def)
  have ge: "min 100 (mx * 0.1) \<le> nw" "min 100 (my * 0.1) \<le> nh" by (auto simp: nw_def nh_def)
  note ms = minSize_Fin [OF m]
  have cw: "clamp (Fin w * Fin sc) (Fin (min 100 (mx * 0.1))) (Fin mx) = Fin nw"
    "clamp (Fin h * Fin sc) (Fin (min 100 (my * 0.1))) (Fin my) = Fin nh"
    by (simp_all add: nw_def nh_def)
  have sz: "size_xy (crop (handleWheel ev cs)) = \<lparr>x = Fin nw, y = Fin nh\<rparr>"
    unfolding handleWheel_def Let_def ws d
    using ctrl le cw
    by (simp add: m ms s Box_from_def resize_def constrainToBoundary_def toBounds_def
        Let_def setCrop_def not_less del: clamp_Fin)
  show "size_xy (crop (handleWheel ev cs)) =
      \<lparr>x = clamp (Fin w * wheelScale (Fin d)) (x (minSize cs)) (Fin mx),
       y = clamp (Fin h * wheelScale (Fin d)) (y (minSize cs)) (Fin my)\<rparr>"
    unfolding sz ws ms using cw by (simp del: clamp_Fin)
  show "x (minSize cs) \<le> x (size_xy (crop (handleWheel ev cs)))"
    "y (minSize cs) \<le> y (size_xy (crop (handleWheel ev cs)))"
    unfolding sz ms using ge by simp_all
qed

text \<open>
  C5.  The claim: in wheel scaling the scale factor applied to width and height is
  floored, so that it is never zero or negative, for every finite \<open>deltaY\<close>.

  The floor is on \<open>velocity\<close>, not on the factor: \<open>scale = 1 - deltaY * velocity\<close> is
  \<open>-9\<close> for \<open>deltaY = 100\<close> (\<open>C5_counterexample\<close>).

  What holds, \<open>C5_wheel_scale\<close>, for every finite \<open>deltaY = d\<close>: the velocity is
  \<open>max(0.001, |d| * 0.001)\<close>, at least 0.001; the factor is \<open>1 - d * velocity\<close>, which
  is positive exactly when \<open>d \<le> 0\<close> or \<open>d * d < 1000\<close>.  The handler clamps the scaled
  width and height before the resize: when the modifier is held, the mapped size is finite
  and not negative and the size of the crop is finite, \<open>handleWheel\<close> commits the width
  \<open>clamp(width * scale, minSize.x, mapped.x)\<close> and the height likewise, so both are at
  least \<open>minSize\<close> whatever the factor is.
\<close>

theorem C5_wheel_scale:
  "scaleVelocity (Fin d) = Fin (max 0.001 (\<bar>d\<bar> * 0.001))
   \<and> Fin 0.001 \<le> scaleVelocity (Fin d)
   \<and> wheelScale (Fin d) = Fin (1 - d * max 0.001 (\<bar>d\<bar> * 0.001))
   \<and> (Fin 0 < wheelScale (Fin d)) = (d \<le> 0 \<or> d * d < 1000)
   \<and> (wheel_ctrlKey ev \<and> deltaY ev = Fin d \<and> mappedSize cs = \<lparr>x = Fin mx, y = Fin my\<rparr> \<and>
        0 \<le> mx \<and> 0 \<le> my \<and> size_xy (crop cs) = \<lparr>x = Fin w, y = Fin h\<rparr> \<longrightarrow>
        size_xy (crop (handleWheel ev cs)) =
          \<lparr>x = clamp (Fin w * wheelScale (Fin d)) (x (minSize cs)) (Fin mx),
           y = clamp (Fin h * wheelScale (Fin d)) (y (minSize cs)) (Fin my)\<rparr> \<and>
        x (minSize cs) \<le> x (size_xy (crop (handleWheel ev cs))) \<and>
        y (minSize cs) \<le> y (size_xy (crop (handleWheel ev cs))))"
proof -
  have v: "scaleVelocity (Fin d) = Fin (max 0.001 (\<bar>d\<bar> * 0.001))"
    by (simp add: scaleVelocity_def max_def)
  have s: "wheelScale (Fin d) = Fin (1 - d * max 0.001 (\<bar>d\<bar> * 0.001))"
    by (rule wheelScale_Fin)
  have pos: "(0 < 1 - d * max 0.001 (\<bar>d\<bar> * 0.001)) = (d \<le> 0 \<or> d * d < 1000)"
  proof (cases "d \<le> 0")
    case True
    then have "d * max 0.001 (\<bar>d\<bar> * 0.001) \<le> 0"
      by (simp add: mult_le_0_iff)
    with True show ?thesis by simp
  next
    case False
    show ?thesis
    proof (cases "d \<le> 1")
      case True
      with False have "max 0.001 (\<bar>d\<bar> * 0.001) = 0.001" by (simp add: max_def)
      moreover have "d * d \<le> 1 * 1" using False True by (intro mult_mono) auto
      then have "d * d < 1000" by simp
      ultimately show ?thesis using False True by simp
    next
      case False
      then have "max 0.001 (\<bar>d\<bar> * 0.001) = d * 0.001" by (simp add: max_def)
      then show ?thesis using False by simp
    qed
  qed
  have a: "scaleVelocity (Fin d) = Fin (max 0.001 (\<bar>d\<bar> * 0.001))
   \<and> Fin 0.001 \<le> scaleVelocity (Fin d)
   \<and> wheelScale (Fin d) = Fin (1 - d * max 0.001 (\<bar>d\<bar> * 0.001))
   \<and> (Fin 0 < wheelScale (Fin d)) = (d \<le> 0 \<or> d * d < 1000)"
    using v s pos by (simp add: max_def)
  show ?thesis
    using a wheel_scaled_size [of cs mx my w h ev d] by blast
qed

theorem C5_witness:
  "size_xy (crop (handleWheel \<lparr>wheel_ctrlKey = True, deltaX = Fin 0, deltaY = Fin 100\<rparr>
      scenarioCropper)) = \<lparr>x = Fin 100, y = Fin 100\<rparr>"
proof -
  have f: "mappedSize scenarioCropper = \<lparr>x = Fin 1000, y = Fin 1000\<rparr>"
    "size_xy (crop scenarioCropper) = \<lparr>x = Fin 500, y = Fin 500\<rparr>"
    "minSize scenarioCropper = \<lparr>x = Fin 100, y = Fin 100\<rparr>"
    by (simp_all add: scenarioCropper_def cropperOf_def mappedSize_def minSize_def Let_def)
  have w: "wheelScale (Fin 100) = Fin (- 9)"
    by (simp add: wheelScale_def scaleVelocity_def)
  show ?thesis
    using C5_wheel_scale [where ev = "\<lparr>wheel_ctrlKey = True, deltaX = Fin 0, deltaY = Fin 100\<rparr>"
        and d = 100 and cs = scenarioCropper and mx = 1000 and my = 1000 and w = 500 and h = 500,
        THEN conjunct2, THEN conjunct2, THEN conjunct2, THEN conjunct2]
    by (simp add: f w)
qed

theorem C5_counterexample: "wheelScale (Fin 100) = Fin (- 9) \<and> wheelScale (Fin 100) < Fin 0"
  by (simp add: wheelScale_def scaleVelocity_def)

section \<open>The invariant of the crop\<close>

lemma isFinite_iff: "isFinite v = (\<exists>r. v = Fin r)"
  by (cases v) auto

lemma finiteXY_iff: "finiteXY v = (\<exists>p q. v = \<lparr>x = Fin p, y = Fin q\<rparr>)"
proof
  assume "finiteXY v"
  then obtain p q where "x v = Fin p" "y v = Fin q" by (auto simp: finiteXY_def isFinite_iff)
  then have "v = \<lparr>x = Fin p, y = Fin q\<rparr>" by (cases v) simp
  then show "\<exists>p q. v = \<lparr>x = Fin p, y = Fin q\<rparr>" by blast
next
  assume "\<exists>p q. v = \<lparr>x = Fin p, y = Fin q\<rparr>"
  then show "finiteXY v" by (auto simp: finiteXY_def)
qed

lemma resize_Fin:
  "resize (Fin nw) (Fin nh) \<lparr>x = Fin ox, y = Fin oy\<rparr>
     \<lparr>box_x = Fin a, box_y = Fin b, width = Fin w, height = Fin h\<rparr> =
   \<lparr>box_x = Fin (a + w * ox - nw * ox), box_y = Fin (b + h * oy - nh * oy),
    width = Fin nw, height = Fin nh\<rparr>"
  by (simp add: resize_def Let_def)

lemma constrainToBoundary_Fin:
  "constrainToBoundary (Fin mx) (Fin my) \<lparr>x = Fin ox, y = Fin oy\<rparr>
     \<lparr>box_x = Fin a, box_y = Fin b, width = Fin w, height = Fin h\<rparr> =
   \<lparr>box_x = Fin (max 0 (min (mx - min w mx) (a + w * ox - min w mx * ox))),
    box_y = Fin (max 0 (min (my - min h my) (b + h * oy - min h my * oy))),
    width = Fin (min w mx), height = Fin (min h my)\<rparr>"
  by (simp add: constrainToBoundary_def Let_def resize_def min_def)

lemma cropInvariant_Fin:
  "cropInvariant \<lparr>x = Fin mnx, y = Fin mny\<rparr> \<lparr>x = Fin mx, y = Fin my\<rparr>
     \<lparr>position = \<lparr>x = Fin a, y = Fin b\<rparr>, size_xy = \<lparr>x = Fin w, y = Fin h\<rparr>\<rparr> =
   (mnx \<le> w \<and> mny \<le> h \<and> 0 \<le> a \<and> 0 \<le> b \<and> a + w \<le> mx \<and> b + h \<le> my)"
  by (simp add: cropInvariant_def)



lemma constrained_inside:
  assumes "0 \<le> a" "0 \<le> b" "a + w \<le> mx" "b + h \<le> my" "0 \<le> w" "0 \<le> h"
  shows "constrainToBoundary (Fin mx) (Fin my) \<lparr>x = Fin ox, y = Fin oy\<rparr>
        \<lparr>box_x = Fin a, box_y = Fin b, width = Fin w, height = Fin h\<rparr> =
        \<lparr>box_x = Fin a, box_y = Fin b, width = Fin w, height = Fin h\<rparr>"
proof -
  have "min w mx = w" "min h my = h" using assms by simp_all
  then show ?thesis using assms by (simp add: constrainToBoundary_Fin)
qed





lemma cropInvariant_finite:
  assumes "cropInvariant \<lparr>x = Fin mnx, y = Fin mny\<rparr> \<lparr>x = Fin mx, y = Fin my\<rparr> c"
  shows "\<exists>a b w h. c = \<lparr>position = \<lparr>x = Fin a, y = Fin b\<rparr>, size_xy = \<lparr>x = Fin w, y = Fin h\<rparr>\<rparr>"
proof -
  have fin: "isFinite p \<and> isFinite s" if "Fin 0 \<le> p" "p + s \<le> Fin m" "Fin l \<le> s" for p s l m
    using that by (cases p; cases s) auto
  from assms have i: "Fin mnx \<le> x (size_xy c)" "Fin mny \<le> y (size_xy c)"
    "Fin 0 \<le> x (position c)" "Fin 0 \<le> y (position c)"
    "x (position c) + x (size_xy c) \<le> Fin mx" "y (position c) + y (size_xy c) \<le> Fin my"
    by (simp_all add: cropInvariant_def)
  from fin [OF i(3) i(5) i(1)] fin [OF i(4) i(6) i(2)]
  obtain a b w h where "x (position c) = Fin a" "y (position c) = Fin b"
    "x (size_xy c) = Fin w" "y (size_xy c) = Fin h"
    by (auto simp: isFinite_iff)
  then have "c = \<lparr>position = \<lparr>x = Fin a, y = Fin b\<rparr>, size_xy = \<lparr>x = Fin w, y = Fin h\<rparr>\<rparr>"
    by (cases c, cases "position c", cases "size_xy c") simp
  then show ?thesis by blast
qed


lemma newWidth_Fin:
  "newWidth d \<lparr>position = pos, size_xy = \<lparr>x = Fin w, y = Fin h\<rparr>\<rparr> (Fin delta) (Fin mult)
      \<lparr>x = Fin mnx, y = Fin mny\<rparr> \<lparr>x = Fin mx, y = Fin my\<rparr> =
   Fin (if dir_includes d CHR ''e'' \<or> dir_includes d CHR ''w''
        then max mnx (min mx (w + widthStep d (delta * mult))) else w)"
  by (simp add: newWidth_def widthStep_def)

lemma newHeight_Fin:
  "newHeight d \<lparr>position = pos, size_xy = \<lparr>x = Fin w, y = Fin h\<rparr>\<rparr> (Fin delta) (Fin mult)
      \<lparr>x = Fin mnx, y = Fin mny\<rparr> \<lparr>x = Fin mx, y = Fin my\<rparr> =
   Fin (if dir_includes d CHR ''n'' \<or> dir_includes d CHR ''s''
        then max mny (min my (h + heightStep d (delta * mult))) else h)"
  by (simp add: newHeight_def heightStep_def)


lemma handleResizeMove_nosnap:
  assumes "snapOf mX mY c g cs = None"
  shows "handleResizeMove mX mY c g cs =
     (let newOrigin = (if c then ORIGIN_CENTER else origin g);
          b = constrainToBoundary (x (mapped g)) (y (mapped g)) newOrigin
                (resize (fst (resizeCandidate mX mY c g cs)) (snd (resizeCandidate mX mY c g cs))
                   newOrigin (box g))
      in (g\<lparr>lastValidPos := \<lparr>x = mX, y = mY\<rparr>, box := b\<rparr>,
          setCrop (toBounds b) (cs\<lparr>snappedRatio := None\<rparr>)))"
  using assms by (simp add: handleResizeMove_def snapOf_def Let_def)

lemma toBounds_Fin:
  "toBounds b = \<lparr>position = \<lparr>x = Fin a, y = Fin b'\<rparr>, size_xy = \<lparr>x = Fin w, y = Fin h\<rparr>\<rparr> \<Longrightarrow>
   b = \<lparr>box_x = Fin a, box_y = Fin b', width = Fin w, height = Fin h\<rparr>"
  by (cases b) (simp add: toBounds_def)

lemma mappedSize_snappedRatio [simp]: "mappedSize (cs\<lparr>snappedRatio := r\<rparr>) = mappedSize cs"
  by (simp add: mappedSize_def split: option.split)

lemma minSize_snappedRatio [simp]: "minSize (cs\<lparr>snappedRatio := r\<rparr>) = minSize cs"
  by (simp add: minSize_def)

lemma minSize_setCrop [simp]: "minSize (setCrop v cs) = minSize cs"
  by (simp add: minSize_def)


lemma distanceOf_Fin:
  "distanceOf \<lparr>touch_clientX = Fin p0, touch_clientY = Fin q0\<rparr>
      \<lparr>touch_clientX = Fin p1, touch_clientY = Fin q1\<rparr> =
   Fin (sqrt ((p0 - p1) * (p0 - p1) + (q0 - q1) * (q0 - q1)))"
proof -
  have "\<not> (p0 - p1) * (p0 - p1) + (q0 - q1) * (q0 - q1) < 0"
    by (simp add: not_less)
  then show ?thesis by (simp add: distanceOf_def Let_def)
qed

lemma finiteTouch_iff: "finiteTouch t = (\<exists>p q. t = \<lparr>touch_clientX = Fin p, touch_clientY = Fin q\<rparr>)"
proof
  assume "finiteTouch t"
  then obtain p q where "touch_clientX t = Fin p" "touch_clientY t = Fin q"
    by (auto simp: finiteTouch_def isFinite_iff)
  then have "t = \<lparr>touch_clientX = Fin p, touch_clientY = Fin q\<rparr>" by (cases t) simp
  then show "\<exists>p q. t = \<lparr>touch_clientX = Fin p, touch_clientY = Fin q\<rparr>" by blast
next
  assume "\<exists>p q. t = \<lparr>touch_clientX = Fin p, touch_clientY = Fin q\<rparr>"
  then show "finiteTouch t" by (auto simp: finiteTouch_def)
qed


lemma usable_container:
  assumes "mappedSize cs = \<lparr>x = Fin mx, y = Fin my\<rparr>" "0 < mx" "0 < my"
    and "containerSize cs = \<lparr>x = Fin cx, y = Fin cy\<rparr>" "cx \<noteq> 0" "cy \<noteq> 0"
  shows "containerToMappedSizeScale cs = \<lparr>x = Fin (cx / mx), y = Fin (cy / my)\<rparr>"
    and "cx / mx \<noteq> 0" and "cy / my \<noteq> 0"
  using assms by (simp_all add: containerToMappedSizeScale_def)


lemma validCropper_dest:
  assumes "validCropper cs"
  obtains mx my cx cy a b w h where
    "mappedSize cs = \<lparr>x = Fin mx, y = Fin my\<rparr>" "0 < mx" "0 < my"
    "containerSize cs = \<lparr>x = Fin cx, y = Fin cy\<rparr>" "cx \<noteq> 0" "cy \<noteq> 0"
    "crop cs = \<lparr>position = \<lparr>x = Fin a, y = Fin b\<rparr>, size_xy = \<lparr>x = Fin w, y = Fin h\<rparr>\<rparr>"
    "cropInvariant (minSize cs) (mappedSize cs) (crop cs)"
proof -
  from assms obtain mx my where m: "mappedSize cs = \<lparr>x = Fin mx, y = Fin my\<rparr>"
    by (auto simp: validCropper_def finiteXY_iff)
  from assms obtain cx cy where ct: "containerSize cs = \<lparr>x = Fin cx, y = Fin cy\<rparr>"
    by (auto simp: validCropper_def finiteXY_iff)
  from assms m ct have pos: "0 < mx" "0 < my" "0 < cx" "0 < cy"
    and inv: "cropInvariant (minSize cs) (mappedSize cs) (crop cs)"
    by (simp_all add: validCropper_def)
  from inv obtain a b w h where
    c: "crop cs = \<lparr>position = \<lparr>x = Fin a, y = Fin b\<rparr>, size_xy = \<lparr>x = Fin w, y = Fin h\<rparr>\<rparr>"
    using cropInvariant_finite [of "min 100 (mx * 0.1)" "min 100 (my * 0.1)" mx my "crop cs"]
    by (auto simp: minSize_Fin [OF m] m)
  show ?thesis by (rule that [OF m pos(1) pos(2) ct _ _ c inv]) (use pos in auto)
qed

lemma validCropper_frame:
  assumes "validCropper cs" and "props_mappedSize cs' = props_mappedSize cs"
    and "containerSize cs' = containerSize cs"
    and "cropInvariant (minSize cs) (mappedSize cs) (crop cs')"
  shows "validCropper cs'"
proof -
  have "mappedSize cs' = mappedSize cs"
    using assms(2,3) by (simp add: mappedSize_def split: option.split)
  moreover from this have "minSize cs' = minSize cs" by (simp add: minSize_def)
  ultimately show ?thesis using assms by (simp add: validCropper_def)
qed

lemma updateRecordingBoxPosition_frame [simp]:
  "props_mappedSize (updateRecordingBoxPosition refs cs) = props_mappedSize cs"
  "containerSize (updateRecordingBoxPosition refs cs) = containerSize cs"
  by (simp_all add: updateRecordingBoxPosition_def setPositionTimeout_def Let_def
      split: option.split)







lemma starts_ready:
  assumes v: "validCropper cs"
  shows "handleDragStart down cs = (cs0, Some g0) \<and> isFinite (clientX down) \<and>
           isFinite (clientY down) \<longrightarrow> dragReady g0 \<and> validCropper cs0"
    and "isFinite px \<and> isFinite py \<longrightarrow> resizeReady (handleResizeStart px py d cs) cs"
    and "length ts = 2 \<and> (\<forall>t \<in> set ts. finiteTouch t) \<and> ts ! 0 \<noteq> ts ! 1 \<longrightarrow>
           pinchStarted (gestureState (handleTouchStart ts cs)) \<and>
           validCropper (handleTouchStart ts cs)"
proof -
  from v obtain mx my cx cy a b w h where
    m: "mappedSize cs = \<lparr>x = Fin mx, y = Fin my\<rparr>" "0 < mx" "0 < my"
    and ct: "containerSize cs = \<lparr>x = Fin cx, y = Fin cy\<rparr>" "cx \<noteq> 0" "cy \<noteq> 0"
    and c: "crop cs = \<lparr>position = \<lparr>x = Fin a, y = Fin b\<rparr>, size_xy = \<lparr>x = Fin w, y = Fin h\<rparr>\<rparr>"
    and inv: "cropInvariant (minSize cs) (mappedSize cs) (crop cs)"
    by (rule validCropper_dest)
  note sf = usable_container [OF m ct]
  have us: "usableScale (containerToMappedSizeScale cs)"
    using sf by (simp add: usableScale_def finiteXY_def)
  show "handleDragStart down cs = (cs0, Some g0) \<and> isFinite (clientX down) \<and>
           isFinite (clientY down) \<longrightarrow> dragReady g0 \<and> validCropper cs0"
  proof (intro impI, elim conjE)
    assume s: "handleDragStart down cs = (cs0, Some g0)" and f: "isFinite (clientX down)"
      "isFinite (clientY down)"
    from s have cs0: "cs0 = cs\<lparr>dragging := True\<rparr>"
      and g0: "g0 = \<lparr>lastX = clientX down, lastY = clientY down,
                 drag_scaleFactors = containerToMappedSizeScale cs\<rparr>"
      by (auto simp: handleDragStart_def split: if_splits)
    have "validCropper cs0"
      by (rule validCropper_frame [OF v]) (use inv in \<open>simp_all add: cs0\<close>)
    moreover have "dragReady g0" using us f by (simp add: g0 dragReady_def)
    ultimately show "dragReady g0 \<and> validCropper cs0" by simp
  qed
  show "isFinite px \<and> isFinite py \<longrightarrow> resizeReady (handleResizeStart px py d cs) cs"
    using us inv c
    by (simp add: resizeReady_def handleResizeStart_def finiteXY_def toBounds_def Box_from_def)
  show "length ts = 2 \<and> (\<forall>t \<in> set ts. finiteTouch t) \<and> ts ! 0 \<noteq> ts ! 1 \<longrightarrow>
           pinchStarted (gestureState (handleTouchStart ts cs)) \<and>
           validCropper (handleTouchStart ts cs)"
  proof (intro impI, elim conjE)
    assume l2: "length ts = 2" and f: "\<forall>t \<in> set ts. finiteTouch t" and ne: "ts ! 0 \<noteq> ts ! 1"
    from l2 obtain t0 t1 where l: "ts = [t0, t1]" by (cases ts; cases "tl ts") auto
    with f obtain p0 q0 p1 q1 where t: "t0 = \<lparr>touch_clientX = Fin p0, touch_clientY = Fin q0\<rparr>"
      "t1 = \<lparr>touch_clientX = Fin p1, touch_clientY = Fin q1\<rparr>"
      by (auto simp: finiteTouch_iff)
    from ne l t have "p0 \<noteq> p1 \<or> q0 \<noteq> q1" by auto
    then have "(p0 - p1) * (p0 - p1) + (q0 - q1) * (q0 - q1) \<noteq> 0"
      by (auto simp: sum_squares_eq_zero_iff)
    then have d: "sqrt ((p0 - p1) * (p0 - p1) + (q0 - q1) * (q0 - q1)) \<noteq> 0" by simp
    have "pinchStarted (gestureState (handleTouchStart ts cs))"
      using d c
      by (simp add: handleTouchStart_def Let_def l t distanceOf_Fin pinchStarted_def finiteXY_def)
    moreover have "validCropper (handleTouchStart ts cs)"
      by (rule validCropper_frame [OF v])
         (use inv in \<open>simp_all add: handleTouchStart_def Let_def l\<close>)
    ultimately show "pinchStarted (gestureState (handleTouchStart ts cs)) \<and>
           validCropper (handleTouchStart ts cs)" by simp
  qed
qed

text \<open>The snap of a corner resize can take the width below the minimum.\<close>

lemma snap_below_minimum:
  "fst (resizeCandidate (Fin 200) (Fin 156) False
      (handleResizeStart (Fin 300) (Fin 300) SE
         (cropperOf \<lparr>x = Fin 1000, y = Fin 500\<rparr> \<lparr>x = Fin 1000, y = Fin 500\<rparr>
            \<lparr>position = \<lparr>x = Fin 0, y = Fin 0\<rparr>, size_xy = \<lparr>x = Fin 200, y = Fin 200\<rparr>\<rparr>))
      (cropperOf \<lparr>x = Fin 1000, y = Fin 500\<rparr> \<lparr>x = Fin 1000, y = Fin 500\<rparr>
            \<lparr>position = \<lparr>x = Fin 0, y = Fin 0\<rparr>, size_xy = \<lparr>x = Fin 200, y = Fin 200\<rparr>\<rparr>)) = Fin 100
   \<and> size_xy (crop (snd (handleResizeMove (Fin 200) (Fin 156) False
      (handleResizeStart (Fin 300) (Fin 300) SE
         (cropperOf \<lparr>x = Fin 1000, y = Fin 500\<rparr> \<lparr>x = Fin 1000, y = Fin 500\<rparr>
            \<lparr>position = \<lparr>x = Fin 0, y = Fin 0\<rparr>, size_xy = \<lparr>x = Fin 200, y = Fin 200\<rparr>\<rparr>))
      (cropperOf \<lparr>x = Fin 1000, y = Fin 500\<rparr> \<lparr>x = Fin 1000, y = Fin 500\<rparr>
            \<lparr>position = \<lparr>x = Fin 0, y = Fin 0\<rparr>, size_xy = \<lparr>x = Fin 200, y = Fin 200\<rparr>\<rparr>)))) =
     \<lparr>x = Fin (896 / 9), y = Fin 56\<rparr>"
  by (simp add: handleResizeMove_def resizeCandidate_def handleResizeStart_def cropperOf_def
      containerToMappedSizeScale_def mappedSize_def minSize_def newWidth_def newHeight_def
      dir_includes_def dir_length_def toBounds_def Box_from_def Let_def snapMatch_def
      findClosestRatio_def aspectRatioSet_def COMMON_RATIOS_def resize_def
      constrainToBoundary_def setCrop_def)









section \<open>A configured aspect ratio and the resizes\<close>

lemma constrained_identity:
  assumes "0 \<le> a" "0 \<le> b" "a + w \<le> mx" "b + h \<le> my"
  shows "constrainToBoundary (Fin mx) (Fin my) \<lparr>x = Fin ox, y = Fin oy\<rparr>
        \<lparr>box_x = Fin a, box_y = Fin b, width = Fin w, height = Fin h\<rparr> =
        \<lparr>box_x = Fin a, box_y = Fin b, width = Fin w, height = Fin h\<rparr>"
proof -
  have "min w mx = w" "min h my = h" using assms by simp_all
  then show ?thesis using assms by (simp add: constrainToBoundary_Fin)
qed

lemma requested_committed:
  assumes req: "cropInvariant \<lparr>x = Fin mnx, y = Fin mny\<rparr> \<lparr>x = Fin mx, y = Fin my\<rparr>
      (toBounds (requestedBox d stepX stepY \<lparr>x = Fin ox, y = Fin oy\<rparr>
         \<lparr>box_x = Fin a, box_y = Fin b, width = Fin w, height = Fin h\<rparr>))"
  shows "(if dir_includes d CHR ''e'' \<or> dir_includes d CHR ''w''
            then max mnx (min mx (w + widthStep d stepX)) else w) = w + widthStep d stepX"
    and "(if dir_includes d CHR ''n'' \<or> dir_includes d CHR ''s''
            then max mny (min my (h + heightStep d stepY)) else h) = h + heightStep d stepY"
    and "constrainToBoundary (Fin mx) (Fin my) \<lparr>x = Fin ox, y = Fin oy\<rparr>
           (requestedBox d stepX stepY \<lparr>x = Fin ox, y = Fin oy\<rparr>
              \<lparr>box_x = Fin a, box_y = Fin b, width = Fin w, height = Fin h\<rparr>) =
         requestedBox d stepX stepY \<lparr>x = Fin ox, y = Fin oy\<rparr>
              \<lparr>box_x = Fin a, box_y = Fin b, width = Fin w, height = Fin h\<rparr>"
proof -
  define nw where "nw = w + widthStep d stepX"
  define nh where "nh = h + heightStep d stepY"
  have rb: "requestedBox d stepX stepY \<lparr>x = Fin ox, y = Fin oy\<rparr>
         \<lparr>box_x = Fin a, box_y = Fin b, width = Fin w, height = Fin h\<rparr> =
      \<lparr>box_x = Fin (a + w * ox - nw * ox), box_y = Fin (b + h * oy - nh * oy),
       width = Fin nw, height = Fin nh\<rparr>"
    by (simp add: requestedBox_def resize_Fin nw_def nh_def)
  from req have i: "mnx \<le> nw" "mny \<le> nh" "0 \<le> a + w * ox - nw * ox"
    "0 \<le> b + h * oy - nh * oy" "a + w * ox - nw * ox + nw \<le> mx"
    "b + h * oy - nh * oy + nh \<le> my"
    by (simp_all add: rb toBounds_def cropInvariant_Fin)
  then have le: "nw \<le> mx" "nh \<le> my" by linarith+
  show "(if dir_includes d CHR ''e'' \<or> dir_includes d CHR ''w''
            then max mnx (min mx (w + widthStep d stepX)) else w) = w + widthStep d stepX"
    using i(1) le(1) by (auto simp: nw_def widthStep_def)
  show "(if dir_includes d CHR ''n'' \<or> dir_includes d CHR ''s''
            then max mny (min my (h + heightStep d stepY)) else h) = h + heightStep d stepY"
    using i(2) le(2) by (auto simp: nh_def heightStep_def)
  show "constrainToBoundary (Fin mx) (Fin my) \<lparr>x = Fin ox, y = Fin oy\<rparr>
           (requestedBox d stepX stepY \<lparr>x = Fin ox, y = Fin oy\<rparr>
              \<lparr>box_x = Fin a, box_y = Fin b, width = Fin w, height = Fin h\<rparr>) =
         requestedBox d stepX stepY \<lparr>x = Fin ox, y = Fin oy\<rparr>
              \<lparr>box_x = Fin a, box_y = Fin b, width = Fin w, height = Fin h\<rparr>"
    unfolding rb by (rule constrained_identity [OF i(3) i(4) i(5) i(6)])
qed

lemma keyOrigin_Fin:
  "keyOrigin kev = \<lparr>x = Fin (if altKey kev then 0.5 else 0), y = Fin (if altKey kev then 0.5 else 0)\<rparr>"
  by (simp add: keyOrigin_def ORIGIN_CENTER_def)

lemma key_resize_request:
  assumes v: "validCropper cs" and k: "metaKey kev \<or> ctrlKey kev"
    and req: "cropInvariant (minSize cs) (mappedSize cs)
      (toBounds (requestedBox d (keyStep kev) (keyStep kev) (keyOrigin kev)
         (Box_from (position (crop cs)) (size_xy (crop cs)))))"
  shows "crop (keyFrame kev d cs) =
      toBounds (requestedBox d (keyStep kev) (keyStep kev) (keyOrigin kev)
         (Box_from (position (crop cs)) (size_xy (crop cs))))"
proof -
  from v obtain mx my a b w h where
    m: "mappedSize cs = \<lparr>x = Fin mx, y = Fin my\<rparr>"
    and c: "crop cs = \<lparr>position = \<lparr>x = Fin a, y = Fin b\<rparr>, size_xy = \<lparr>x = Fin w, y = Fin h\<rparr>\<rparr>"
    by (rule validCropper_dest)
  obtain mnx mny where ms: "minSize cs = \<lparr>x = Fin mnx, y = Fin mny\<rparr>"
    using minSize_Fin [OF m] by blast
  define ox :: real where "ox = (if altKey kev then 0.5 else 0)"
  have o: "keyOrigin kev = \<lparr>x = Fin ox, y = Fin ox\<rparr>" by (simp add: keyOrigin_Fin ox_def)
  have o': "(if altKey kev then ORIGIN_CENTER else \<lparr>x = Fin 0, y = Fin 0\<rparr>) = \<lparr>x = Fin ox, y = Fin ox\<rparr>"
    using o by (simp add: keyOrigin_def)
  define dl :: real where "dl = (if shiftKey kev then 20 else 5)"
  define ml :: real where "ml = (if altKey kev then 2 else 1)"
  have st: "(if shiftKey kev then Fin 20 else Fin 5) = Fin dl"
    "(if altKey kev then Fin 2 else Fin 1) = Fin ml"
    by (simp_all add: dl_def ml_def)
  have ks: "keyStep kev = dl * ml" by (simp add: keyStep_def dl_def ml_def)
  have b0: "Box_from (position (crop cs)) (size_xy (crop cs)) =
      \<lparr>box_x = Fin a, box_y = Fin b, width = Fin w, height = Fin h\<rparr>"
    by (simp add: c Box_from_def)
  have tb: "toBounds \<lparr>box_x = Fin a, box_y = Fin b, width = Fin w, height = Fin h\<rparr> =
      \<lparr>position = \<lparr>x = Fin a, y = Fin b\<rparr>, size_xy = \<lparr>x = Fin w, y = Fin h\<rparr>\<rparr>"
    by (simp add: toBounds_def)
  note r = requested_committed [OF req [unfolded ms m o b0 ks]]
  have nwj: "newWidth d \<lparr>position = \<lparr>x = Fin a, y = Fin b\<rparr>, size_xy = \<lparr>x = Fin w, y = Fin h\<rparr>\<rparr>
      (Fin dl) (Fin ml) \<lparr>x = Fin mnx, y = Fin mny\<rparr> \<lparr>x = Fin mx, y = Fin my\<rparr> =
      Fin w + Fin (widthStep d (dl * ml))"
    by (simp only: newWidth_Fin r(1) plus_jsnum.simps)
  have nhj: "newHeight d \<lparr>position = \<lparr>x = Fin a, y = Fin b\<rparr>, size_xy = \<lparr>x = Fin w, y = Fin h\<rparr>\<rparr>
      (Fin dl) (Fin ml) \<lparr>x = Fin mnx, y = Fin mny\<rparr> \<lparr>x = Fin mx, y = Fin my\<rparr> =
      Fin h + Fin (heightStep d (dl * ml))"
    by (simp only: newHeight_Fin r(2) plus_jsnum.simps)
  have "keyFrame kev d cs =
      (setCrop (toBounds (constrainToBoundary (Fin mx) (Fin my) \<lparr>x = Fin ox, y = Fin ox\<rparr>
        (requestedBox d (dl * ml) (dl * ml) \<lparr>x = Fin ox, y = Fin ox\<rparr>
           \<lparr>box_x = Fin a, box_y = Fin b, width = Fin w, height = Fin h\<rparr>))) cs)
        \<lparr>lastKeyHandleFrame := None\<rparr>"
    unfolding keyFrame_def Let_def o' st b0 tb ms m requestedBox_def
    using k by (simp only: if_True nwj nhj XY.select_convs Box.select_convs)
  then show ?thesis unfolding ks o b0 r(3) by (simp add: setCrop_def)
qed

lemma pointer_resize_request:
  assumes v: "validCropper cs" and ar: "aspectRatioSet cs" and rdy: "resizeReady g cs"
    and sc: "scaleFactors g = \<lparr>x = Fin sx, y = Fin sy\<rparr>"
    and lp: "lastValidPos g = \<lparr>x = Fin lx, y = Fin ly\<rparr>"
    and req: "cropInvariant (minSize cs) (mappedSize cs)
      (toBounds (requestedBox (dir g) ((p - lx) / sx * (if co then 2 else 1))
         ((q - ly) / sy * (if co then 2 else 1)) (if co then ORIGIN_CENTER else origin g) (box g)))"
  shows "crop (snd (handleResizeMove (Fin p) (Fin q) co g cs)) =
      toBounds (requestedBox (dir g) ((p - lx) / sx * (if co then 2 else 1))
         ((q - ly) / sy * (if co then 2 else 1)) (if co then ORIGIN_CENTER else origin g) (box g))"
proof -
  from v obtain mx my where m: "mappedSize cs = \<lparr>x = Fin mx, y = Fin my\<rparr>"
    by (rule validCropper_dest)
  obtain mnx mny where ms: "minSize cs = \<lparr>x = Fin mnx, y = Fin mny\<rparr>"
    using minSize_Fin [OF m] by blast
  from rdy m have gm: "mapped g = \<lparr>x = Fin mx, y = Fin my\<rparr>"
    and ginv: "cropInvariant (minSize cs) \<lparr>x = Fin mx, y = Fin my\<rparr> (toBounds (box g))"
    and us: "usableScale (scaleFactors g)" and og: "finiteXY (origin g)"
    by (auto simp: resizeReady_def)
  from ginv obtain ga gb gw gh where tb: "toBounds (box g) =
      \<lparr>position = \<lparr>x = Fin ga, y = Fin gb\<rparr>, size_xy = \<lparr>x = Fin gw, y = Fin gh\<rparr>\<rparr>"
    using cropInvariant_finite [of mnx mny mx my "toBounds (box g)"] by (auto simp: ms)
  then have bx: "box g = \<lparr>box_x = Fin ga, box_y = Fin gb, width = Fin gw, height = Fin gh\<rparr>"
    by (rule toBounds_Fin)
  from us sc have s0: "sx \<noteq> 0" "sy \<noteq> 0" by (simp_all add: usableScale_def)
  from og obtain gx gy where og': "origin g = \<lparr>x = Fin gx, y = Fin gy\<rparr>"
    by (auto simp: finiteXY_iff)
  define ox where "ox = (if co then 0.5 else gx)"
  define oy where "oy = (if co then 0.5 else gy)"
  have o: "(if co then ORIGIN_CENTER else origin g) = \<lparr>x = Fin ox, y = Fin oy\<rparr>"
    by (simp add: og' ORIGIN_CENTER_def ox_def oy_def)
  define ml :: real where "ml = (if co then 2 else 1)"
  have ml: "(if co then Fin 2 else Fin 1) = Fin ml" by (simp add: ml_def)
  define dxr where "dxr = (p - lx) / sx"
  define dyr where "dyr = (q - ly) / sy"
  have dx: "(Fin p - Fin lx) / Fin sx = Fin dxr" "(Fin q - Fin ly) / Fin sy = Fin dyr"
    using s0 by (simp_all add: dxr_def dyr_def)
  note r = requested_committed [OF req [unfolded ms m o bx, folded ml_def dxr_def dyr_def]]
  have nwj: "newWidth (dir g)
      \<lparr>position = \<lparr>x = Fin ga, y = Fin gb\<rparr>, size_xy = \<lparr>x = Fin gw, y = Fin gh\<rparr>\<rparr>
      (Fin dxr) (Fin ml) \<lparr>x = Fin mnx, y = Fin mny\<rparr> \<lparr>x = Fin mx, y = Fin my\<rparr> =
      Fin gw + Fin (widthStep (dir g) (dxr * ml))"
    by (simp only: newWidth_Fin r(1) plus_jsnum.simps)
  have nhj: "newHeight (dir g)
      \<lparr>position = \<lparr>x = Fin ga, y = Fin gb\<rparr>, size_xy = \<lparr>x = Fin gw, y = Fin gh\<rparr>\<rparr>
      (Fin dyr) (Fin ml) \<lparr>x = Fin mnx, y = Fin mny\<rparr> \<lparr>x = Fin mx, y = Fin my\<rparr> =
      Fin gh + Fin (heightStep (dir g) (dyr * ml))"
    by (simp only: newHeight_Fin r(2) plus_jsnum.simps)
  have cand: "resizeCandidate (Fin p) (Fin q) co g cs =
      (Fin gw + Fin (widthStep (dir g) (dxr * ml)), Fin gh + Fin (heightStep (dir g) (dyr * ml)))"
    unfolding resizeCandidate_def Let_def lp sc ml tb ms gm
    by (simp only: XY.select_convs dx nwj nhj)
  have nosnap: "snapOf (Fin p) (Fin q) co g cs = None"
    using ar by (simp add: snapOf_def snapMatch_def findClosestRatio_def)
  have "crop (snd (handleResizeMove (Fin p) (Fin q) co g cs)) =
      toBounds (constrainToBoundary (Fin mx) (Fin my) \<lparr>x = Fin ox, y = Fin oy\<rparr>
        (requestedBox (dir g) (dxr * ml) (dyr * ml) \<lparr>x = Fin ox, y = Fin oy\<rparr>
           \<lparr>box_x = Fin ga, box_y = Fin gb, width = Fin gw, height = Fin gh\<rparr>))"
    unfolding handleResizeMove_nosnap [OF nosnap] Let_def cand o gm requestedBox_def bx
    by (simp add: setCrop_def)
  then show ?thesis
    unfolding r(3) o bx by (simp add: dxr_def dyr_def ml_def)
qed

lemma square_valid: "validCropper squareCropper" "aspectRatioSet squareCropper"
  by (simp_all add: validCropper_def squareCropper_def scenarioCropper_def cropperOf_def
      mappedSize_def minSize_def finiteXY_def cropInvariant_def Let_def aspectRatioSet_def)

text \<open>
  C2.  The claim: with a fixed aspect ratio \<open>r\<close> configured and a boundary large
  enough that nothing is clamped, the crop committed by a resize, from a handle or from
  the keyboard, has \<open>|size.x / size.y - r| < 1e-6\<close>.

  In \<open>handleResizeMove\<close> and in \<open>handleKeyDown\<close> the call of
  \<open>constrainToRatio\<close> is commented out, so the configured ratio takes no part in
  either resize.  With the ratio 1 configured over the scenario's crop of 500 x 500,
  ctrl + ArrowRight commits 505 x 500 and dragging the east handle by 50 commits
  550 x 500 (\<open>C2_counterexample\<close>).

  What holds, \<open>C2_resize_commits_request\<close>.  Let the component be valid and an
  aspect ratio be configured.  The box that a resize asks for, \<open>requestedBox\<close>, has
  the width and the height of the box changed by the steps of the direction, about the
  anchor.  When that box satisfies the invariant, so that nothing is clamped, it is what
  is committed:
  \<^item> by a frame of the keyboard handler with ctrl or meta held, its step being that of
    the key on both axes;
  \<^item> by a pointer move of a handle resize whose closure is in step with the component,
    its steps being the pointer's deltas over the cached scale factors, doubled about
    the centre.
  Its size is the old size plus the steps, whatever the ratio configured.  The Box
  methods are those modelled from section 4.1.
\<close>

theorem C2_resize_commits_request:
  assumes v: "validCropper cs" and ar: "aspectRatioSet cs"
  shows
   "((metaKey kev \<or> ctrlKey kev) \<and>
      cropInvariant (minSize cs) (mappedSize cs)
        (toBounds (requestedBox d (keyStep kev) (keyStep kev) (keyOrigin kev)
           (Box_from (position (crop cs)) (size_xy (crop cs))))) \<longrightarrow>
      crop (keyFrame kev d cs) =
        toBounds (requestedBox d (keyStep kev) (keyStep kev) (keyOrigin kev)
           (Box_from (position (crop cs)) (size_xy (crop cs)))))
    \<and> (resizeReady g cs \<and> scaleFactors g = \<lparr>x = Fin sx, y = Fin sy\<rparr> \<and>
        lastValidPos g = \<lparr>x = Fin lx, y = Fin ly\<rparr> \<and>
        cropInvariant (minSize cs) (mappedSize cs)
          (toBounds (requestedBox (dir g) ((p - lx) / sx * (if co then 2 else 1))
             ((q - ly) / sy * (if co then 2 else 1))
             (if co then ORIGIN_CENTER else origin g) (box g))) \<longrightarrow>
        crop (snd (handleResizeMove (Fin p) (Fin q) co g cs)) =
          toBounds (requestedBox (dir g) ((p - lx) / sx * (if co then 2 else 1))
             ((q - ly) / sy * (if co then 2 else 1))
             (if co then ORIGIN_CENTER else origin g) (box g)))
    \<and> size_xy (toBounds (requestedBox d' stepX stepY anchor b0)) =
        \<lparr>x = width b0 + Fin (widthStep d' stepX), y = height b0 + Fin (heightStep d' stepY)\<rparr>"
proof -
  have s: "size_xy (toBounds (requestedBox d' stepX stepY anchor b0)) =
        \<lparr>x = width b0 + Fin (widthStep d' stepX), y = height b0 + Fin (heightStep d' stepY)\<rparr>"
    by (simp add: requestedBox_def resize_def toBounds_def Let_def)
  show ?thesis
    using key_resize_request [OF v, of kev d]
      pointer_resize_request [OF v ar, where g = g and sx = sx and sy = sy and lx = lx
        and ly = ly and p = p and q = q and co = co] s
    by blast
qed

theorem C2_witness:
  "crop (keyFrame (keyEvent ''ArrowRight'' False False True) E squareCropper) =
     \<lparr>position = \<lparr>x = Fin 0, y = Fin 0\<rparr>, size_xy = \<lparr>x = Fin 505, y = Fin 500\<rparr>\<rparr>
   \<and> crop (snd (handleResizeMove (Fin 450) (Fin 300) False
        (handleResizeStart (Fin 400) (Fin 300) E squareCropper) squareCropper)) =
     \<lparr>position = \<lparr>x = Fin 0, y = Fin 0\<rparr>, size_xy = \<lparr>x = Fin 550, y = Fin 500\<rparr>\<rparr>"
proof -
  have rr: "resizeReady (handleResizeStart (Fin 400) (Fin 300) E squareCropper) squareCropper"
    using starts_ready(2) [OF square_valid(1), of "Fin 400" "Fin 300" E] by simp
  have g: "scaleFactors (handleResizeStart (Fin 400) (Fin 300) E squareCropper) =
        \<lparr>x = Fin 1, y = Fin 1\<rparr>"
      "lastValidPos (handleResizeStart (Fin 400) (Fin 300) E squareCropper) =
        \<lparr>x = Fin 400, y = Fin 300\<rparr>"
      "dir (handleResizeStart (Fin 400) (Fin 300) E squareCropper) = E"
      "origin (handleResizeStart (Fin 400) (Fin 300) E squareCropper) = \<lparr>x = Fin 0, y = Fin 0\<rparr>"
      "box (handleResizeStart (Fin 400) (Fin 300) E squareCropper) =
        \<lparr>box_x = Fin 0, box_y = Fin 0, width = Fin 500, height = Fin 500\<rparr>"
    by (simp_all add: handleResizeStart_def squareCropper_def scenarioCropper_def cropperOf_def
        containerToMappedSizeScale_def mappedSize_def dir_includes_def Box_from_def)
  have k: "toBounds (requestedBox E 5 5 \<lparr>x = Fin 0, y = Fin 0\<rparr>
        \<lparr>box_x = Fin 0, box_y = Fin 0, width = Fin 500, height = Fin 500\<rparr>) =
      \<lparr>position = \<lparr>x = Fin 0, y = Fin 0\<rparr>, size_xy = \<lparr>x = Fin 505, y = Fin 500\<rparr>\<rparr>"
    "toBounds (requestedBox E 50 0 \<lparr>x = Fin 0, y = Fin 0\<rparr>
        \<lparr>box_x = Fin 0, box_y = Fin 0, width = Fin 500, height = Fin 500\<rparr>) =
      \<lparr>position = \<lparr>x = Fin 0, y = Fin 0\<rparr>, size_xy = \<lparr>x = Fin 550, y = Fin 500\<rparr>\<rparr>"
    by (simp_all add: requestedBox_def resize_def toBounds_def Let_def widthStep_def
        heightStep_def dir_includes_def)
  have sq: "crop squareCropper =
        \<lparr>position = \<lparr>x = Fin 0, y = Fin 0\<rparr>, size_xy = \<lparr>x = Fin 500, y = Fin 500\<rparr>\<rparr>"
      "minSize squareCropper = \<lparr>x = Fin 100, y = Fin 100\<rparr>"
      "mappedSize squareCropper = \<lparr>x = Fin 1000, y = Fin 1000\<rparr>"
    by (simp_all add: squareCropper_def scenarioCropper_def cropperOf_def mappedSize_def
        minSize_def Let_def)
  have ke: "keyStep (keyEvent ''ArrowRight'' False False True) = 5"
      "keyOrigin (keyEvent ''ArrowRight'' False False True) = \<lparr>x = Fin 0, y = Fin 0\<rparr>"
      "ctrlKey (keyEvent ''ArrowRight'' False False True)"
    by (simp_all add: keyStep_def keyOrigin_def keyEvent_def)
  show ?thesis
    using C2_resize_commits_request [OF square_valid,
        where kev = "keyEvent ''ArrowRight'' False False True" and d = E
          and g = "handleResizeStart (Fin 400) (Fin 300) E squareCropper"
          and sx = 1 and sy = 1 and lx = 400 and ly = 300 and p = 450 and q = 300
          and co = False]
      rr
    by (simp add: g k sq ke Box_from_def cropInvariant_def)
qed

theorem C2_counterexample:
  "props_aspectRatio squareCropper = Some (Fin 1)
   \<and> aspectRatioSet squareCropper
   \<and> KEY_MAPPINGS ''ArrowRight'' = Some E
   \<and> crop (handleKeyFrame (handleKeyDown (keyEvent ''ArrowRight'' False False True)
        squareCropper)) =
       \<lparr>position = \<lparr>x = Fin 0, y = Fin 0\<rparr>, size_xy = \<lparr>x = Fin 505, y = Fin 500\<rparr>\<rparr>
   \<and> \<not> Math_abs (Fin 505 / Fin 500 - Fin 1) < Fin 0.000001
   \<and> crop (snd (handleResizeMove (Fin 450) (Fin 300) False
        (handleResizeStart (Fin 400) (Fin 300) E squareCropper) squareCropper)) =
       \<lparr>position = \<lparr>x = Fin 0, y = Fin 0\<rparr>, size_xy = \<lparr>x = Fin 550, y = Fin 500\<rparr>\<rparr>
   \<and> \<not> Math_abs (Fin 550 / Fin 500 - Fin 1) < Fin 0.000001"
  by (simp add: handleKeyFrame_def handleKeyDown_def keyFrame_def KEY_MAPPINGS_def keyEvent_def
      squareCropper_def scenarioCropper_def cropperOf_def aspectRatioSet_def
      handleResizeMove_def resizeCandidate_def handleResizeStart_def
      containerToMappedSizeScale_def mappedSize_def minSize_def newWidth_def newHeight_def
      dir_includes_def dir_length_def toBounds_def Box_from_def Let_def snapMatch_def
      findClosestRatio_def resize_def constrainToBoundary_def setCrop_def clamp_def)

section \<open>Scale factors during a gesture\<close>

lemma mappedSize_container:
  "props_mappedSize cs \<noteq> None \<Longrightarrow> mappedSize (cs\<lparr>containerSize := c'\<rparr>) = mappedSize cs"
  by (auto simp: mappedSize_def)

lemma minSize_container:
  "props_mappedSize cs \<noteq> None \<Longrightarrow> minSize (cs\<lparr>containerSize := c'\<rparr>) = minSize cs"
  by (simp add: minSize_def mappedSize_container)

lemma updateRecordingBoxPosition_container:
  "updateRecordingBoxPosition r (cs\<lparr>containerSize := c'\<rparr>) =
     (updateRecordingBoxPosition r cs)\<lparr>containerSize := c'\<rparr>"
  by (simp add: updateRecordingBoxPosition_def setPositionTimeout_def Let_def
      split: option.split)

lemma setCrop_container:
  "setCrop v (cs\<lparr>containerSize := c'\<rparr>) = (setCrop v cs)\<lparr>containerSize := c'\<rparr>"
  by (simp add: setCrop_def)

lemma handleDrag_container:
  assumes "props_mappedSize cs \<noteq> None"
  shows "handleDrag e r g (cs\<lparr>containerSize := c'\<rparr>) =
     (fst (handleDrag e r g cs), (snd (handleDrag e r g cs))\<lparr>containerSize := c'\<rparr>)"
  by (simp add: handleDrag_def Let_def mappedSize_container [OF assms] setCrop_container
      updateRecordingBoxPosition_container)

lemma findClosestRatio_container:
  "findClosestRatio (cs\<lparr>containerSize := c'\<rparr>) w h t = findClosestRatio cs w h t"
  by (simp add: findClosestRatio_def aspectRatioSet_def)

lemma handleResizeMove_container:
  assumes "props_mappedSize cs \<noteq> None"
  shows "handleResizeMove mX mY co g (cs\<lparr>containerSize := c'\<rparr>) =
     (fst (handleResizeMove mX mY co g cs),
      (snd (handleResizeMove mX mY co g cs))\<lparr>containerSize := c'\<rparr>)"
  by (simp add: handleResizeMove_def resizeCandidate_def Let_def minSize_container [OF assms]
      findClosestRatio_container snapMatch_def setCrop_def split: option.split)

text \<open>
  C8.  The claim: every delta is converted with the scale factors current at its event;
  the factors are never cached across a gesture, so a container resize in the middle of
  a gesture changes how the later deltas of that gesture are converted.

  \<open>handleDragStart\<close> and \<open>handleResizeStart\<close> read
  \<open>containerToMappedSizeScale()\<close> once and keep it in the closure of the gesture.
  A drag that starts over a container of 1000 and moves by 100 after the container has
  shrunk to 500 commits the position 100, where the current factor 1/2 would give 200;
  a resize by the east handle likewise adds 100 to the width
  (\<open>C8_counterexample\<close>).

  What holds, \<open>C8_scale_factors_cached\<close>:
  \<^item> the closure of a drag and of a handle resize holds the scale factors read at the
    start of the gesture, and a move leaves them as they are;
  \<^item> a move of a drag divides the pointer's delta by the factors of its closure, and so
    does a move of a handle resize when it computes its candidate size;
  \<^item> when the mapped size is given by the host (\<open>props.mappedSize\<close>), a move of a
    drag or of a handle resize does the same whatever the container size is at that
    time: changing the container size before the move and after it give the same
    closure and the same component;
  \<^item> a wheel pan, a touch move with one finger or with two, and a keyboard move divide
    their deltas by the scale factors of the component as it is at the event.
\<close>

theorem C8_scale_factors_cached:
  "(handleDragStart down cs = (cs0, Some g0) \<longrightarrow>
       drag_scaleFactors g0 = containerToMappedSizeScale cs)
   \<and> drag_scaleFactors (fst (handleDrag e r g cs)) = drag_scaleFactors g
   \<and> position (crop (snd (handleDrag e r g cs))) =
       \<lparr>x = clamp (x (position (crop cs)) + (clientX e - lastX g) / x (drag_scaleFactors g))
              (Fin 0) (x (mappedSize cs) - x (size_xy (crop cs))),
        y = clamp (y (position (crop cs)) + (clientY e - lastY g) / y (drag_scaleFactors g))
              (Fin 0) (y (mappedSize cs) - y (size_xy (crop cs)))\<rparr>
   \<and> scaleFactors (handleResizeStart pX pY d cs) = containerToMappedSizeScale cs
   \<and> scaleFactors (fst (handleResizeMove mX mY co rg cs)) = scaleFactors rg
   \<and> resizeCandidate mX mY co rg cs =
       (newWidth (dir rg) (toBounds (box rg))
          ((mX - x (lastValidPos rg)) / x (scaleFactors rg)) (if co then Fin 2 else Fin 1)
          (minSize cs) (mapped rg),
        newHeight (dir rg) (toBounds (box rg))
          ((mY - y (lastValidPos rg)) / y (scaleFactors rg)) (if co then Fin 2 else Fin 1)
          (minSize cs) (mapped rg))
   \<and> (props_mappedSize cs \<noteq> None \<longrightarrow>
        handleDrag e r g (cs\<lparr>containerSize := c'\<rparr>) =
          (fst (handleDrag e r g cs), (snd (handleDrag e r g cs))\<lparr>containerSize := c'\<rparr>) \<and>
        handleResizeMove mX mY co rg (cs\<lparr>containerSize := c'\<rparr>) =
          (fst (handleResizeMove mX mY co rg cs),
           (snd (handleResizeMove mX mY co rg cs))\<lparr>containerSize := c'\<rparr>))
   \<and> (\<not> wheel_ctrlKey ev \<longrightarrow>
        position (crop (handleWheel ev cs)) =
          \<lparr>x = clamp (x (position (crop cs)) +
                 (- deltaX ev * Math_max (Fin 1) (Math_abs (deltaY ev) * Fin 0.01)) /
                   x (containerToMappedSizeScale cs))
                 (Fin 0) (x (mappedSize cs) - x (size_xy (crop cs))),
           y = clamp (y (position (crop cs)) +
                 (- deltaY ev * Math_max (Fin 1) (Math_abs (deltaY ev) * Fin 0.01)) /
                   y (containerToMappedSizeScale cs))
                 (Fin 0) (y (mappedSize cs) - y (size_xy (crop cs)))\<rparr>)
   \<and> (dragging cs \<and> lastTouchCenter (gestureState cs) = Some c \<longrightarrow>
        position (crop (handleTouchMove [t] cs)) =
          \<lparr>x = clamp (x (position (crop cs)) +
                 (touch_clientX t - x c) / x (containerToMappedSizeScale cs))
                 (Fin 0) (x (mappedSize cs) - x (size_xy (crop cs))),
           y = clamp (y (position (crop cs)) +
                 (touch_clientY t - y c) / y (containerToMappedSizeScale cs))
                 (Fin 0) (y (mappedSize cs) - y (size_xy (crop cs)))\<rparr>)
   \<and> (lastTouchCenter (gestureState cs) = Some c \<longrightarrow>
        position (crop (handleTouchMove [t1, t2] cs)) =
          \<lparr>x = clamp (box_x (resize
                   (fst (pinchSize (distanceOf t1 t2 / initialPinchDistance (gestureState cs)) cs))
                   (snd (pinchSize (distanceOf t1 t2 / initialPinchDistance (gestureState cs)) cs))
                   ORIGIN_CENTER (Box_from (position (crop cs)) (size_xy (crop cs)))) +
                 ((touch_clientX t1 + touch_clientX t2) / Fin 2 - x c) /
                   x (containerToMappedSizeScale cs))
                 (Fin 0)
                 (x (mappedSize cs) -
                  fst (pinchSize (distanceOf t1 t2 / initialPinchDistance (gestureState cs)) cs)),
           y = clamp (box_y (resize
                   (fst (pinchSize (distanceOf t1 t2 / initialPinchDistance (gestureState cs)) cs))
                   (snd (pinchSize (distanceOf t1 t2 / initialPinchDistance (gestureState cs)) cs))
                   ORIGIN_CENTER (Box_from (position (crop cs)) (size_xy (crop cs)))) +
                 ((touch_clientY t1 + touch_clientY t2) / Fin 2 - y c) /
                   y (containerToMappedSizeScale cs))
                 (Fin 0)
                 (y (mappedSize cs) -
                  snd (pinchSize (distanceOf t1 t2 / initialPinchDistance (gestureState cs)) cs))\<rparr>)
   \<and> (\<not> metaKey kev \<and> \<not> ctrlKey kev \<longrightarrow>
        crop (keyFrame kev kd cs) =
          toBounds (constrainToBoundary (x (mappedSize cs)) (y (mappedSize cs)) (keyOrigin kev)
            (move
              (clamp (x (position (crop cs)) +
                   (if dir_includes kd CHR ''e'' then (if shiftKey kev then Fin 20 else Fin 5)
                    else if dir_includes kd CHR ''w''
                      then - (if shiftKey kev then Fin 20 else Fin 5)
                    else Fin 0) / x (containerToMappedSizeScale cs))
                 (Fin 0) (x (mappedSize cs) - x (size_xy (crop cs))))
              (clamp (y (position (crop cs)) +
                   (if dir_includes kd CHR ''s'' then (if shiftKey kev then Fin 20 else Fin 5)
                    else if dir_includes kd CHR ''n''
                      then - (if shiftKey kev then Fin 20 else Fin 5)
                    else Fin 0) / y (containerToMappedSizeScale cs))
                 (Fin 0) (y (mappedSize cs) - y (size_xy (crop cs))))
              (Box_from (position (crop cs)) (size_xy (crop cs))))))"
proof -
  have 1: "handleDragStart down cs = (cs0, Some g0) \<longrightarrow>
       drag_scaleFactors g0 = containerToMappedSizeScale cs"
    by (auto simp: handleDragStart_def split: if_splits)
  have 2: "drag_scaleFactors (fst (handleDrag e r g cs)) = drag_scaleFactors g"
    by (simp add: handleDrag_def Let_def)
  have 3: "scaleFactors (handleResizeStart pX pY d cs) = containerToMappedSizeScale cs"
    by (simp add: handleResizeStart_def)
  have 4: "scaleFactors (fst (handleResizeMove mX mY co rg cs)) = scaleFactors rg"
    by (simp add: handleResizeMove_def Let_def)
  show ?thesis
    by (intro conjI impI 1 [rule_format] 2 3 4 drag_position resizeCandidate_cached
        handleDrag_container handleResizeMove_container wheel_pan_position
        touch_pan_position pinch_pan_position key_move_crop; (elim conjE)?; assumption)
qed

lemma shrunk_facts:
  "props_mappedSize scenarioCropper \<noteq> None"
  "props_mappedSize shrunkCropper \<noteq> None"
  "shrunkCropper = scenarioCropper\<lparr>containerSize := \<lparr>x = Fin 500, y = Fin 500\<rparr>\<rparr>"
  "containerToMappedSizeScale scenarioCropper = \<lparr>x = Fin 1, y = Fin 1\<rparr>"
  "containerToMappedSizeScale shrunkCropper = \<lparr>x = Fin (1 / 2), y = Fin (1 / 2)\<rparr>"
  "mappedSize shrunkCropper = \<lparr>x = Fin 1000, y = Fin 1000\<rparr>"
  "crop shrunkCropper =
     \<lparr>position = \<lparr>x = Fin 0, y = Fin 0\<rparr>, size_xy = \<lparr>x = Fin 500, y = Fin 500\<rparr>\<rparr>"
  by (simp_all add: shrunkCropper_def scenarioCropper_def cropperOf_def
      containerToMappedSizeScale_def mappedSize_def)

theorem C8_witness:
  "handleDragStart (mouseAt 10 20) scenarioCropper =
     (scenarioCropper\<lparr>dragging := True\<rparr>,
      Some \<lparr>lastX = Fin 10, lastY = Fin 20, drag_scaleFactors = \<lparr>x = Fin 1, y = Fin 1\<rparr>\<rparr>)
   \<and> snd (handleDrag (mouseAt 110 20) None
        \<lparr>lastX = Fin 10, lastY = Fin 20, drag_scaleFactors = \<lparr>x = Fin 1, y = Fin 1\<rparr>\<rparr>
        shrunkCropper) =
      (snd (handleDrag (mouseAt 110 20) None
        \<lparr>lastX = Fin 10, lastY = Fin 20, drag_scaleFactors = \<lparr>x = Fin 1, y = Fin 1\<rparr>\<rparr>
        scenarioCropper))\<lparr>containerSize := \<lparr>x = Fin 500, y = Fin 500\<rparr>\<rparr>
   \<and> position (crop (handleWheel \<lparr>wheel_ctrlKey = False, deltaX = Fin (- 100), deltaY = Fin 0\<rparr>
        shrunkCropper)) = \<lparr>x = Fin 200, y = Fin 0\<rparr>
   \<and> position (crop (handleTouchMove [touchAt 110 20]
        (handleTouchStart [touchAt 10 20] shrunkCropper))) = \<lparr>x = Fin 200, y = Fin 0\<rparr>
   \<and> position (crop (handleTouchMove [touchAt 100 100, touchAt 200 100]
        (pinchingCropper\<lparr>containerSize := \<lparr>x = Fin 500, y = Fin 500\<rparr>\<rparr>))) =
       \<lparr>x = Fin 100, y = Fin 0\<rparr>
   \<and> position (crop (keyFrame (keyEvent ''ArrowRight'' False False False) E shrunkCropper)) =
       \<lparr>x = Fin 10, y = Fin 0\<rparr>
   \<and> drag_scaleFactors
        \<lparr>lastX = Fin 10, lastY = Fin 20, drag_scaleFactors = \<lparr>x = Fin 1, y = Fin 1\<rparr>\<rparr> =
       containerToMappedSizeScale scenarioCropper"
proof -
  have s: "handleDragStart (mouseAt 10 20) scenarioCropper =
     (scenarioCropper\<lparr>dragging := True\<rparr>,
      Some \<lparr>lastX = Fin 10, lastY = Fin 20, drag_scaleFactors = \<lparr>x = Fin 1, y = Fin 1\<rparr>\<rparr>)"
    by (simp add: handleDragStart_def mouseAt_def shrunk_facts(4))
       (simp add: scenarioCropper_def cropperOf_def idleGesture_def)
  note a = C8_scale_factors_cached [where cs = scenarioCropper and e = "mouseAt 110 20"
          and r = None
          and g = "\<lparr>lastX = Fin 10, lastY = Fin 20,
                 drag_scaleFactors = \<lparr>x = Fin 1, y = Fin 1\<rparr>\<rparr>"
          and c' = "\<lparr>x = Fin 500, y = Fin 500\<rparr>"]
  note b = C8_scale_factors_cached [where cs = shrunkCropper
          and ev = "\<lparr>wheel_ctrlKey = False, deltaX = Fin (- 100), deltaY = Fin 0\<rparr>"
          and kev = "keyEvent ''ArrowRight'' False False False" and kd = E]
  note rest = conjunct2 [THEN conjunct2, THEN conjunct2, THEN conjunct2, THEN conjunct2,
      THEN conjunct2]
  have d: "snd (handleDrag (mouseAt 110 20) None
        \<lparr>lastX = Fin 10, lastY = Fin 20, drag_scaleFactors = \<lparr>x = Fin 1, y = Fin 1\<rparr>\<rparr>
        shrunkCropper) =
      (snd (handleDrag (mouseAt 110 20) None
        \<lparr>lastX = Fin 10, lastY = Fin 20, drag_scaleFactors = \<lparr>x = Fin 1, y = Fin 1\<rparr>\<rparr>
        scenarioCropper))\<lparr>containerSize := \<lparr>x = Fin 500, y = Fin 500\<rparr>\<rparr>"
    unfolding shrunk_facts(3)
    using a [THEN rest, THEN conjunct1, rule_format, OF shrunk_facts(1), THEN conjunct1]
    by simp
  have w: "position (crop (handleWheel
        \<lparr>wheel_ctrlKey = False, deltaX = Fin (- 100), deltaY = Fin 0\<rparr> shrunkCropper)) =
      \<lparr>x = Fin 200, y = Fin 0\<rparr>"
    using b [THEN rest, THEN conjunct2, THEN conjunct1]
    by (simp add: shrunk_facts(5-7))
  have ke: "keyOrigin (keyEvent ''ArrowRight'' False False False) = \<lparr>x = Fin 0, y = Fin 0\<rparr>"
      "\<not> metaKey (keyEvent ''ArrowRight'' False False False)"
      "\<not> ctrlKey (keyEvent ''ArrowRight'' False False False)"
      "\<not> shiftKey (keyEvent ''ArrowRight'' False False False)"
    by (simp_all add: keyOrigin_def keyEvent_def)
  have kb: "position (crop (keyFrame (keyEvent ''ArrowRight'' False False False) E
        shrunkCropper)) = \<lparr>x = Fin 10, y = Fin 0\<rparr>"
    using b [THEN rest, THEN conjunct2, THEN conjunct2, THEN conjunct2, THEN conjunct2]
    by (simp add: shrunk_facts(5-7) ke dir_includes_def toBounds_def constrainToBoundary_def
        move_def resize_def Box_from_def Let_def)
  have ts: "handleTouchStart [touchAt 10 20] shrunkCropper =
      shrunkCropper\<lparr>dragging := True, gestureState := (gestureState shrunkCropper)
        \<lparr>lastTouchCenter := Some \<lparr>x = Fin 10, y = Fin 20\<rparr>\<rparr>\<rparr>"
    by (simp add: handleTouchStart_def touchAt_def)
  have tf: "dragging (handleTouchStart [touchAt 10 20] shrunkCropper)"
      "lastTouchCenter (gestureState (handleTouchStart [touchAt 10 20] shrunkCropper)) =
         Some \<lparr>x = Fin 10, y = Fin 20\<rparr>"
      "containerToMappedSizeScale (handleTouchStart [touchAt 10 20] shrunkCropper) =
         \<lparr>x = Fin (1 / 2), y = Fin (1 / 2)\<rparr>"
      "mappedSize (handleTouchStart [touchAt 10 20] shrunkCropper) =
         \<lparr>x = Fin 1000, y = Fin 1000\<rparr>"
      "crop (handleTouchStart [touchAt 10 20] shrunkCropper) =
         \<lparr>position = \<lparr>x = Fin 0, y = Fin 0\<rparr>, size_xy = \<lparr>x = Fin 500, y = Fin 500\<rparr>\<rparr>"
    unfolding ts
    by (simp_all add: shrunkCropper_def scenarioCropper_def cropperOf_def
        containerToMappedSizeScale_def mappedSize_def)
  have tv: "touch_clientX (touchAt 110 20) = Fin 110" "touch_clientY (touchAt 110 20) = Fin 20"
    by (simp_all add: touchAt_def)
  note c = C8_scale_factors_cached [where cs = "handleTouchStart [touchAt 10 20] shrunkCropper"
        and t = "touchAt 110 20" and c = "\<lparr>x = Fin 10, y = Fin 20\<rparr>"]
  have t: "position (crop (handleTouchMove [touchAt 110 20]
        (handleTouchStart [touchAt 10 20] shrunkCropper))) = \<lparr>x = Fin 200, y = Fin 0\<rparr>"
    using c [THEN rest, THEN conjunct2, THEN conjunct2, THEN conjunct1] tf(1,2)
    by (simp add: tf(3-5) tv)
  have sq: "sqrt 10000 = (100::real)"
    using real_sqrt_abs [of "100::real"] by simp
  have pf: "lastTouchCenter (gestureState
         (pinchingCropper\<lparr>containerSize := \<lparr>x = Fin 500, y = Fin 500\<rparr>\<rparr>)) =
         Some \<lparr>x = Fin 100, y = Fin 100\<rparr>"
      "initialPinchDistance (gestureState
         (pinchingCropper\<lparr>containerSize := \<lparr>x = Fin 500, y = Fin 500\<rparr>\<rparr>)) = Fin 100"
      "containerToMappedSizeScale
         (pinchingCropper\<lparr>containerSize := \<lparr>x = Fin 500, y = Fin 500\<rparr>\<rparr>) =
         \<lparr>x = Fin (1 / 2), y = Fin (1 / 2)\<rparr>"
      "mappedSize (pinchingCropper\<lparr>containerSize := \<lparr>x = Fin 500, y = Fin 500\<rparr>\<rparr>) =
         \<lparr>x = Fin 1000, y = Fin 1000\<rparr>"
      "crop (pinchingCropper\<lparr>containerSize := \<lparr>x = Fin 500, y = Fin 500\<rparr>\<rparr>) =
         \<lparr>position = \<lparr>x = Fin 0, y = Fin 0\<rparr>, size_xy = \<lparr>x = Fin 500, y = Fin 500\<rparr>\<rparr>"
      "distanceOf (touchAt 100 100) (touchAt 200 100) = Fin 100"
      "initialPinchDistance (gestureState pinchingCropper) = Fin 100"
    by (simp_all add: pinchingCropper_def scenarioCropper_def cropperOf_def
        containerToMappedSizeScale_def mappedSize_def distanceOf_def touchAt_def Let_def sq)
  have ps: "pinchSize (Fin 1)
        (pinchingCropper\<lparr>containerSize := \<lparr>x = Fin 500, y = Fin 500\<rparr>\<rparr>) =
      (Fin 500, Fin 500)"
    by (simp add: pinchSize_def Let_def pinchingCropper_def scenarioCropper_def cropperOf_def
        mappedSize_def minSize_def)
  have tv2: "touch_clientX (touchAt 100 100) = Fin 100" "touch_clientY (touchAt 100 100) = Fin 100"
      "touch_clientX (touchAt 200 100) = Fin 200" "touch_clientY (touchAt 200 100) = Fin 100"
    by (simp_all add: touchAt_def)
  note p = C8_scale_factors_cached [where
        cs = "pinchingCropper\<lparr>containerSize := \<lparr>x = Fin 500, y = Fin 500\<rparr>\<rparr>"
        and ?t1.0 = "touchAt 100 100" and ?t2.0 = "touchAt 200 100"
        and c = "\<lparr>x = Fin 100, y = Fin 100\<rparr>"]
  have t2: "position (crop (handleTouchMove [touchAt 100 100, touchAt 200 100]
        (pinchingCropper\<lparr>containerSize := \<lparr>x = Fin 500, y = Fin 500\<rparr>\<rparr>))) =
       \<lparr>x = Fin 100, y = Fin 0\<rparr>"
    using p [THEN rest, THEN conjunct2, THEN conjunct2, THEN conjunct2, THEN conjunct1,
        rule_format, OF pf(1)]
    by (simp add: pf(2-7) ps tv2 resize_def Box_from_def ORIGIN_CENTER_def Let_def)
  have k: "drag_scaleFactors
        \<lparr>lastX = Fin 10, lastY = Fin 20, drag_scaleFactors = \<lparr>x = Fin 1, y = Fin 1\<rparr>\<rparr> =
       containerToMappedSizeScale scenarioCropper"
    using a [THEN conjunct1, rule_format, OF s] .
  show ?thesis using s d w t t2 kb k by blast
qed

theorem C8_counterexample:
  "handleDragStart (mouseAt 10 20) scenarioCropper =
     (scenarioCropper\<lparr>dragging := True\<rparr>,
      Some \<lparr>lastX = Fin 10, lastY = Fin 20, drag_scaleFactors = \<lparr>x = Fin 1, y = Fin 1\<rparr>\<rparr>)
   \<and> containerToMappedSizeScale (shrunkCropper\<lparr>dragging := True\<rparr>) =
       \<lparr>x = Fin (1 / 2), y = Fin (1 / 2)\<rparr>
   \<and> (Fin 110 - Fin 10) / x (containerToMappedSizeScale (shrunkCropper\<lparr>dragging := True\<rparr>)) =
       Fin 200
   \<and> position (crop (snd (handleDrag (mouseAt 110 20) None
        \<lparr>lastX = Fin 10, lastY = Fin 20, drag_scaleFactors = \<lparr>x = Fin 1, y = Fin 1\<rparr>\<rparr>
        (shrunkCropper\<lparr>dragging := True\<rparr>)))) = \<lparr>x = Fin 100, y = Fin 0\<rparr>
   \<and> position (crop (snd (handleResizeMove (Fin 500) (Fin 300) False
        (handleResizeStart (Fin 400) (Fin 300) E scenarioCropper) shrunkCropper))) =
       \<lparr>x = Fin 0, y = Fin 0\<rparr>
   \<and> size_xy (crop (snd (handleResizeMove (Fin 500) (Fin 300) False
        (handleResizeStart (Fin 400) (Fin 300) E scenarioCropper) shrunkCropper))) =
       \<lparr>x = Fin 600, y = Fin 500\<rparr>
   \<and> (Fin 500 - Fin 400) / x (containerToMappedSizeScale shrunkCropper) = Fin 200"
  by (simp add: handleDragStart_def handleDrag_def mouseAt_def shrunkCropper_def
      scenarioCropper_def cropperOf_def idleGesture_def containerToMappedSizeScale_def
      mappedSize_def minSize_def Let_def Box_from_def move_def toBounds_def setCrop_def
      updateRecordingBoxPosition_def handleResizeMove_def resizeCandidate_def
      handleResizeStart_def newWidth_def newHeight_def dir_includes_def dir_length_def
      snapMatch_def findClosestRatio_def aspectRatioSet_def COMMON_RATIOS_def resize_def
      constrainToBoundary_def clamp_def)

section \<open>Deltas that are not finite\<close>

lemma clamp_move_cases:
  "clamp (Fin a + dlt) (Fin 0) (Fin t) =
     (case dlt of Fin r \<Rightarrow> Fin (max 0 (min t (a + r))) | PInf \<Rightarrow> Fin (max 0 t)
      | NInf \<Rightarrow> Fin 0 | NaN \<Rightarrow> NaN)"
  by (cases dlt) simp_all

lemma clamp_grow_cases:
  "0 < ml \<Longrightarrow> clamp (Fin w + dlt * Fin ml) (Fin lo) (Fin hi) =
     (case dlt of Fin r \<Rightarrow> Fin (max lo (min hi (w + r * ml))) | PInf \<Rightarrow> Fin (max lo hi)
      | NInf \<Rightarrow> Fin lo | NaN \<Rightarrow> NaN)"
  by (cases dlt) simp_all

lemma clamp_shrink_cases:
  "0 < ml \<Longrightarrow> clamp (Fin w - dlt * Fin ml) (Fin lo) (Fin hi) =
     (case dlt of Fin r \<Rightarrow> Fin (max lo (min hi (w - r * ml))) | PInf \<Rightarrow> Fin lo
      | NInf \<Rightarrow> Fin (max lo hi) | NaN \<Rightarrow> NaN)"
  by (cases dlt) simp_all

lemma drag_cases:
  assumes m: "mappedSize cs = \<lparr>x = Fin mx, y = Fin my\<rparr>"
    and c: "crop cs = \<lparr>position = \<lparr>x = Fin a, y = Fin b\<rparr>, size_xy = \<lparr>x = Fin w, y = Fin h\<rparr>\<rparr>"
  shows "position (crop (snd (handleDrag e r g cs))) =
     \<lparr>x = (case (clientX e - lastX g) / x (drag_scaleFactors g) of
             Fin d \<Rightarrow> Fin (max 0 (min (mx - w) (a + d))) | PInf \<Rightarrow> Fin (max 0 (mx - w))
           | NInf \<Rightarrow> Fin 0 | NaN \<Rightarrow> NaN),
      y = (case (clientY e - lastY g) / y (drag_scaleFactors g) of
             Fin d \<Rightarrow> Fin (max 0 (min (my - h) (b + d))) | PInf \<Rightarrow> Fin (max 0 (my - h))
           | NInf \<Rightarrow> Fin 0 | NaN \<Rightarrow> NaN)\<rparr>"
  by (simp only: drag_position m c XY.select_convs Crop.select_convs minus_jsnum.simps
      clamp_move_cases)

lemma wheel_pan_cases:
  assumes m: "mappedSize cs = \<lparr>x = Fin mx, y = Fin my\<rparr>"
    and c: "crop cs = \<lparr>position = \<lparr>x = Fin a, y = Fin b\<rparr>, size_xy = \<lparr>x = Fin w, y = Fin h\<rparr>\<rparr>"
    and p: "\<not> wheel_ctrlKey ev"
  shows "position (crop (handleWheel ev cs)) =
     \<lparr>x = (case (- deltaX ev * Math_max (Fin 1) (Math_abs (deltaY ev) * Fin 0.01)) /
                  x (containerToMappedSizeScale cs) of
             Fin d \<Rightarrow> Fin (max 0 (min (mx - w) (a + d))) | PInf \<Rightarrow> Fin (max 0 (mx - w))
           | NInf \<Rightarrow> Fin 0 | NaN \<Rightarrow> NaN),
      y = (case (- deltaY ev * Math_max (Fin 1) (Math_abs (deltaY ev) * Fin 0.01)) /
                  y (containerToMappedSizeScale cs) of
             Fin d \<Rightarrow> Fin (max 0 (min (my - h) (b + d))) | PInf \<Rightarrow> Fin (max 0 (my - h))
           | NInf \<Rightarrow> Fin 0 | NaN \<Rightarrow> NaN)\<rparr>"
  by (simp only: wheel_pan_position [OF p] m c XY.select_convs Crop.select_convs
      minus_jsnum.simps clamp_move_cases)

lemma touch_pan_cases:
  assumes m: "mappedSize cs = \<lparr>x = Fin mx, y = Fin my\<rparr>"
    and c: "crop cs = \<lparr>position = \<lparr>x = Fin a, y = Fin b\<rparr>, size_xy = \<lparr>x = Fin w, y = Fin h\<rparr>\<rparr>"
    and d: "dragging cs" and l: "lastTouchCenter (gestureState cs) = Some ctr"
  shows "position (crop (handleTouchMove [t] cs)) =
     \<lparr>x = (case (touch_clientX t - x ctr) / x (containerToMappedSizeScale cs) of
             Fin d \<Rightarrow> Fin (max 0 (min (mx - w) (a + d))) | PInf \<Rightarrow> Fin (max 0 (mx - w))
           | NInf \<Rightarrow> Fin 0 | NaN \<Rightarrow> NaN),
      y = (case (touch_clientY t - y ctr) / y (containerToMappedSizeScale cs) of
             Fin d \<Rightarrow> Fin (max 0 (min (my - h) (b + d))) | PInf \<Rightarrow> Fin (max 0 (my - h))
           | NInf \<Rightarrow> Fin 0 | NaN \<Rightarrow> NaN)\<rparr>"
  by (simp only: touch_pan_position [OF d l] m c XY.select_convs Crop.select_convs
      minus_jsnum.simps clamp_move_cases)

lemma pinch_pan_cases:
  assumes m: "mappedSize cs = \<lparr>x = Fin mx, y = Fin my\<rparr>"
    and c: "crop cs = \<lparr>position = \<lparr>x = Fin a, y = Fin b\<rparr>, size_xy = \<lparr>x = Fin w, y = Fin h\<rparr>\<rparr>"
    and l: "lastTouchCenter (gestureState cs) = Some ctr"
    and ps: "pinchSize (distanceOf t1 t2 / initialPinchDistance (gestureState cs)) cs =
        (Fin pw, Fin ph)"
  shows "position (crop (handleTouchMove [t1, t2] cs)) =
     \<lparr>x = (case ((touch_clientX t1 + touch_clientX t2) / Fin 2 - x ctr) /
                  x (containerToMappedSizeScale cs) of
             Fin d \<Rightarrow> Fin (max 0 (min (mx - pw) (a + w * 0.5 - pw * 0.5 + d)))
           | PInf \<Rightarrow> Fin (max 0 (mx - pw)) | NInf \<Rightarrow> Fin 0 | NaN \<Rightarrow> NaN),
      y = (case ((touch_clientY t1 + touch_clientY t2) / Fin 2 - y ctr) /
                  y (containerToMappedSizeScale cs) of
             Fin d \<Rightarrow> Fin (max 0 (min (my - ph) (b + h * 0.5 - ph * 0.5 + d)))
           | PInf \<Rightarrow> Fin (max 0 (my - ph)) | NInf \<Rightarrow> Fin 0 | NaN \<Rightarrow> NaN)\<rparr>"
proof -
  have bx: "box_x (resize (Fin pw) (Fin ph) ORIGIN_CENTER
        (Box_from (position (crop cs)) (size_xy (crop cs)))) = Fin (a + w * 0.5 - pw * 0.5)"
    "box_y (resize (Fin pw) (Fin ph) ORIGIN_CENTER
        (Box_from (position (crop cs)) (size_xy (crop cs)))) = Fin (b + h * 0.5 - ph * 0.5)"
    by (simp_all add: resize_def Box_from_def ORIGIN_CENTER_def c Let_def)
  show ?thesis
    by (simp only: pinch_pan_position [OF l] ps fst_conv snd_conv bx m XY.select_convs
        minus_jsnum.simps clamp_move_cases)
qed

lemma constrain_moved:
  assumes le: "w \<le> mx" "h \<le> my"
    and px: "px = NaN \<or> (\<exists>p. px = Fin p \<and> 0 \<le> p \<and> p \<le> mx - w)"
    and py: "py = NaN \<or> (\<exists>q. py = Fin q \<and> 0 \<le> q \<and> q \<le> my - h)"
  shows "position (toBounds (constrainToBoundary (Fin mx) (Fin my) \<lparr>x = Fin ox, y = Fin oy\<rparr>
       \<lparr>box_x = px, box_y = py, width = Fin w, height = Fin h\<rparr>)) = \<lparr>x = px, y = py\<rparr>"
proof -
  have x: "clamp (px + Fin w * Fin ox - Fin w * Fin ox) (Fin 0) (Fin mx - Fin w) = px"
    using px by (auto simp: max_def min_def)
  have y: "clamp (py + Fin h * Fin oy - Fin h * Fin oy) (Fin 0) (Fin my - Fin h) = py"
    using py by (auto simp: max_def min_def)
  show ?thesis
    unfolding constrainToBoundary_def resize_def toBounds_def Let_def
    using le x y by (simp add: not_less del: clamp_Fin times_jsnum.simps)
qed

lemma clamp_move_range:
  assumes "0 \<le> t"
  shows "clamp (Fin a + dlt) (Fin 0) (Fin t) = NaN \<or>
     (\<exists>p. clamp (Fin a + dlt) (Fin 0) (Fin t) = Fin p \<and> 0 \<le> p \<and> p \<le> t)"
  using assms by (cases dlt) auto

lemma key_move_cases:
  assumes m: "mappedSize cs = \<lparr>x = Fin mx, y = Fin my\<rparr>"
    and c: "crop cs = \<lparr>position = \<lparr>x = Fin a, y = Fin b\<rparr>, size_xy = \<lparr>x = Fin w, y = Fin h\<rparr>\<rparr>"
    and k: "\<not> metaKey kev" "\<not> ctrlKey kev" and le: "w \<le> mx" "h \<le> my"
  shows "position (crop (keyFrame kev d cs)) =
     \<lparr>x = (case (if dir_includes d CHR ''e'' then (if shiftKey kev then Fin 20 else Fin 5)
                 else if dir_includes d CHR ''w''
                   then - (if shiftKey kev then Fin 20 else Fin 5)
                 else Fin 0) / x (containerToMappedSizeScale cs) of
             Fin dl \<Rightarrow> Fin (max 0 (min (mx - w) (a + dl))) | PInf \<Rightarrow> Fin (max 0 (mx - w))
           | NInf \<Rightarrow> Fin 0 | NaN \<Rightarrow> NaN),
      y = (case (if dir_includes d CHR ''s'' then (if shiftKey kev then Fin 20 else Fin 5)
                 else if dir_includes d CHR ''n''
                   then - (if shiftKey kev then Fin 20 else Fin 5)
                 else Fin 0) / y (containerToMappedSizeScale cs) of
             Fin dl \<Rightarrow> Fin (max 0 (min (my - h) (b + dl))) | PInf \<Rightarrow> Fin (max 0 (my - h))
           | NInf \<Rightarrow> Fin 0 | NaN \<Rightarrow> NaN)\<rparr>"
proof -
  define dx where "dx = (if dir_includes d CHR ''e'' then (if shiftKey kev then Fin 20 else Fin 5)
                 else if dir_includes d CHR ''w''
                   then - (if shiftKey kev then Fin 20 else Fin 5)
                 else Fin 0) / x (containerToMappedSizeScale cs)"
  define dy where "dy = (if dir_includes d CHR ''s'' then (if shiftKey kev then Fin 20 else Fin 5)
                 else if dir_includes d CHR ''n''
                   then - (if shiftKey kev then Fin 20 else Fin 5)
                 else Fin 0) / y (containerToMappedSizeScale cs)"
  define px where "px = clamp (Fin a + dx) (Fin 0) (Fin (mx - w))"
  define py where "py = clamp (Fin b + dy) (Fin 0) (Fin (my - h))"
  obtain ox oy where o: "keyOrigin kev = \<lparr>x = Fin ox, y = Fin oy\<rparr>"
    by (simp add: keyOrigin_Fin)
  have rx: "px = NaN \<or> (\<exists>p. px = Fin p \<and> 0 \<le> p \<and> p \<le> mx - w)"
    unfolding px_def using clamp_move_range [of "mx - w" a dx] le by simp
  have ry: "py = NaN \<or> (\<exists>q. py = Fin q \<and> 0 \<le> q \<and> q \<le> my - h)"
    unfolding py_def using clamp_move_range [of "my - h" b dy] le by simp
  have "crop (keyFrame kev d cs) =
      toBounds (constrainToBoundary (Fin mx) (Fin my) \<lparr>x = Fin ox, y = Fin oy\<rparr>
        \<lparr>box_x = px, box_y = py, width = Fin w, height = Fin h\<rparr>)"
    by (simp only: key_move_crop [OF k] m c o XY.select_convs Crop.select_convs
        minus_jsnum.simps move_def Box_from_def Box.update_convs dx_def [symmetric]
        dy_def [symmetric] px_def [symmetric] py_def [symmetric])
  then have "position (crop (keyFrame kev d cs)) = \<lparr>x = px, y = py\<rparr>"
    using constrain_moved [OF le rx ry] by simp
  then show ?thesis
    unfolding px_def py_def clamp_move_cases dx_def dy_def .
qed

lemma wheelScale_infinite:
  "wheelScale PInf = NInf" "wheelScale NInf = PInf" "wheelScale NaN = NaN"
  by (simp_all add: wheelScale_def scaleVelocity_def)

lemma wheel_scale_cases:
  assumes m: "mappedSize cs = \<lparr>x = Fin mx, y = Fin my\<rparr>" and mpos: "0 \<le> mx" "0 \<le> my"
    and s: "size_xy (crop cs) = \<lparr>x = Fin w, y = Fin h\<rparr>" and pos: "0 < w" "0 < h"
    and ctrl: "wheel_ctrlKey ev"
  shows "size_xy (crop (handleWheel ev cs)) =
     (case deltaY ev of
        Fin d \<Rightarrow> \<lparr>x = clamp (Fin w * wheelScale (Fin d)) (x (minSize cs)) (Fin mx),
                  y = clamp (Fin h * wheelScale (Fin d)) (y (minSize cs)) (Fin my)\<rparr>
      | PInf \<Rightarrow> minSize cs
      | NInf \<Rightarrow> \<lparr>x = Fin mx, y = Fin my\<rparr>
      | NaN \<Rightarrow> \<lparr>x = NaN, y = NaN\<rparr>)"
proof -
  define mnx where "mnx = min 100 (mx * 0.1)"
  define mny where "mny = min 100 (my * 0.1)"
  have ms: "minSize cs = \<lparr>x = Fin mnx, y = Fin mny\<rparr>"
    using minSize_Fin [OF m] by (simp add: mnx_def mny_def)
  have le: "mnx \<le> mx" "mny \<le> my" using mpos by (auto simp: mnx_def mny_def)
  show ?thesis
  proof (cases "deltaY ev")
    case (Fin d)
    then show ?thesis using wheel_scaled_size(1) [OF m mpos s ctrl Fin] by simp
  next
    case PInf
    have "size_xy (crop (handleWheel ev cs)) = \<lparr>x = Fin mnx, y = Fin mny\<rparr>"
      unfolding handleWheel_def Let_def PInf wheelScale_infinite
      using ctrl le pos
      by (simp add: m ms s Box_from_def resize_def constrainToBoundary_def toBounds_def
          Let_def setCrop_def not_less)
    then show ?thesis by (simp add: PInf ms)
  next
    case NInf
    have "size_xy (crop (handleWheel ev cs)) = \<lparr>x = Fin mx, y = Fin my\<rparr>"
      unfolding handleWheel_def Let_def NInf wheelScale_infinite
      using ctrl le pos
      by (simp add: m ms s Box_from_def resize_def constrainToBoundary_def toBounds_def
          Let_def setCrop_def not_less max_def)
    then show ?thesis by (simp add: NInf)
  next
    case NaN
    have "size_xy (crop (handleWheel ev cs)) = \<lparr>x = NaN, y = NaN\<rparr>"
      unfolding handleWheel_def Let_def NaN wheelScale_infinite
      using ctrl
      by (simp add: m ms s Box_from_def resize_def constrainToBoundary_def toBounds_def
          Let_def setCrop_def)
    then show ?thesis by (simp add: NaN)
  qed
qed

lemma resize_candidate_cases:
  assumes m: "mappedSize cs = \<lparr>x = Fin mx, y = Fin my\<rparr>"
    and b: "width (box rg) = Fin bw" "height (box rg) = Fin bh"
    and gm: "mapped rg = \<lparr>x = Fin gmx, y = Fin gmy\<rparr>"
  shows "resizeCandidate mX mY co rg cs =
     (if dir_includes (dir rg) CHR ''w'' then
        (case (mX - x (lastValidPos rg)) / x (scaleFactors rg) of
           Fin d \<Rightarrow> Fin (max (min 100 (mx * 0.1)) (min gmx (bw - d * (if co then 2 else 1))))
         | PInf \<Rightarrow> Fin (min 100 (mx * 0.1))
         | NInf \<Rightarrow> Fin (max (min 100 (mx * 0.1)) gmx)
         | NaN \<Rightarrow> NaN)
      else if dir_includes (dir rg) CHR ''e'' then
        (case (mX - x (lastValidPos rg)) / x (scaleFactors rg) of
           Fin d \<Rightarrow> Fin (max (min 100 (mx * 0.1)) (min gmx (bw + d * (if co then 2 else 1))))
         | PInf \<Rightarrow> Fin (max (min 100 (mx * 0.1)) gmx)
         | NInf \<Rightarrow> Fin (min 100 (mx * 0.1))
         | NaN \<Rightarrow> NaN)
      else Fin bw,
      if dir_includes (dir rg) CHR ''n'' then
        (case (mY - y (lastValidPos rg)) / y (scaleFactors rg) of
           Fin d \<Rightarrow> Fin (max (min 100 (my * 0.1)) (min gmy (bh - d * (if co then 2 else 1))))
         | PInf \<Rightarrow> Fin (min 100 (my * 0.1))
         | NInf \<Rightarrow> Fin (max (min 100 (my * 0.1)) gmy)
         | NaN \<Rightarrow> NaN)
      else if dir_includes (dir rg) CHR ''s'' then
        (case (mY - y (lastValidPos rg)) / y (scaleFactors rg) of
           Fin d \<Rightarrow> Fin (max (min 100 (my * 0.1)) (min gmy (bh + d * (if co then 2 else 1))))
         | PInf \<Rightarrow> Fin (max (min 100 (my * 0.1)) gmy)
         | NInf \<Rightarrow> Fin (min 100 (my * 0.1))
         | NaN \<Rightarrow> NaN)
      else Fin bh)"
proof -
  define ml :: real where "ml = (if co then 2 else 1)"
  have ml: "(if co then Fin 2 else Fin 1) = Fin ml" "0 < ml" by (simp_all add: ml_def)
  note ms = minSize_Fin [OF m]
  define dx where "dx = (mX - x (lastValidPos rg)) / x (scaleFactors rg)"
  define dy where "dy = (mY - y (lastValidPos rg)) / y (scaleFactors rg)"
  have w: "newWidth (dir rg) (toBounds (box rg)) dx (Fin ml) (minSize cs) (mapped rg) =
      (if dir_includes (dir rg) CHR ''w'' then
         clamp (Fin bw - dx * Fin ml) (Fin (min 100 (mx * 0.1))) (Fin gmx)
       else if dir_includes (dir rg) CHR ''e'' then
         clamp (Fin bw + dx * Fin ml) (Fin (min 100 (mx * 0.1))) (Fin gmx)
       else Fin bw)"
    by (simp add: newWidth_def toBounds_def b ms gm del: times_jsnum.simps clamp_Fin)
  have h: "newHeight (dir rg) (toBounds (box rg)) dy (Fin ml) (minSize cs) (mapped rg) =
      (if dir_includes (dir rg) CHR ''n'' then
         clamp (Fin bh - dy * Fin ml) (Fin (min 100 (my * 0.1))) (Fin gmy)
       else if dir_includes (dir rg) CHR ''s'' then
         clamp (Fin bh + dy * Fin ml) (Fin (min 100 (my * 0.1))) (Fin gmy)
       else Fin bh)"
    by (simp add: newHeight_def toBounds_def b ms gm del: times_jsnum.simps clamp_Fin)
  have "resizeCandidate mX mY co rg cs =
     (if dir_includes (dir rg) CHR ''w'' then
        (case dx of
           Fin d \<Rightarrow> Fin (max (min 100 (mx * 0.1)) (min gmx (bw - d * ml)))
         | PInf \<Rightarrow> Fin (min 100 (mx * 0.1))
         | NInf \<Rightarrow> Fin (max (min 100 (mx * 0.1)) gmx)
         | NaN \<Rightarrow> NaN)
      else if dir_includes (dir rg) CHR ''e'' then
        (case dx of
           Fin d \<Rightarrow> Fin (max (min 100 (mx * 0.1)) (min gmx (bw + d * ml)))
         | PInf \<Rightarrow> Fin (max (min 100 (mx * 0.1)) gmx)
         | NInf \<Rightarrow> Fin (min 100 (mx * 0.1))
         | NaN \<Rightarrow> NaN)
      else Fin bw,
      if dir_includes (dir rg) CHR ''n'' then
        (case dy of
           Fin d \<Rightarrow> Fin (max (min 100 (my * 0.1)) (min gmy (bh - d * ml)))
         | PInf \<Rightarrow> Fin (min 100 (my * 0.1))
         | NInf \<Rightarrow> Fin (max (min 100 (my * 0.1)) gmy)
         | NaN \<Rightarrow> NaN)
      else if dir_includes (dir rg) CHR ''s'' then
        (case dy of
           Fin d \<Rightarrow> Fin (max (min 100 (my * 0.1)) (min gmy (bh + d * ml)))
         | PInf \<Rightarrow> Fin (max (min 100 (my * 0.1)) gmy)
         | NInf \<Rightarrow> Fin (min 100 (my * 0.1))
         | NaN \<Rightarrow> NaN)
      else Fin bh)"
    unfolding resizeCandidate_cached ml(1) dx_def [symmetric] dy_def [symmetric] w h
      clamp_grow_cases [OF ml(2)] clamp_shrink_cases [OF ml(2)] ..
  then show ?thesis unfolding ml_def dx_def dy_def .
qed

lemma resize_committed_size:
  assumes "snapOf mX mY co rg cs = None"
  shows "size_xy (crop (snd (handleResizeMove mX mY co rg cs))) =
     \<lparr>x = (if x (mapped rg) < fst (resizeCandidate mX mY co rg cs) then x (mapped rg)
           else fst (resizeCandidate mX mY co rg cs)),
      y = (if y (mapped rg) < snd (resizeCandidate mX mY co rg cs) then y (mapped rg)
           else snd (resizeCandidate mX mY co rg cs))\<rparr>"
  unfolding handleResizeMove_nosnap [OF assms]
  by (simp add: Let_def setCrop_def constrainToBoundary_def resize_def toBounds_def)

text \<open>
  C6.  The claim: an event whose computed delta is not finite is discarded before any
  Box mutation, and the committed crop after it equals the crop before.

  No handler tests a delta.  A drag whose scale factors are zero (the container had no
  extent when the drag started) computes the delta \<open>1 / 0\<close>, which is
  \<open>+Infinity\<close>; \<open>clamp\<close> turns it into the upper bound, and the crop is committed
  at (500, 500) instead of (0, 0): \<open>C6_counterexample\<close>.

  What holds, \<open>C6_nonfinite_delta_committed\<close>, over a finite mapped size and a finite
  crop: every handler that converts a delta commits what its clamp makes of the delta,
  whatever the delta is.
  \<^item> A move of the position (a pointer move of a drag, a wheel pan, a touch move with
    one finger, a touch move with two fingers whose pinched size is finite, and a
    keyboard move over a crop that is not larger than the mapped size) commits, on each
    axis, \<open>max(0, mapped - size)\<close> for the delta \<open>+Infinity\<close>, 0 for
    \<open>-Infinity\<close>, NaN for NaN, and \<open>max(0, min(mapped - size, position + delta))\<close>
    for a finite delta; \<open>size\<close> is the size that is committed with it.  The drag
    records the pointer position of the move whatever the delta is.
  \<^item> A wheel scale over a mapped size that is not negative and a positive crop size
    commits the minimum size for \<open>deltaY = +Infinity\<close>, the mapped size for
    \<open>-Infinity\<close>, NaN in both dimensions for NaN, and the clamped scaled size for a
    finite \<open>deltaY\<close>.
  \<^item> In a handle resize whose closure holds a finite box size and a finite mapped size,
    the candidate width for a handle that names the axis is NaN for the delta NaN; for
    a west handle it is the minimum for \<open>+Infinity\<close> and the larger of minimum and
    cached mapped width for \<open>-Infinity\<close>; for an east handle it is the other way
    round; a handle that does not name the axis leaves the width of the cached box.  The
    height does the same with north for west and south for east.
  \<^item> A move of a handle resize that records no snap match commits the candidate size,
    cut to the cached mapped size where it is larger; a NaN candidate is committed as
    NaN.
\<close>

theorem C6_nonfinite_delta_committed:
  assumes m: "mappedSize cs = \<lparr>x = Fin mx, y = Fin my\<rparr>"
    and c: "crop cs = \<lparr>position = \<lparr>x = Fin a, y = Fin b\<rparr>, size_xy = \<lparr>x = Fin w, y = Fin h\<rparr>\<rparr>"
  shows
   "position (crop (snd (handleDrag e r g cs))) =
        \<lparr>x = (case (clientX e - lastX g) / x (drag_scaleFactors g) of
                 Fin d \<Rightarrow> Fin (max 0 (min (mx - w) (a + d))) | PInf \<Rightarrow> Fin (max 0 (mx - w))
               | NInf \<Rightarrow> Fin 0 | NaN \<Rightarrow> NaN),
          y = (case (clientY e - lastY g) / y (drag_scaleFactors g) of
                 Fin d \<Rightarrow> Fin (max 0 (min (my - h) (b + d))) | PInf \<Rightarrow> Fin (max 0 (my - h))
               | NInf \<Rightarrow> Fin 0 | NaN \<Rightarrow> NaN)\<rparr>
    \<and> lastX (fst (handleDrag e r g cs)) = clientX e
    \<and> lastY (fst (handleDrag e r g cs)) = clientY e
    \<and> (\<not> wheel_ctrlKey ev \<longrightarrow>
        position (crop (handleWheel ev cs)) =
        \<lparr>x = (case (- deltaX ev * Math_max (Fin 1) (Math_abs (deltaY ev) * Fin 0.01)) /
                      x (containerToMappedSizeScale cs) of
                 Fin d \<Rightarrow> Fin (max 0 (min (mx - w) (a + d))) | PInf \<Rightarrow> Fin (max 0 (mx - w))
               | NInf \<Rightarrow> Fin 0 | NaN \<Rightarrow> NaN),
          y = (case (- deltaY ev * Math_max (Fin 1) (Math_abs (deltaY ev) * Fin 0.01)) /
                      y (containerToMappedSizeScale cs) of
                 Fin d \<Rightarrow> Fin (max 0 (min (my - h) (b + d))) | PInf \<Rightarrow> Fin (max 0 (my - h))
               | NInf \<Rightarrow> Fin 0 | NaN \<Rightarrow> NaN)\<rparr>)
    \<and> (wheel_ctrlKey ev \<and> 0 \<le> mx \<and> 0 \<le> my \<and> 0 < w \<and> 0 < h \<longrightarrow>
        size_xy (crop (handleWheel ev cs)) =
          (case deltaY ev of
             Fin d \<Rightarrow> \<lparr>x = clamp (Fin w * wheelScale (Fin d)) (x (minSize cs)) (Fin mx),
                       y = clamp (Fin h * wheelScale (Fin d)) (y (minSize cs)) (Fin my)\<rparr>
           | PInf \<Rightarrow> minSize cs
           | NInf \<Rightarrow> \<lparr>x = Fin mx, y = Fin my\<rparr>
           | NaN \<Rightarrow> \<lparr>x = NaN, y = NaN\<rparr>))
    \<and> (dragging cs \<and> lastTouchCenter (gestureState cs) = Some ctr \<longrightarrow>
        position (crop (handleTouchMove [t] cs)) =
        \<lparr>x = (case (touch_clientX t - x ctr) / x (containerToMappedSizeScale cs) of
                 Fin d \<Rightarrow> Fin (max 0 (min (mx - w) (a + d))) | PInf \<Rightarrow> Fin (max 0 (mx - w))
               | NInf \<Rightarrow> Fin 0 | NaN \<Rightarrow> NaN),
          y = (case (touch_clientY t - y ctr) / y (containerToMappedSizeScale cs) of
                 Fin d \<Rightarrow> Fin (max 0 (min (my - h) (b + d))) | PInf \<Rightarrow> Fin (max 0 (my - h))
               | NInf \<Rightarrow> Fin 0 | NaN \<Rightarrow> NaN)\<rparr>)
    \<and> (lastTouchCenter (gestureState cs) = Some ctr \<and>
        pinchSize (distanceOf t1 t2 / initialPinchDistance (gestureState cs)) cs =
          (Fin pw, Fin ph) \<longrightarrow>
        position (crop (handleTouchMove [t1, t2] cs)) =
        \<lparr>x = (case ((touch_clientX t1 + touch_clientX t2) / Fin 2 - x ctr) /
                      x (containerToMappedSizeScale cs) of
                 Fin d \<Rightarrow> Fin (max 0 (min (mx - pw) (a + w * 0.5 - pw * 0.5 + d))) | PInf \<Rightarrow> Fin (max 0 (mx - pw))
               | NInf \<Rightarrow> Fin 0 | NaN \<Rightarrow> NaN),
          y = (case ((touch_clientY t1 + touch_clientY t2) / Fin 2 - y ctr) /
                      y (containerToMappedSizeScale cs) of
                 Fin d \<Rightarrow> Fin (max 0 (min (my - ph) (b + h * 0.5 - ph * 0.5 + d))) | PInf \<Rightarrow> Fin (max 0 (my - ph))
               | NInf \<Rightarrow> Fin 0 | NaN \<Rightarrow> NaN)\<rparr>)
    \<and> (\<not> metaKey kev \<and> \<not> ctrlKey kev \<and> w \<le> mx \<and> h \<le> my \<longrightarrow>
        position (crop (keyFrame kev kd cs)) =
        \<lparr>x = (case (if dir_includes kd CHR ''e'' then (if shiftKey kev then Fin 20 else Fin 5)
                     else if dir_includes kd CHR ''w''
                       then - (if shiftKey kev then Fin 20 else Fin 5)
                     else Fin 0) / x (containerToMappedSizeScale cs) of
                 Fin d \<Rightarrow> Fin (max 0 (min (mx - w) (a + d))) | PInf \<Rightarrow> Fin (max 0 (mx - w))
               | NInf \<Rightarrow> Fin 0 | NaN \<Rightarrow> NaN),
          y = (case (if dir_includes kd CHR ''s'' then (if shiftKey kev then Fin 20 else Fin 5)
                     else if dir_includes kd CHR ''n''
                       then - (if shiftKey kev then Fin 20 else Fin 5)
                     else Fin 0) / y (containerToMappedSizeScale cs) of
                 Fin d \<Rightarrow> Fin (max 0 (min (my - h) (b + d))) | PInf \<Rightarrow> Fin (max 0 (my - h))
               | NInf \<Rightarrow> Fin 0 | NaN \<Rightarrow> NaN)\<rparr>)
    \<and> (width (box rg) = Fin bw \<and> height (box rg) = Fin bh \<and>
        mapped rg = \<lparr>x = Fin gmx, y = Fin gmy\<rparr> \<longrightarrow>
        resizeCandidate mX mY co rg cs =
         (if dir_includes (dir rg) CHR ''w'' then
            (case (mX - x (lastValidPos rg)) / x (scaleFactors rg) of
               Fin d \<Rightarrow> Fin (max (min 100 (mx * 0.1)) (min gmx (bw - d * (if co then 2 else 1))))
             | PInf \<Rightarrow> Fin (min 100 (mx * 0.1))
             | NInf \<Rightarrow> Fin (max (min 100 (mx * 0.1)) gmx)
             | NaN \<Rightarrow> NaN)
          else if dir_includes (dir rg) CHR ''e'' then
            (case (mX - x (lastValidPos rg)) / x (scaleFactors rg) of
               Fin d \<Rightarrow> Fin (max (min 100 (mx * 0.1)) (min gmx (bw + d * (if co then 2 else 1))))
             | PInf \<Rightarrow> Fin (max (min 100 (mx * 0.1)) gmx)
             | NInf \<Rightarrow> Fin (min 100 (mx * 0.1))
             | NaN \<Rightarrow> NaN)
          else Fin bw,
          if dir_includes (dir rg) CHR ''n'' then
            (case (mY - y (lastValidPos rg)) / y (scaleFactors rg) of
               Fin d \<Rightarrow> Fin (max (min 100 (my * 0.1)) (min gmy (bh - d * (if co then 2 else 1))))
             | PInf \<Rightarrow> Fin (min 100 (my * 0.1))
             | NInf \<Rightarrow> Fin (max (min 100 (my * 0.1)) gmy)
             | NaN \<Rightarrow> NaN)
          else if dir_includes (dir rg) CHR ''s'' then
            (case (mY - y (lastValidPos rg)) / y (scaleFactors rg) of
               Fin d \<Rightarrow> Fin (max (min 100 (my * 0.1)) (min gmy (bh + d * (if co then 2 else 1))))
             | PInf \<Rightarrow> Fin (max (min 100 (my * 0.1)) gmy)
             | NInf \<Rightarrow> Fin (min 100 (my * 0.1))
             | NaN \<Rightarrow> NaN)
          else Fin bh))
    \<and> (snapOf mX mY co rg cs = None \<longrightarrow>
        size_xy (crop (snd (handleResizeMove mX mY co rg cs))) =
          \<lparr>x = (if x (mapped rg) < fst (resizeCandidate mX mY co rg cs) then x (mapped rg)
                else fst (resizeCandidate mX mY co rg cs)),
           y = (if y (mapped rg) < snd (resizeCandidate mX mY co rg cs) then y (mapped rg)
                else snd (resizeCandidate mX mY co rg cs))\<rparr>)"
proof -
  have l: "lastX (fst (handleDrag e r g cs)) = clientX e"
    "lastY (fst (handleDrag e r g cs)) = clientY e"
    by (simp_all add: handleDrag_def Let_def)
  show ?thesis
    by (intro conjI impI drag_cases [OF m c] l wheel_pan_cases [OF m c]
        wheel_scale_cases [OF m] touch_pan_cases [OF m c] pinch_pan_cases [OF m c]
        key_move_cases [OF m c] resize_candidate_cases [OF m] resize_committed_size;
        (elim conjE)?; (assumption | simp add: c))
qed

lemma collapsed_facts:
  "mappedSize (collapsedCropper\<lparr>dragging := True\<rparr>) = \<lparr>x = Fin 1000, y = Fin 1000\<rparr>"
  "crop (collapsedCropper\<lparr>dragging := True\<rparr>) =
       \<lparr>position = \<lparr>x = Fin 0, y = Fin 0\<rparr>, size_xy = \<lparr>x = Fin 500, y = Fin 500\<rparr>\<rparr>"
  by (simp_all add: collapsedCropper_def scenarioCropper_def cropperOf_def mappedSize_def)

lemma collapsed_plain:
  "mappedSize collapsedCropper = \<lparr>x = Fin 1000, y = Fin 1000\<rparr>"
  "crop collapsedCropper =
     \<lparr>position = \<lparr>x = Fin 0, y = Fin 0\<rparr>, size_xy = \<lparr>x = Fin 500, y = Fin 500\<rparr>\<rparr>"
  "containerToMappedSizeScale collapsedCropper = \<lparr>x = Fin 0, y = Fin 0\<rparr>"
  "minSize collapsedCropper = \<lparr>x = Fin 100, y = Fin 100\<rparr>"
  by (simp_all add: collapsedCropper_def scenarioCropper_def cropperOf_def mappedSize_def
      containerToMappedSizeScale_def minSize_def Let_def)

theorem C6_witness:
  "position (crop (snd (handleDrag (mouseAt 11 20) None
        \<lparr>lastX = Fin 10, lastY = Fin 20, drag_scaleFactors = \<lparr>x = Fin 0, y = Fin 0\<rparr>\<rparr>
        (collapsedCropper\<lparr>dragging := True\<rparr>)))) = \<lparr>x = Fin 500, y = NaN\<rparr>
   \<and> position (crop (snd (handleDrag (mouseAt 9 20) None
        \<lparr>lastX = Fin 10, lastY = Fin 20, drag_scaleFactors = \<lparr>x = Fin 0, y = Fin 0\<rparr>\<rparr>
        (collapsedCropper\<lparr>dragging := True\<rparr>)))) = \<lparr>x = Fin 0, y = NaN\<rparr>
   \<and> position (crop (handleWheel \<lparr>wheel_ctrlKey = False, deltaX = Fin (- 1), deltaY = Fin 1\<rparr>
        collapsedCropper)) = \<lparr>x = Fin 500, y = Fin 0\<rparr>
   \<and> size_xy (crop (handleWheel \<lparr>wheel_ctrlKey = True, deltaX = Fin 0, deltaY = PInf\<rparr>
        collapsedCropper)) = \<lparr>x = Fin 100, y = Fin 100\<rparr>
   \<and> position (crop (keyFrame (keyEvent ''ArrowRight'' False False False) E collapsedCropper)) =
       \<lparr>x = Fin 500, y = NaN\<rparr>
   \<and> resizeCandidate (Fin 401) (Fin 300) False
        (handleResizeStart (Fin 400) (Fin 300) W collapsedCropper) collapsedCropper =
       (Fin 100, Fin 500)
   \<and> resizeCandidate (Fin 401) (Fin 300) False
        (handleResizeStart (Fin 400) (Fin 300) E collapsedCropper) collapsedCropper =
       (Fin 1000, Fin 500)
   \<and> size_xy (crop (snd (handleResizeMove (Fin 400) (Fin 300) False
        (handleResizeStart (Fin 400) (Fin 300) E collapsedCropper) collapsedCropper))) =
       \<lparr>x = NaN, y = Fin 500\<rparr>"
proof -
  note rest = conjunct2 [THEN conjunct2, THEN conjunct2]
  note G = C6_nonfinite_delta_committed [OF collapsed_facts]
  note H = C6_nonfinite_delta_committed [OF collapsed_plain(1,2)]
  have d1: "position (crop (snd (handleDrag (mouseAt 11 20) None
        \<lparr>lastX = Fin 10, lastY = Fin 20, drag_scaleFactors = \<lparr>x = Fin 0, y = Fin 0\<rparr>\<rparr>
        (collapsedCropper\<lparr>dragging := True\<rparr>)))) = \<lparr>x = Fin 500, y = NaN\<rparr>"
    using G [where e = "mouseAt 11 20" and r = None
        and g = "\<lparr>lastX = Fin 10, lastY = Fin 20, drag_scaleFactors = \<lparr>x = Fin 0, y = Fin 0\<rparr>\<rparr>",
        THEN conjunct1]
    by (simp add: mouseAt_def)
  have d2: "position (crop (snd (handleDrag (mouseAt 9 20) None
        \<lparr>lastX = Fin 10, lastY = Fin 20, drag_scaleFactors = \<lparr>x = Fin 0, y = Fin 0\<rparr>\<rparr>
        (collapsedCropper\<lparr>dragging := True\<rparr>)))) = \<lparr>x = Fin 0, y = NaN\<rparr>"
    using G [where e = "mouseAt 9 20" and r = None
        and g = "\<lparr>lastX = Fin 10, lastY = Fin 20, drag_scaleFactors = \<lparr>x = Fin 0, y = Fin 0\<rparr>\<rparr>",
        THEN conjunct1]
    by (simp add: mouseAt_def)
  have wp: "position (crop (handleWheel \<lparr>wheel_ctrlKey = False, deltaX = Fin (- 1), deltaY = Fin 1\<rparr>
        collapsedCropper)) = \<lparr>x = Fin 500, y = Fin 0\<rparr>"
    using H [where ev = "\<lparr>wheel_ctrlKey = False, deltaX = Fin (- 1), deltaY = Fin 1\<rparr>",
        THEN rest, THEN conjunct1]
    by (simp add: collapsed_plain(3))
  have ws: "size_xy (crop (handleWheel \<lparr>wheel_ctrlKey = True, deltaX = Fin 0, deltaY = PInf\<rparr>
        collapsedCropper)) = \<lparr>x = Fin 100, y = Fin 100\<rparr>"
    using H [where ev = "\<lparr>wheel_ctrlKey = True, deltaX = Fin 0, deltaY = PInf\<rparr>",
        THEN rest, THEN conjunct2, THEN conjunct1]
    by (simp add: collapsed_plain(4))
  have ke: "\<not> metaKey (keyEvent ''ArrowRight'' False False False)"
      "\<not> ctrlKey (keyEvent ''ArrowRight'' False False False)"
      "\<not> shiftKey (keyEvent ''ArrowRight'' False False False)"
    by (simp_all add: keyEvent_def)
  have kb: "position (crop (keyFrame (keyEvent ''ArrowRight'' False False False) E
        collapsedCropper)) = \<lparr>x = Fin 500, y = NaN\<rparr>"
    using H [where kev = "keyEvent ''ArrowRight'' False False False" and kd = E,
        THEN rest, THEN rest, THEN conjunct2, THEN conjunct1] ke(1,2)
    by (simp add: collapsed_plain(3) ke(3) dir_includes_def)
  have gw: "width (box (handleResizeStart (Fin 400) (Fin 300) W collapsedCropper)) = Fin 500"
      "height (box (handleResizeStart (Fin 400) (Fin 300) W collapsedCropper)) = Fin 500"
      "mapped (handleResizeStart (Fin 400) (Fin 300) W collapsedCropper) =
         \<lparr>x = Fin 1000, y = Fin 1000\<rparr>"
      "dir (handleResizeStart (Fin 400) (Fin 300) W collapsedCropper) = W"
      "lastValidPos (handleResizeStart (Fin 400) (Fin 300) W collapsedCropper) =
         \<lparr>x = Fin 400, y = Fin 300\<rparr>"
      "scaleFactors (handleResizeStart (Fin 400) (Fin 300) W collapsedCropper) =
         \<lparr>x = Fin 0, y = Fin 0\<rparr>"
    by (simp_all add: handleResizeStart_def collapsed_plain Box_from_def)
  have ge: "width (box (handleResizeStart (Fin 400) (Fin 300) E collapsedCropper)) = Fin 500"
      "height (box (handleResizeStart (Fin 400) (Fin 300) E collapsedCropper)) = Fin 500"
      "mapped (handleResizeStart (Fin 400) (Fin 300) E collapsedCropper) =
         \<lparr>x = Fin 1000, y = Fin 1000\<rparr>"
      "dir (handleResizeStart (Fin 400) (Fin 300) E collapsedCropper) = E"
      "lastValidPos (handleResizeStart (Fin 400) (Fin 300) E collapsedCropper) =
         \<lparr>x = Fin 400, y = Fin 300\<rparr>"
      "scaleFactors (handleResizeStart (Fin 400) (Fin 300) E collapsedCropper) =
         \<lparr>x = Fin 0, y = Fin 0\<rparr>"
    by (simp_all add: handleResizeStart_def collapsed_plain Box_from_def)
  have rw: "resizeCandidate (Fin 401) (Fin 300) False
        (handleResizeStart (Fin 400) (Fin 300) W collapsedCropper) collapsedCropper =
       (Fin 100, Fin 500)"
    using H [where rg = "handleResizeStart (Fin 400) (Fin 300) W collapsedCropper"
        and bw = 500 and bh = 500 and gmx = 1000 and gmy = 1000
        and mX = "Fin 401" and mY = "Fin 300" and co = False,
        THEN rest, THEN rest, THEN conjunct2, THEN conjunct2, THEN conjunct1] gw(1-3)
    by (simp add: gw(4-6) dir_includes_def)
  have re: "resizeCandidate (Fin 401) (Fin 300) False
        (handleResizeStart (Fin 400) (Fin 300) E collapsedCropper) collapsedCropper =
       (Fin 1000, Fin 500)"
    using H [where rg = "handleResizeStart (Fin 400) (Fin 300) E collapsedCropper"
        and bw = 500 and bh = 500 and gmx = 1000 and gmy = 1000
        and mX = "Fin 401" and mY = "Fin 300" and co = False,
        THEN rest, THEN rest, THEN conjunct2, THEN conjunct2, THEN conjunct1] ge(1-3)
    by (simp add: ge(4-6) dir_includes_def)
  have rn: "resizeCandidate (Fin 400) (Fin 300) False
        (handleResizeStart (Fin 400) (Fin 300) E collapsedCropper) collapsedCropper =
       (NaN, Fin 500)"
    using H [where rg = "handleResizeStart (Fin 400) (Fin 300) E collapsedCropper"
        and bw = 500 and bh = 500 and gmx = 1000 and gmy = 1000
        and mX = "Fin 400" and mY = "Fin 300" and co = False,
        THEN rest, THEN rest, THEN conjunct2, THEN conjunct2, THEN conjunct1] ge(1-3)
    by (simp add: ge(4-6) dir_includes_def)
  have sn: "snapOf (Fin 400) (Fin 300) False
        (handleResizeStart (Fin 400) (Fin 300) E collapsedCropper) collapsedCropper = None"
    by (simp add: snapOf_def snapMatch_def ge(4) dir_length_def)
  have rc: "size_xy (crop (snd (handleResizeMove (Fin 400) (Fin 300) False
        (handleResizeStart (Fin 400) (Fin 300) E collapsedCropper) collapsedCropper))) =
       \<lparr>x = NaN, y = Fin 500\<rparr>"
    using H [where rg = "handleResizeStart (Fin 400) (Fin 300) E collapsedCropper"
        and mX = "Fin 400" and mY = "Fin 300" and co = False,
        THEN rest, THEN rest, THEN rest, rule_format, OF sn]
    by (simp add: rn ge(3))
  show ?thesis using d1 d2 wp ws kb rw re rc by blast
qed

theorem C6_counterexample:
  "(clientX (mouseAt 11 21) - Fin 10) / Fin 0 = PInf
   \<and> (clientY (mouseAt 11 21) - Fin 20) / Fin 0 = PInf
   \<and> crop (collapsedCropper\<lparr>dragging := True\<rparr>) =
       \<lparr>position = \<lparr>x = Fin 0, y = Fin 0\<rparr>, size_xy = \<lparr>x = Fin 500, y = Fin 500\<rparr>\<rparr>
   \<and> crop (snd (handleDrag (mouseAt 11 21) None
        \<lparr>lastX = Fin 10, lastY = Fin 20, drag_scaleFactors = \<lparr>x = Fin 0, y = Fin 0\<rparr>\<rparr>
        (collapsedCropper\<lparr>dragging := True\<rparr>))) =
       \<lparr>position = \<lparr>x = Fin 500, y = Fin 500\<rparr>, size_xy = \<lparr>x = Fin 500, y = Fin 500\<rparr>\<rparr>"
  by (simp add: handleDrag_def Let_def Box_from_def move_def toBounds_def collapsedCropper_def
      scenarioCropper_def cropperOf_def mappedSize_def mouseAt_def updateRecordingBoxPosition_def
      setCrop_def)

end
